theory Spec2Isabelle
  imports Main
begin

section \<open>Python syntax of the notebook cells\<close>

text \<open>
  The repository is a set of nine Jupyter notebooks. A notebook is a list of cells; a cell
  is either Markdown prose or Python code. Code cells are kept as the abstract syntax of
  Python's own \<^verbatim>\<open>ast\<close> module (constructor and field names follow it; load/store
  contexts and source comments are dropped), prose cells as their source lines without the
  line terminators.
\<close>

datatype pyconst =
    CNone
  | CBool bool
  | CInt int
  | CFloat string
  | CStr string

datatype operator = Add | Sub | Mult

datatype unaryop = USub | UNot

datatype expr =
    Name string
  | Constant pyconst
  | Attribute expr string
  | Subscript expr expr
  | Call expr "expr list" "keyword list"
  | Starred expr
  | BinOp expr operator expr
  | UnaryOp unaryop expr
  | PyList "expr list"
  | PyTuple "expr list"
  | PyDict "expr list" "expr list"
  | JoinedStr "expr list"
  | FormattedValue expr
  | Await expr
and keyword = Keyword "string option" expr

datatype pyalias = Alias string "string option"

datatype stmt =
    Import "pyalias list"
  | ImportFrom string "pyalias list"
  | Assign "expr list" expr
  | Expr expr
  | For expr expr "stmt list" "stmt list"
  | If expr "stmt list" "stmt list"
  | While expr "stmt list" "stmt list"
  | With "expr list" "stmt list"
  | Try "stmt list" "excepthandler list" "stmt list" "stmt list"
  | Raise expr
  | FunctionDef string "string list" "stmt list"
  | AsyncFunctionDef string "string list" "stmt list"
  | ClassDef string "expr list" "stmt list"
  | AsyncFor expr expr "stmt list" "stmt list"
  | AsyncWith "expr list" "stmt list"
  | Global "string list"
and excepthandler = ExceptHandler "expr option" "string option" "stmt list"

datatype cell = Markdown "string list" | Code "stmt list"

type_synonym notebook = "cell list"

section \<open>The notebooks\<close>

subsection \<open>Cross-Sections\<close>

text \<open>Notebook 1 of \<^verbatim>\<open>src/unnamed/part_000\<close>, 21 cells.\<close>

definition cross_sections_0 :: cell where
  "cross_sections_0 =
   Markdown [''# Cross-Sections'',
             '''',
             ''This section demonstrates how to extract cross-sections from an unstructured grid using UXarray, which allows the analysis and visualization across slices of grids. Cross-sections can be performed directly on a `ux.Grid` object or on a `ux.UxDataArray`'']"

definition cross_sections_1 :: cell where
  "cross_sections_1 =
   Code [Import [Alias ''cartopy.crs'' (Some ''ccrs'')],
         Import [Alias ''geoviews'' (Some ''gv'')],
         Import [Alias ''geoviews.feature'' (Some ''gf'')],
         Import [Alias ''uxarray'' (Some ''ux'')],
         Assign [Name ''projection''] (Call (Attribute (Name ''ccrs'') ''Robinson'') [] [])]"

definition cross_sections_2 :: cell where
  "cross_sections_2 =
   Code [Assign [Name ''base_path'']
           (Constant (CStr ''../../test/meshfiles/ugrid/outCSne30/'')),
         Assign [Name ''grid_path'']
           (BinOp (Name ''base_path'') Add (Constant (CStr ''outCSne30.ug''))),
         Assign [Name ''data_path'']
           (BinOp (Name ''base_path'') Add (Constant (CStr ''outCSne30_vortex.nc''))),
         Assign [Name ''uxds'']
           (Call (Attribute (Name ''ux'') ''open_dataset'')
                 [Name ''grid_path'', Name ''data_path'']
                 []),
         Expr (Call (Attribute (Subscript (Name ''uxds'') (Constant (CStr ''psi''))) ''plot'')
                    []
                    [Keyword (Some ''cmap'') (Constant (CStr ''inferno'')),
                     Keyword (Some ''periodic_elements'') (Constant (CStr ''split'')),
                     Keyword (Some ''projection'') (Name ''projection''),
                     Keyword (Some ''title'') (Constant (CStr ''Global Plot''))])]"

definition cross_sections_3 :: cell where
  "cross_sections_3 =
   Markdown [''## Constant Latitude'',
             '''',
             ''Cross-sections along constant latitude lines can be obtained by using the  ``.cross_section.constant_latitude(lat)`` method. The sliced grid will be made up of the faces that contain at least one edge that intersects with a line of constant latitude.'']"

definition cross_sections_4 :: cell where
  "cross_sections_4 =
   Markdown [''For example, we can obtain a cross-section at 0 degrees latitude by doing the following:'']"

definition cross_sections_5 :: cell where
  "cross_sections_5 =
   Code [Assign [Name ''lat''] (Constant (CInt 0)),
         Assign [Name ''uxda_constant_lat'']
           (Call (Attribute (Attribute (Subscript (Name ''uxds'') (Constant (CStr ''psi''))) ''cross_section'') ''constant_latitude'')
                 [Name ''lat'']
                 [])]"

definition cross_sections_6 :: cell where
  "cross_sections_6 =
   Markdown [''Since the result is a new ``UxDataArray``, we can directly plot the result to see the cross-section.'']"

definition cross_sections_7 :: cell where
  "cross_sections_7 =
   Code [Expr (BinOp (Call (Attribute (Name ''uxda_constant_lat'') ''plot'')
                           []
                           [Keyword (Some ''rasterize'') (Constant (CBool False)),
                            Keyword (Some ''backend'') (Constant (CStr ''bokeh'')),
                            Keyword (Some ''cmap'') (Constant (CStr ''inferno'')),
                            Keyword (Some ''projection'') (Name ''projection''),
                            Keyword (Some ''global_extent'') (Constant (CBool True)),
                            Keyword (Some ''coastline'') (Constant (CBool True)),
                            Keyword (Some ''title'') (JoinedStr [Constant (CStr ''Cross Section at ''),
                                                                 FormattedValue (Name ''lat''),
                                                                 Constant (CStr '' degrees latitude'')])])
                     Mult
                     (Call (Attribute (Name ''gf'') ''grid'')
                           []
                           [Keyword (Some ''projection'') (Name ''projection'')]))]"

definition cross_sections_8 :: cell where
  "cross_sections_8 =
   Markdown [''You can also perform operations on the cross-section, such as taking the mean.'']"

definition cross_sections_9 :: cell where
  "cross_sections_9 =
   Code [Expr (Call (Name ''print'')
                    [JoinedStr [Constant (CStr ''Global Mean: ''),
                                 FormattedValue (Call (Attribute (Attribute (Subscript (Name ''uxds'') (Constant (CStr ''psi''))) ''data'') ''mean'')
                                                       []
                                                       [])]]
                    []),
         Expr (Call (Name ''print'')
                    [JoinedStr [Constant (CStr ''Mean at ''),
                                 FormattedValue (Name ''lat''),
                                 Constant (CStr '' degrees lat: ''),
                                 FormattedValue (Call (Attribute (Attribute (Name ''uxda_constant_lat'') ''data'') ''mean'')
                                                       []
                                                       [])]]
                    [])]"

definition cross_sections_10 :: cell where
  "cross_sections_10 =
   Markdown [''## Constant Longitude'',
             '''',
             '''',
             ''Cross-sections along constant longitude lines can be obtained using the ``.cross_section.constant_longitude(lon)`` method. The sliced grid will be made up of the faces that contain at least one edge that intersects with a line of constant longitude.'']"

definition cross_sections_11 :: cell where
  "cross_sections_11 =
   Code [Assign [Name ''lon''] (Constant (CInt 90)),
         Assign [Name ''uxda_constant_lon'']
           (Call (Attribute (Attribute (Subscript (Name ''uxds'') (Constant (CStr ''psi''))) ''cross_section'') ''constant_longitude'')
                 [Name ''lon'']
                 [])]"

definition cross_sections_12 :: cell where
  "cross_sections_12 =
   Code [Expr (BinOp (Call (Attribute (Name ''uxda_constant_lon'') ''plot'')
                           []
                           [Keyword (Some ''rasterize'') (Constant (CBool False)),
                            Keyword (Some ''backend'') (Constant (CStr ''bokeh'')),
                            Keyword (Some ''cmap'') (Constant (CStr ''inferno'')),
                            Keyword (Some ''projection'') (Name ''projection''),
                            Keyword (Some ''global_extent'') (Constant (CBool True)),
                            Keyword (Some ''coastline'') (Constant (CBool True)),
                            Keyword (Some ''title'') (JoinedStr [Constant (CStr ''Cross Section at ''),
                                                                 FormattedValue (Name ''lon''),
                                                                 Constant (CStr '' degrees longitude'')]),
                            Keyword (Some ''periodic_elements'') (Constant (CStr ''split''))])
                     Mult
                     (Call (Attribute (Name ''gf'') ''grid'')
                           []
                           [Keyword (Some ''projection'') (Name ''projection'')]))]"

definition cross_sections_13 :: cell where
  "cross_sections_13 =
   Markdown [''## Constant Latitude Interval'',
             '''',
             ''Cross-sections between two lines of latitudes can be obtained using the ``.cross_section.constant_lats_interval(lats)`` method. The sliced grid will contain faces that are strictly between the latitude interval.'']"

definition cross_sections_14 :: cell where
  "cross_sections_14 =
   Code [Assign [Name ''lats'']
           (PyList [UnaryOp USub (Constant (CInt 20)), Constant (CInt 20)]),
         Assign [Name ''uxda_constant_lat_interval'']
           (Call (Attribute (Attribute (Subscript (Name ''uxds'') (Constant (CStr ''psi''))) ''cross_section'') ''constant_latitude_interval'')
                 [Name ''lats'']
                 [])]"

definition cross_sections_15 :: cell where
  "cross_sections_15 =
   Code [Expr (BinOp (Call (Attribute (Name ''uxda_constant_lat_interval'') ''plot'')
                           []
                           [Keyword (Some ''rasterize'') (Constant (CBool False)),
                            Keyword (Some ''backend'') (Constant (CStr ''bokeh'')),
                            Keyword (Some ''cmap'') (Constant (CStr ''inferno'')),
                            Keyword (Some ''projection'') (Name ''projection''),
                            Keyword (Some ''global_extent'') (Constant (CBool True)),
                            Keyword (Some ''coastline'') (Constant (CBool True)),
                            Keyword (Some ''title'') (JoinedStr [Constant (CStr ''Cross Section between ''),
                                                                 FormattedValue (Subscript (Name ''lats'') (Constant (CInt 0))),
                                                                 Constant (CStr '' and ''),
                                                                 FormattedValue (Subscript (Name ''lats'') (Constant (CInt 1))),
                                                                 Constant (CStr '' degrees latitude'')]),
                            Keyword (Some ''periodic_elements'') (Constant (CStr ''split''))])
                     Mult
                     (Call (Attribute (Name ''gf'') ''grid'')
                           []
                           [Keyword (Some ''projection'') (Name ''projection'')]))]"

definition cross_sections_16 :: cell where
  "cross_sections_16 =
   Markdown [''## Constant Longitude Interval'',
             '''',
             ''Cross-sections between two lines of longitude can be obtained using the ``.cross_section.constant_lons_interval(lons)`` method. The sliced grid will contain faces that are strictly between the longitude interval.'']"

definition cross_sections_17 :: cell where
  "cross_sections_17 =
   Code [Assign [Name ''lons'']
           (PyList [UnaryOp USub (Constant (CInt 25)), Constant (CInt 25)]),
         Assign [Name ''uxda_constant_lon_interval'']
           (Call (Attribute (Attribute (Subscript (Name ''uxds'') (Constant (CStr ''psi''))) ''cross_section'') ''constant_longitude_interval'')
                 [Name ''lats'']
                 [])]"

definition cross_sections_18 :: cell where
  "cross_sections_18 =
   Code [Expr (BinOp (Call (Attribute (Name ''uxda_constant_lon_interval'') ''plot'')
                           []
                           [Keyword (Some ''rasterize'') (Constant (CBool False)),
                            Keyword (Some ''backend'') (Constant (CStr ''bokeh'')),
                            Keyword (Some ''cmap'') (Constant (CStr ''inferno'')),
                            Keyword (Some ''projection'') (Name ''projection''),
                            Keyword (Some ''global_extent'') (Constant (CBool True)),
                            Keyword (Some ''coastline'') (Constant (CBool True)),
                            Keyword (Some ''title'') (JoinedStr [Constant (CStr ''Cross Section between ''),
                                                                 FormattedValue (Subscript (Name ''lons'') (Constant (CInt 0))),
                                                                 Constant (CStr '' and ''),
                                                                 FormattedValue (Subscript (Name ''lons'') (Constant (CInt 1))),
                                                                 Constant (CStr '' degrees longitude'')]),
                            Keyword (Some ''periodic_elements'') (Constant (CStr ''split''))])
                     Mult
                     (Call (Attribute (Name ''gf'') ''grid'')
                           []
                           [Keyword (Some ''projection'') (Name ''projection'')]))]"

definition cross_sections_19 :: cell where
  "cross_sections_19 =
   Markdown [''## Arbitrary Great Circle Arc (GCA)'']"

definition cross_sections_20 :: cell where
  "cross_sections_20 =
   Markdown [''```{warning}'',
             ''Arbitrary great circle arc cross sections are not yet implemented.'',
             ''```'']"

definition cross_sections :: notebook where
  "cross_sections =
   [cross_sections_0,
    cross_sections_1,
    cross_sections_2,
    cross_sections_3,
    cross_sections_4,
    cross_sections_5,
    cross_sections_6,
    cross_sections_7,
    cross_sections_8,
    cross_sections_9,
    cross_sections_10,
    cross_sections_11,
    cross_sections_12,
    cross_sections_13,
    cross_sections_14,
    cross_sections_15,
    cross_sections_16,
    cross_sections_17,
    cross_sections_18,
    cross_sections_19,
    cross_sections_20]"

subsection \<open>Working with HEALPix Data\<close>

text \<open>Notebook 2 of \<^verbatim>\<open>src/unnamed/part_000\<close>, 28 cells.\<close>

definition healpix_0 :: cell where
  "healpix_0 =
   Markdown [''# Working with HEALPix Data'',
             '''',
             ''In this notebook, we showcase how UXarray can be used with HEALPix data.'',
             ''* A brief overview into HEALPix'',
             ''* Representing a HEALPix grid in the UGRID conventions'',
             ''* Loading data that resides on HEALPix Grids'']"

definition healpix_1 :: cell where
  "healpix_1 =
   Code [Import [Alias ''cartopy.crs'' (Some ''ccrs'')],
         Import [Alias ''uxarray'' (Some ''ux'')]]"

definition healpix_2 :: cell where
  "healpix_2 =
   Markdown [''## What is HEALPix?'',
             '''',
             ''The Hierarchical Equal Area isoLatitude Pixelisation (HEALPix) algorithm is a method for the pixelisation of the'',
             ''2-sphere. It has three defining qualities.'',
             ''- The sphere is hierarchically tessellated into curvilinear quadrilaterals'',
             ''- Areas of all pixels at a given resolution are identical'',
             ''- Pixels are distributed on lines of constant latitude'',
             '''',
             ''```{note}'',
             ''For more information on HEALPix, you can refer to [this excellent overview](https://easy.gems.dkrz.de/Processing/healpix/index.html#hierarchical-healpix-output) in DKRZ'' @ [CHR 0x27] @ ''s Easy Gems documentation.'',
             ''```'',
             '''',
             '''',
             '''',
             '''']"

definition healpix_3 :: cell where
  "healpix_3 =
   Markdown [''## Representing a HEALPix Grid in the UGRID Conventions'',
             '''',
             ''Most datasets loaded into **UXarray** come with a dedicated grid file. However, for HEALPix datasets, the underlying grid structure is inferred from the number of cells.'',
             '''',
             ''For a HEALPix grid in a nested layout, the number of cells is defined by:'',
             '''',
             ''$$'',
             ''N_{'' @ [CHR 0x5C] @ ''text{cells}} = 12 '' @ [CHR 0x5C] @ ''cdot z^4,'',
             ''$$'',
             '''',
             ''where `z` is the *zoom level*. A higher zoom level increases the effective resolution of the grid.'',
             '''',
             ''The ``ux.Grid.from_healpix(zoom)`` classmethod can be used to construct a ``ux.Grid`` instance representing a HEALPix grid in the UGRID conventions.'',
             '''',
             '''',
             '''']"

definition healpix_4 :: cell where
  "healpix_4 =
   Code [Expr (Call (Attribute (Attribute (Name ''ux'') ''Grid'') ''from_healpix'')
                    []
                    [Keyword (Some ''zoom'') (Constant (CInt 3))])]"

definition healpix_5 :: cell where
  "healpix_5 =
   Markdown [''By default, our ``Grid`` will only contain the face coordinate values, which represent the HEALPix pixel locations. We can see this above with only the ``face_lon`` and ``face_lat`` variables populated.'',
             '''',
             ''However, much of UXarray functionality requires the boundaries of each cell to be defined. This is represented using the following variables:'',
             ''- ``node_lon``: Longitude of the corners of each cell'',
             ''- ``node_lat``: Latitude of the corners of each cell'',
             ''- ``face_node_connectivity``: The indices of the nodes that surround each face'',
             '''',
             ''An optional parameter, ``pixels_only``, is provided which can be set to ``True`` if you require the boundaries to be computed upfront.'']"

definition healpix_6 :: cell where
  "healpix_6 =
   Code [Expr (Call (Attribute (Attribute (Name ''ux'') ''Grid'') ''from_healpix'')
                    []
                    [Keyword (Some ''zoom'') (Constant (CInt 3)),
                     Keyword (Some ''pixels_only'') (Constant (CBool False))])]"

definition healpix_7 :: cell where
  "healpix_7 =
   Markdown [''However, even if you load in a HEALPix grid specifying that you do not want the connectivity upfront, they can still be constructed when desired because of UXarray'' @ [CHR 0x27] @ ''s internal design.'']"

definition healpix_8 :: cell where
  "healpix_8 =
   Code [Expr (Attribute (Call (Attribute (Attribute (Name ''ux'') ''Grid'') ''from_healpix'')
                               []
                               [Keyword (Some ''zoom'') (Constant (CInt 3)),
                                Keyword (Some ''pixels_only'') (Constant (CBool True))]) ''face_node_connectivity'')]"

definition healpix_9 :: cell where
  "healpix_9 =
   Markdown [''### Grid-Agnostic Functionality'',
             '''',
             ''Once loaded in, UXarray does not care about the underlying grid format, as it represents all formats in its unified UGRID-like convention. This means that all existing functionality is supported through the same UXarray inferface. Below are basic examples of plotting & remapping.'',
             '''',
             ''#### Plotting'',
             '''',
             ''By using UXarray'' @ [CHR 0x27] @ ''s plotting functionality, we can observe how increasing the ``zoom`` level leads to a higher-resolution grid.'',
             '''']"

definition healpix_10 :: cell where
  "healpix_10 =
   Code [Expr (Call (Attribute (BinOp (BinOp (Call (Attribute (Call (Attribute (Attribute (Name ''ux'') ''Grid'') ''from_healpix'')
                                                                    []
                                                                    [Keyword (Some ''zoom'') (Constant (CInt 2))]) ''plot'')
                                                   []
                                                   [Keyword (Some ''periodic_elements'') (Constant (CStr ''split'')),
                                                    Keyword (Some ''projection'') (Call (Attribute (Name ''ccrs'') ''Orthographic'')
                                                                                        []
                                                                                        []),
                                                    Keyword (Some ''title'') (Constant (CStr ''zoom=2''))])
                                             Add
                                             (Call (Attribute (Call (Attribute (Attribute (Name ''ux'') ''Grid'') ''from_healpix'')
                                                                    []
                                                                    [Keyword (Some ''zoom'') (Constant (CInt 3))]) ''plot'')
                                                   []
                                                   [Keyword (Some ''periodic_elements'') (Constant (CStr ''split'')),
                                                    Keyword (Some ''projection'') (Call (Attribute (Name ''ccrs'') ''Orthographic'')
                                                                                        []
                                                                                        []),
                                                    Keyword (Some ''title'') (Constant (CStr ''zoom=3''))]))
                                      Add
                                      (Call (Attribute (Call (Attribute (Attribute (Name ''ux'') ''Grid'') ''from_healpix'')
                                                             []
                                                             [Keyword (Some ''zoom'') (Constant (CInt 4))]) ''plot'')
                                            []
                                            [Keyword (Some ''periodic_elements'') (Constant (CStr ''split'')),
                                             Keyword (Some ''projection'') (Call (Attribute (Name ''ccrs'') ''Orthographic'')
                                                                                 []
                                                                                 []),
                                             Keyword (Some ''title'') (Constant (CStr ''zoom=4''))])) ''cols'')
                    [Constant (CInt 1)]
                    [])]"

definition healpix_11 :: cell where
  "healpix_11 =
   Markdown [''#### Remapping'',
             '''',
             ''Below is a simple example of remapping UGRID data residing on a ``CSne30`` grid to a HEALPix grid with a zoom level of 5.'']"

definition healpix_12 :: cell where
  "healpix_12 =
   Code [Assign [Name ''source_uxds'']
           (Call (Attribute (Name ''ux'') ''open_dataset'')
                 [Constant (CStr ''../../test/meshfiles/ugrid/outCSne30/outCSne30.ug''),
                  Constant (CStr ''../../test/meshfiles/ugrid/outCSne30/outCSne30_vortex.nc'')]
                 []),
         Expr (Call (Attribute (Subscript (Name ''source_uxds'') (Constant (CStr ''psi''))) ''plot'')
                    []
                    [Keyword (Some ''cmap'') (Constant (CStr ''inferno'')),
                     Keyword (Some ''projection'') (Call (Attribute (Name ''ccrs'') ''Orthographic'')
                                                         []
                                                         []),
                     Keyword (Some ''title'') (Constant (CStr ''Source Data''))]),
         Assign [Name ''hp_grid'']
           (Call (Attribute (Attribute (Name ''ux'') ''Grid'') ''from_healpix'')
                 []
                 [Keyword (Some ''zoom'') (Constant (CInt 5))])]"

definition healpix_13 :: cell where
  "healpix_13 =
   Markdown [''Before remapping, we can plot our Source and Destination grids.'']"

definition healpix_14 :: cell where
  "healpix_14 =
   Code [Expr (BinOp (Call (Attribute (Attribute (Name ''source_uxds'') ''uxgrid'') ''plot'')
                           []
                           [Keyword (Some ''projection'') (Call (Attribute (Name ''ccrs'') ''Orthographic'')
                                                                []
                                                                []),
                            Keyword (Some ''title'') (Constant (CStr ''Source Grid (CSne30)''))])
                     Add
                     (Call (Attribute (Name ''hp_grid'') ''plot'')
                           []
                           [Keyword (Some ''projection'') (Call (Attribute (Name ''ccrs'') ''Orthographic'')
                                                                []
                                                                []),
                            Keyword (Some ''title'') (Constant (CStr ''Destination Grid (HEALPix)''))]))]"

definition healpix_15 :: cell where
  "healpix_15 =
   Markdown [''We can now perform our remapping. In this case, we apply a simple nearest neighbor remapping.'']"

definition healpix_16 :: cell where
  "healpix_16 =
   Code [Assign [Name ''psi_hp'']
           (Call (Attribute (Attribute (Subscript (Name ''source_uxds'') (Constant (CStr ''psi''))) ''remap'') ''nearest_neighbor'')
                 []
                 [Keyword (Some ''destination_grid'') (Name ''hp_grid'')]),
         Expr (Name ''psi_hp'')]"

definition healpix_17 :: cell where
  "healpix_17 =
   Markdown [''Our original data variable now resides on our HEALPix grid.'']"

definition healpix_18 :: cell where
  "healpix_18 =
   Code [Expr (Call (Attribute (Name ''psi_hp'') ''plot'')
                    []
                    [Keyword (Some ''cmap'') (Constant (CStr ''inferno'')),
                     Keyword (Some ''projection'') (Call (Attribute (Name ''ccrs'') ''Orthographic'')
                                                         []
                                                         []),
                     Keyword (Some ''title'') (Constant (CStr ''Remapped Data''))])]"

definition healpix_19 :: cell where
  "healpix_19 =
   Markdown [''We can now chain together a few functions to convert our output from a UXarray Dataset to a NetCDF file, with the grid represented in the HEALPix format.'',
             ''- `to_dataset()`: Converts the ``ux.UxDataArray`` to a ``ux.UxDataset``'',
             ''- `to_xarray(grid_format='' @ [CHR 0x22] @ ''HEALPix'' @ [CHR 0x22] @ '')`: Converts our ``ux.UxDataset`` to a ``xr.Dataset`` encoded in the HEALPix format.'',
             ''- `to_netcdf('' @ [CHR 0x22] @ ''psi_healpix.nc'' @ [CHR 0x22] @ '')`: Saves our dataset to disk as a NetCDF file.'']"

definition healpix_20 :: cell where
  "healpix_20 =
   Code [Expr (Call (Attribute (Call (Attribute (Call (Attribute (Name ''psi_hp'') ''to_dataset'')
                                                      []
                                                      []) ''to_xarray'')
                                     []
                                     [Keyword (Some ''grid_format'') (Constant (CStr ''HEALPix''))]) ''to_netcdf'')
                    [Constant (CStr ''psi_healpix.nc'')]
                    [])]"

definition healpix_21 :: cell where
  "healpix_21 =
   Markdown [''## Loading HEALPix Data'',
             '''',
             '''',
             ''In the remapping example above, we successfully remapped a data variable onto a HEALPix grid and saved it as a NetCDF file.'',
             '''',
             ''UXarray extends Xarray'' @ [CHR 0x27] @ ''s ``Dataset`` and ``DataArray`` classes to provide grid-aware implementations.'',
             '''',
             '''',
             '''',
             '''',
             '''',
             ''Using the example we generated above, we can load in data that is stored in the HEALPix format using the ``UxDataset.from_healpix()`` classmethod.'']"

definition healpix_22 :: cell where
  "healpix_22 =
   Code [Assign [Name ''uxds'']
           (Call (Attribute (Attribute (Name ''ux'') ''UxDataset'') ''from_healpix'')
                 [Constant (CStr ''psi_healpix.nc'')]
                 []),
         Expr (Name ''uxds'')]"

definition healpix_23 :: cell where
  "healpix_23 =
   Markdown [''The interface above looks almost identical to what you would see if you loaded in the file directly with Xarray.'']"

definition healpix_24 :: cell where
  "healpix_24 =
   Code [Import [Alias ''xarray'' (Some ''xr'')],
         Expr (Call (Attribute (Name ''xr'') ''open_dataset'')
                    [Constant (CStr ''psi_healpix.nc'')]
                    [])]"

definition healpix_25 :: cell where
  "healpix_25 =
   Markdown [''However, there are a few noticeable differences and additions that streamline UXarray'' @ [CHR 0x27] @ ''s implementation and provide more context on what grid the data resides on:'',
             ''1. The '' @ [CHR 0x22] @ ''Show Grid Information'' @ [CHR 0x22] @ '' tab provides information on the underlying ``Grid`` object that is attached via the ``.uxgrid`` attribute'',
             ''2. The ``zoom`` for HEALPix grids is automatically determined from the ``cells`` dimension, with an appropriate ``Grid`` constructed from that'',
             ''3The dimensions are renamed to match the UGRID conventions, with ``cells`` being renamed to ``n_face`` for the case of HEALPix grids'',
             '''',
             ''We can then directly access our ``Grid`` using the ``.uxgrid`` attribute, allowing for grid-specific functionallity as described in the sections above.'',
             '''',
             '''']"

definition healpix_26 :: cell where
  "healpix_26 =
   Code [Expr (Attribute (Name ''uxds'') ''uxgrid'')]"

definition healpix_27 :: cell where
  "healpix_27 =
   Markdown [''## Future Work'',
             '''',
             ''Support for the HEALPix format is still in its early stages. We welcome your suggestions and contributions! To get started, please check out our [Contributors Guide](https://uxarray.readthedocs.io/en/stable/contributing.html).'']"

definition healpix :: notebook where
  "healpix =
   [healpix_0,
    healpix_1,
    healpix_2,
    healpix_3,
    healpix_4,
    healpix_5,
    healpix_6,
    healpix_7,
    healpix_8,
    healpix_9,
    healpix_10,
    healpix_11,
    healpix_12,
    healpix_13,
    healpix_14,
    healpix_15,
    healpix_16,
    healpix_17,
    healpix_18,
    healpix_19,
    healpix_20,
    healpix_21,
    healpix_22,
    healpix_23,
    healpix_24,
    healpix_25,
    healpix_26,
    healpix_27]"

subsection \<open>Remapping\<close>

text \<open>Notebook 1 of \<^verbatim>\<open>src/unnamed/part_001\<close>, 48 cells.\<close>

definition remapping_0 :: cell where
  "remapping_0 =
   Markdown [''# Remapping'']"

definition remapping_1 :: cell where
  "remapping_1 =
   Markdown [''Remapping, or commonly referred to as Regridding, is the process of taking data that resides on one grid and mapping it to another. Details on various remapping methods can be found [here](https://climatedataguide.ucar.edu/climate-tools/regridding-overview). This user guide section will cover the two native remapping methods that are supported by UXarray:'',
             '''',
             ''* Nearest Neighbor'',
             ''* Inverse Distance Weighted'']"

definition remapping_2 :: cell where
  "remapping_2 =
   Code [Import [Alias ''os'' None],
         Import [Alias ''urllib.request'' None],
         Import [Alias ''warnings'' None],
         ImportFrom ''pathlib'' [Alias ''Path'' None],
         Import [Alias ''cartopy.crs'' (Some ''ccrs'')],
         Import [Alias ''geoviews.feature'' (Some ''gf'')],
         Import [Alias ''holoviews'' (Some ''hv'')],
         Import [Alias ''uxarray'' (Some ''ux'')],
         Expr (Call (Attribute (Name ''warnings'') ''filterwarnings'')
                    [Constant (CStr ''ignore'')]
                    []),
         Expr (Call (Attribute (Name ''hv'') ''extension'') [Constant (CStr ''bokeh'')] []),
         Assign [Name ''features'']
           (Call (Attribute (Name ''gf'') ''coastline'')
                 []
                 [Keyword (Some ''projection'') (Call (Attribute (Name ''ccrs'') ''PlateCarree'')
                                                      []
                                                      []),
                  Keyword (Some ''scale'') (Constant (CStr ''50m''))])]"

definition remapping_3 :: cell where
  "remapping_3 =
   Markdown [''### Simple Remapping Example'']"

definition remapping_4 :: cell where
  "remapping_4 =
   Markdown [''Provided below is an example of remapping using a simple grid. A has data, B does not. We will remap to B from A.'']"

definition remapping_5 :: cell where
  "remapping_5 =
   Code [Assign [Name ''grid_path'']
           (Constant (CStr ''../../test/meshfiles/ugrid/quad-hexagon/grid.nc'')),
         Assign [Name ''data_path'']
           (Constant (CStr ''../../test/meshfiles/ugrid/quad-hexagon/data.nc'')),
         Assign [Name ''destination_grid'']
           (Constant (CStr ''../../test/meshfiles/ugrid/quad-hexagon/triangulated-grid.nc'')),
         Assign [Name ''grid'']
           (Call (Attribute (Name ''ux'') ''open_grid'') [Name ''destination_grid''] []),
         Assign [Name ''uxds'']
           (Call (Attribute (Name ''ux'') ''open_dataset'')
                 [Name ''grid_path'', Name ''data_path'']
                 []),
         Expr (Call (Attribute (BinOp (BinOp (Call (Attribute (Subscript (Name ''uxds'') (Constant (CStr ''t2m''))) ''plot'')
                                                   []
                                                   [Keyword (Some ''colorbar'') (Constant (CBool False)),
                                                    Keyword (Some ''cmap'') (Attribute (Attribute (Name ''ux'') ''cmaps'') ''sequential_green_blue''),
                                                    Keyword (Some ''title'') (Constant (CStr ''Mesh with Data''))])
                                             Mult
                                             (Call (Attribute (Attribute (Attribute (Name ''uxds'') ''uxgrid'') ''plot'') ''edges'')
                                                   []
                                                   [Keyword (Some ''color'') (Constant (CStr ''black''))]))
                                      Add
                                      (Call (Attribute (Name ''grid'') ''plot'')
                                            []
                                            [Keyword (Some ''colorbar'') (Constant (CBool False)),
                                             Keyword (Some ''title'') (Constant (CStr ''Mesh without Data'')),
                                             Keyword (Some ''color'') (Constant (CStr ''black''))])) ''cols'')
                    [Constant (CInt 1)]
                    [])]"

definition remapping_6 :: cell where
  "remapping_6 =
   Code [Assign [Name ''remapped_grid'']
           (Call (Attribute (Attribute (Subscript (Name ''uxds'') (Constant (CStr ''t2m''))) ''remap'') ''inverse_distance_weighted'')
                 [Name ''grid'']
                 [Keyword (Some ''k'') (Constant (CInt 3)),
                  Keyword (Some ''remap_to'') (Constant (CStr ''face centers''))])]"

definition remapping_7 :: cell where
  "remapping_7 =
   Code [Expr (BinOp (Call (Attribute (Name ''remapped_grid'') ''plot'')
                           []
                           [Keyword (Some ''colorbar'') (Constant (CBool True)),
                            Keyword (Some ''cmap'') (Attribute (Attribute (Name ''ux'') ''cmaps'') ''sequential_green_blue''),
                            Keyword (Some ''title'') (Constant (CStr ''Mesh With Remapped Data''))])
                     Mult
                     (Call (Attribute (Attribute (Attribute (Name ''remapped_grid'') ''uxgrid'') ''plot'') ''mesh'')
                           []
                           [Keyword (Some ''color'') (Constant (CStr ''black''))]))]"

definition remapping_8 :: cell where
  "remapping_8 =
   Markdown [''### Data'']"

definition remapping_9 :: cell where
  "remapping_9 =
   Markdown [''In this notebook, we are using two datasets with different resolutions (480km and 120km) from the MPAS Ocean Model. We will be remapping the bottomDepth variable, which measures the ocean depth.'']"

definition remapping_10 :: cell where
  "remapping_10 =
   Code [Expr (Call (Attribute (Name ''hv'') ''extension'')
                    [Constant (CStr ''matplotlib'')]
                    []),
         Assign [Name ''data_var''] (Constant (CStr ''bottomDepth'')),
         Assign [Name ''grid_filename_480''] (Constant (CStr ''oQU480.grid.nc'')),
         Assign [Name ''data_filename_480''] (Constant (CStr ''oQU480.data.nc'')),
         Assign [Name ''grid_filename_120''] (Constant (CStr ''oQU120.grid.nc'')),
         Assign [Name ''data_filename_120''] (Constant (CStr ''oQU120.data.nc'')),
         Assign [Name ''filenames'']
           (PyList [Name ''grid_filename_480'',
                    Name ''data_filename_480'',
                    Name ''grid_filename_120'',
                    Name ''data_filename_120'']),
         For (Name ''filename'') (Name ''filenames'')
           [If (UnaryOp UNot (Call (Attribute (Attribute (Name ''os'') ''path'') ''isfile'')
                                   [Name ''filename'']
                                   []))
              [Assign [Name ''url'']
                 (JoinedStr [Constant (CStr ''https://github.com/ProjectPythia/unstructured-grid-viz-cookbook/raw/main/meshfiles/''),
                             FormattedValue (Name ''filename'')]),
               Assign [PyTuple [Name ''_'', Name ''headers'']]
                 (Call (Attribute (Attribute (Name ''urllib'') ''request'') ''urlretrieve'')
                       [Name ''url'']
                       [Keyword (Some ''filename'') (Name ''filename'')])]
              []]
           [],
         Assign [Name ''file_path_dict'']
           (PyDict [Constant (CStr ''480km''), Constant (CStr ''120km'')]
                   [PyList [Name ''grid_filename_480'', Name ''data_filename_480''],
                    PyList [Name ''grid_filename_120'', Name ''data_filename_120'']])]"

definition remapping_11 :: cell where
  "remapping_11 =
   Code [Assign [Name ''uxds_480'']
           (Call (Attribute (Name ''ux'') ''open_dataset'')
                 [Starred (Subscript (Name ''file_path_dict'') (Constant (CStr ''480km'')))]
                 []),
         Assign [Name ''uxds_120'']
           (Call (Attribute (Name ''ux'') ''open_dataset'')
                 [Starred (Subscript (Name ''file_path_dict'') (Constant (CStr ''120km'')))]
                 [])]"

definition remapping_12 :: cell where
  "remapping_12 =
   Code [Expr (Call (Attribute (Call (Attribute (BinOp (BinOp (Call (Attribute (Subscript (Name ''uxds_480'') (Constant (CStr ''bottomDepth''))) ''plot'')
                                                                    []
                                                                    [Keyword (Some ''title'') (Constant (CStr ''Bottom Depth (480km)'')),
                                                                     Keyword (Some ''cmap'') (Attribute (Attribute (Name ''ux'') ''cmaps'') ''sequential_blue'')])
                                                              Mult
                                                              (Name ''features''))
                                                       Add
                                                       (BinOp (Call (Attribute (Subscript (Name ''uxds_120'') (Constant (CStr ''bottomDepth''))) ''plot'')
                                                                    []
                                                                    [Keyword (Some ''title'') (Constant (CStr ''Bottom Depth (120km)'')),
                                                                     Keyword (Some ''cmap'') (Attribute (Attribute (Name ''ux'') ''cmaps'') ''sequential_blue'')])
                                                              Mult
                                                              (Name ''features''))) ''cols'')
                                     [Constant (CInt 1)]
                                     []) ''opts'')
                    []
                    [Keyword (Some ''fig_size'') (Constant (CInt 125))])]"

definition remapping_13 :: cell where
  "remapping_13 =
   Markdown [''We can view the supported remapping methods by accessing the `.remap` attribute that is part of a `UxDataArray`'']"

definition remapping_14 :: cell where
  "remapping_14 =
   Code [Expr (Attribute (Subscript (Name ''uxds_120'') (Constant (CStr ''bottomDepth''))) ''remap'')]"

definition remapping_15 :: cell where
  "remapping_15 =
   Markdown [''### Nearest Neighbor'']"

definition remapping_16 :: cell where
  "remapping_16 =
   Markdown [''Nearest Neighbor Remapping is a point-based method that uses the nearest neighbor from the source grid when assigning data to the destination grid. It is a distance-based approach that uses `kd_tree` or `ball_tree` to determine the distance between points. We can use the `UxDataArray.remap.nearest_neighbor()` method, which takes in the following parameters:'']"

definition remapping_17 :: cell where
  "remapping_17 =
   Markdown [''* `destination_grid` is the grid object that is being remapped to.'',
             ''* `destination_obj` is being deprecated and soon will no longer be used, it allows remapping to data arrays, grids, and datasets.'',
             ''* `remap_to` specifies the location of the remapping, either to `nodes`, `face centers`, or `edge centers`.'',
             ''* `coord_type` refers to what coordinate system to use, either `spherical` or `cartesian`.'']"

definition remapping_18 :: cell where
  "remapping_18 =
   Markdown [''#### Upsampling'']"

definition remapping_19 :: cell where
  "remapping_19 =
   Markdown [''We can remap from the 480km grid to the 120km one, which would perform an upsampling operation. Our `destination_obj` will be our 120km mesh, and we will make sure to specify to do the remap to `face centers`. View the plots below to see a comparison of the original 120km mesh compared to the remapped one.'']"

definition remapping_20 :: cell where
  "remapping_20 =
   Code [Assign [Name ''upsampling'']
           (Call (Attribute (Attribute (Subscript (Name ''uxds_480'') (Constant (CStr ''bottomDepth''))) ''remap'') ''nearest_neighbor'')
                 [Attribute (Name ''uxds_120'') ''uxgrid'']
                 [Keyword (Some ''remap_to'') (Constant (CStr ''face centers''))])]"

definition remapping_21 :: cell where
  "remapping_21 =
   Code [Expr (Call (Attribute (Call (Attribute (BinOp (BinOp (BinOp (BinOp (Call (Attribute (Subscript (Name ''uxds_480'') (Constant (CStr ''bottomDepth''))) ''plot'')
                                                                                  []
                                                                                  [Keyword (Some ''title'') (Constant (CStr ''Bottom Depth (480km)'')),
                                                                                   Keyword (Some ''cmap'') (Attribute (Attribute (Name ''ux'') ''cmaps'') ''sequential_blue'')])
                                                                            Mult
                                                                            (Name ''features''))
                                                                     Add
                                                                     (BinOp (Call (Attribute (Name ''upsampling'') ''plot'')
                                                                                  []
                                                                                  [Keyword (Some ''title'') (Constant (CStr ''Remapped Bottom Depth (480km to 120km)'')),
                                                                                   Keyword (Some ''cmap'') (Attribute (Attribute (Name ''ux'') ''cmaps'') ''sequential_blue'')])
                                                                            Mult
                                                                            (Name ''features'')))
                                                              Add
                                                              (BinOp (Call (Attribute (Subscript (Name ''uxds_480'') (Constant (CStr ''bottomDepth''))) ''plot'')
                                                                           []
                                                                           [Keyword (Some ''title'') (Constant (CStr ''Zoomed (480km)'')),
                                                                            Keyword (Some ''xlim'') (PyTuple [UnaryOp USub (Constant (CInt 10)),
                                                                                                              Constant (CInt 10)]),
                                                                            Keyword (Some ''ylim'') (PyTuple [UnaryOp USub (Constant (CInt 5)),
                                                                                                              Constant (CInt 5)]),
                                                                            Keyword (Some ''cmap'') (Attribute (Attribute (Name ''ux'') ''cmaps'') ''sequential_blue'')])
                                                                     Mult
                                                                     (Name ''features'')))
                                                       Add
                                                       (BinOp (Call (Attribute (Name ''upsampling'') ''plot'')
                                                                    []
                                                                    [Keyword (Some ''title'') (Constant (CStr ''Zoomed Remap (480km to 120km)'')),
                                                                     Keyword (Some ''xlim'') (PyTuple [UnaryOp USub (Constant (CInt 10)),
                                                                                                       Constant (CInt 10)]),
                                                                     Keyword (Some ''ylim'') (PyTuple [UnaryOp USub (Constant (CInt 5)),
                                                                                                       Constant (CInt 5)]),
                                                                     Keyword (Some ''cmap'') (Attribute (Attribute (Name ''ux'') ''cmaps'') ''sequential_blue'')])
                                                              Mult
                                                              (Name ''features''))) ''cols'')
                                     [Constant (CInt 1)]
                                     []) ''opts'')
                    []
                    [Keyword (Some ''fig_size'') (Constant (CInt 125))])]"

definition remapping_22 :: cell where
  "remapping_22 =
   Markdown [''As we can see, the nearest neighbor remap has successfully upsampled, going from a lower resolution to a higher resolution. Of course, since all the data is coming from the lower-resolution grid, it should be noted that no new information is being added, we are simply remapping data from a lower-resolution grid to a higher one. This can be observed in the result since multiple data points from the source grid are repeated in the destination grid.'']"

definition remapping_23 :: cell where
  "remapping_23 =
   Markdown [''#### Downsampling'']"

definition remapping_24 :: cell where
  "remapping_24 =
   Markdown [''Now we can do the reverse, which is downsampling. We we go from a higher resolution (120km) to a lower one (480km). Once again comparision plots are found below, with a zoomed in version provided.'']"

definition remapping_25 :: cell where
  "remapping_25 =
   Code [Assign [Name ''downsampling'']
           (Call (Attribute (Attribute (Subscript (Name ''uxds_120'') (Constant (CStr ''bottomDepth''))) ''remap'') ''nearest_neighbor'')
                 [Attribute (Name ''uxds_480'') ''uxgrid'']
                 [Keyword (Some ''remap_to'') (Constant (CStr ''face centers''))])]"

definition remapping_26 :: cell where
  "remapping_26 =
   Code [Expr (Call (Attribute (Call (Attribute (BinOp (BinOp (BinOp (BinOp (Call (Attribute (Subscript (Name ''uxds_120'') (Constant (CStr ''bottomDepth''))) ''plot'')
                                                                                  []
                                                                                  [Keyword (Some ''title'') (Constant (CStr ''Bottom Depth (120km)'')),
                                                                                   Keyword (Some ''cmap'') (Attribute (Attribute (Name ''ux'') ''cmaps'') ''sequential_blue'')])
                                                                            Mult
                                                                            (Name ''features''))
                                                                     Add
                                                                     (BinOp (Call (Attribute (Name ''downsampling'') ''plot'')
                                                                                  []
                                                                                  [Keyword (Some ''title'') (Constant (CStr ''Remapped Bottom Depth (120km to 480km)'')),
                                                                                   Keyword (Some ''cmap'') (Attribute (Attribute (Name ''ux'') ''cmaps'') ''sequential_blue'')])
                                                                            Mult
                                                                            (Name ''features'')))
                                                              Add
                                                              (BinOp (Call (Attribute (Subscript (Name ''uxds_120'') (Constant (CStr ''bottomDepth''))) ''plot'')
                                                                           []
                                                                           [Keyword (Some ''title'') (Constant (CStr ''Zoomed (120km)'')),
                                                                            Keyword (Some ''xlim'') (PyTuple [UnaryOp USub (Constant (CInt 10)),
                                                                                                              Constant (CInt 10)]),
                                                                            Keyword (Some ''ylim'') (PyTuple [UnaryOp USub (Constant (CInt 5)),
                                                                                                              Constant (CInt 5)]),
                                                                            Keyword (Some ''cmap'') (Attribute (Attribute (Name ''ux'') ''cmaps'') ''sequential_blue'')])
                                                                     Mult
                                                                     (Name ''features'')))
                                                       Add
                                                       (BinOp (Call (Attribute (Name ''downsampling'') ''plot'')
                                                                    []
                                                                    [Keyword (Some ''title'') (Constant (CStr ''Zoomed Remap (120km to 480km)'')),
                                                                     Keyword (Some ''xlim'') (PyTuple [UnaryOp USub (Constant (CInt 10)),
                                                                                                       Constant (CInt 10)]),
                                                                     Keyword (Some ''ylim'') (PyTuple [UnaryOp USub (Constant (CInt 5)),
                                                                                                       Constant (CInt 5)]),
                                                                     Keyword (Some ''cmap'') (Attribute (Attribute (Name ''ux'') ''cmaps'') ''sequential_blue'')])
                                                              Mult
                                                              (Name ''features''))) ''cols'')
                                     [Constant (CInt 1)]
                                     []) ''opts'')
                    []
                    [Keyword (Some ''fig_size'') (Constant (CInt 125))])]"

definition remapping_27 :: cell where
  "remapping_27 =
   Markdown [''As you can see, the two datasets here don'' @ [CHR 0x27] @ ''t look as similar as with the upsampling one. This is an important note, when you are downsampling, there will always be a loss of information. This is because there are many more data points in the source grid than in the destination grid.'']"

definition remapping_28 :: cell where
  "remapping_28 =
   Markdown [''### Inverse Distance Weighted'']"

definition remapping_29 :: cell where
  "remapping_29 =
   Markdown [''Inverse distance weighted remapping assigns a value based on the weighted average of a specified number of nearby points. This gives a more smooth remapping than the nearest neighbor and helps decrease the chance of outliers. Unlike the nearest neighbor remapping, it constructs new values based on the values around it. '']"

definition remapping_30 :: cell where
  "remapping_30 =
   Markdown [''For inverse distance weighted remapping the parameters are the same as nearest neighbor with the addition of two extra parameters we can use to change the remapping parameters.'',
             '''',
             ''* `power` controls how local or global the remapping is, the larger this value the less influence points that are further away have.'',
             ''* `k` is the number of neighbors to use in the weighted average.'']"

definition remapping_31 :: cell where
  "remapping_31 =
   Markdown [''Using the same examples as before, we can see the differences between nearest neighbor and inverse distance weighted remapping.'']"

definition remapping_32 :: cell where
  "remapping_32 =
   Markdown [''#### Upsampling'']"

definition remapping_33 :: cell where
  "remapping_33 =
   Markdown [''We will upsample from the 480km grid to 120km grid again. This time we will see that the results are a lot smoother, and that the 120km looks a lot more like it'' @ [CHR 0x27] @ ''s original dataset compared to when the nearest neighbor remap was used.'']"

definition remapping_34 :: cell where
  "remapping_34 =
   Code [Assign [Name ''upsampling_idw'']
           (Call (Attribute (Attribute (Subscript (Name ''uxds_480'') (Constant (CStr ''bottomDepth''))) ''remap'') ''inverse_distance_weighted'')
                 [Attribute (Name ''uxds_120'') ''uxgrid'']
                 [Keyword (Some ''remap_to'') (Constant (CStr ''face centers''))])]"

definition remapping_35 :: cell where
  "remapping_35 =
   Code [Expr (Call (Attribute (Call (Attribute (BinOp (BinOp (BinOp (BinOp (Call (Attribute (Subscript (Name ''uxds_480'') (Constant (CStr ''bottomDepth''))) ''plot'')
                                                                                  []
                                                                                  [Keyword (Some ''title'') (Constant (CStr ''Bottom Depth (480km)'')),
                                                                                   Keyword (Some ''cmap'') (Attribute (Attribute (Name ''ux'') ''cmaps'') ''sequential_blue'')])
                                                                            Mult
                                                                            (Name ''features''))
                                                                     Add
                                                                     (BinOp (Call (Attribute (Name ''upsampling_idw'') ''plot'')
                                                                                  []
                                                                                  [Keyword (Some ''title'') (Constant (CStr ''Remapped Bottom Depth (480km to 120km)'')),
                                                                                   Keyword (Some ''cmap'') (Attribute (Attribute (Name ''ux'') ''cmaps'') ''sequential_blue'')])
                                                                            Mult
                                                                            (Name ''features'')))
                                                              Add
                                                              (BinOp (Call (Attribute (Subscript (Name ''uxds_480'') (Constant (CStr ''bottomDepth''))) ''plot'')
                                                                           []
                                                                           [Keyword (Some ''title'') (Constant (CStr ''Zoomed (480km)'')),
                                                                            Keyword (Some ''xlim'') (PyTuple [UnaryOp USub (Constant (CInt 10)),
                                                                                                              Constant (CInt 10)]),
                                                                            Keyword (Some ''ylim'') (PyTuple [UnaryOp USub (Constant (CInt 5)),
                                                                                                              Constant (CInt 5)]),
                                                                            Keyword (Some ''cmap'') (Attribute (Attribute (Name ''ux'') ''cmaps'') ''sequential_blue'')])
                                                                     Mult
                                                                     (Name ''features'')))
                                                       Add
                                                       (BinOp (Call (Attribute (Name ''upsampling_idw'') ''plot'')
                                                                    []
                                                                    [Keyword (Some ''title'') (Constant (CStr ''Zoomed Remap (480km to 120km)'')),
                                                                     Keyword (Some ''xlim'') (PyTuple [UnaryOp USub (Constant (CInt 10)),
                                                                                                       Constant (CInt 10)]),
                                                                     Keyword (Some ''ylim'') (PyTuple [UnaryOp USub (Constant (CInt 5)),
                                                                                                       Constant (CInt 5)]),
                                                                     Keyword (Some ''cmap'') (Attribute (Attribute (Name ''ux'') ''cmaps'') ''sequential_blue'')])
                                                              Mult
                                                              (Name ''features''))) ''cols'')
                                     [Constant (CInt 1)]
                                     []) ''opts'')
                    []
                    [Keyword (Some ''fig_size'') (Constant (CInt 125))])]"

definition remapping_36 :: cell where
  "remapping_36 =
   Markdown [''#### Downsampling'']"

definition remapping_37 :: cell where
  "remapping_37 =
   Markdown [''Here we can see an example of downsampling with inverse distance weighted. It has less of a noticable difference compared to the nearest neighbor, however this may be due to the `k` number and the default `power` value used in the calculation. Depending on your graph and the scale difference, you may need to use different `k` and `power` values to achieve a smoother result. That will be discussed in the next secition.'']"

definition remapping_38 :: cell where
  "remapping_38 =
   Code [Assign [Name ''downsampling_idw'']
           (Call (Attribute (Attribute (Subscript (Name ''uxds_120'') (Constant (CStr ''bottomDepth''))) ''remap'') ''inverse_distance_weighted'')
                 [Attribute (Name ''uxds_480'') ''uxgrid'']
                 [Keyword (Some ''remap_to'') (Constant (CStr ''face centers''))])]"

definition remapping_39 :: cell where
  "remapping_39 =
   Code [Expr (Call (Attribute (Call (Attribute (BinOp (BinOp (BinOp (BinOp (Call (Attribute (Subscript (Name ''uxds_120'') (Constant (CStr ''bottomDepth''))) ''plot'')
                                                                                  []
                                                                                  [Keyword (Some ''title'') (Constant (CStr ''Bottom Depth (120km)'')),
                                                                                   Keyword (Some ''cmap'') (Attribute (Attribute (Name ''ux'') ''cmaps'') ''sequential_blue'')])
                                                                            Mult
                                                                            (Name ''features''))
                                                                     Add
                                                                     (BinOp (Call (Attribute (Name ''downsampling_idw'') ''plot'')
                                                                                  []
                                                                                  [Keyword (Some ''title'') (Constant (CStr ''Remapped Bottom Depth (120km to 480km)'')),
                                                                                   Keyword (Some ''cmap'') (Attribute (Attribute (Name ''ux'') ''cmaps'') ''sequential_blue'')])
                                                                            Mult
                                                                            (Name ''features'')))
                                                              Add
                                                              (BinOp (Call (Attribute (Subscript (Name ''uxds_120'') (Constant (CStr ''bottomDepth''))) ''plot'')
                                                                           []
                                                                           [Keyword (Some ''title'') (Constant (CStr ''Zoomed (120km)'')),
                                                                            Keyword (Some ''xlim'') (PyTuple [UnaryOp USub (Constant (CInt 10)),
                                                                                                              Constant (CInt 10)]),
                                                                            Keyword (Some ''ylim'') (PyTuple [UnaryOp USub (Constant (CInt 5)),
                                                                                                              Constant (CInt 5)]),
                                                                            Keyword (Some ''cmap'') (Attribute (Attribute (Name ''ux'') ''cmaps'') ''sequential_blue'')])
                                                                     Mult
                                                                     (Name ''features'')))
                                                       Add
                                                       (BinOp (Call (Attribute (Name ''downsampling_idw'') ''plot'')
                                                                    []
                                                                    [Keyword (Some ''title'') (Constant (CStr ''Zoomed Remap (120km to 480km)'')),
                                                                     Keyword (Some ''xlim'') (PyTuple [UnaryOp USub (Constant (CInt 10)),
                                                                                                       Constant (CInt 10)]),
                                                                     Keyword (Some ''ylim'') (PyTuple [UnaryOp USub (Constant (CInt 5)),
                                                                                                       Constant (CInt 5)]),
                                                                     Keyword (Some ''cmap'') (Attribute (Attribute (Name ''ux'') ''cmaps'') ''sequential_blue'')])
                                                              Mult
                                                              (Name ''features''))) ''cols'')
                                     [Constant (CInt 1)]
                                     []) ''opts'')
                    []
                    [Keyword (Some ''fig_size'') (Constant (CInt 125))])]"

definition remapping_40 :: cell where
  "remapping_40 =
   Markdown [''#### `k` and `power` Parameter Comparisons'']"

definition remapping_41 :: cell where
  "remapping_41 =
   Markdown [''The higher the `k` value, the more neighbors used in the weights calculation. However, along simply changing the `k` value may not have a large impact on the remapping, and you might also need to change the `power` value, because the `power` value changes how much influence a point has as it gets further away from the source point. Let'' @ [CHR 0x27] @ ''s use do two remaps, a high and low `power` / `k` value and see a side by side comparsion with downsampling.'']"

definition remapping_42 :: cell where
  "remapping_42 =
   Code [Assign [Name ''downsampling_idw_low'']
           (Call (Attribute (Attribute (Subscript (Name ''uxds_120'') (Constant (CStr ''bottomDepth''))) ''remap'') ''inverse_distance_weighted'')
                 [Attribute (Name ''uxds_480'') ''uxgrid'']
                 [Keyword (Some ''remap_to'') (Constant (CStr ''face centers'')),
                  Keyword (Some ''power'') (Constant (CInt 1)),
                  Keyword (Some ''k'') (Constant (CInt 2))]),
         Assign [Name ''downsampling_idw_high'']
           (Call (Attribute (Attribute (Subscript (Name ''uxds_120'') (Constant (CStr ''bottomDepth''))) ''remap'') ''inverse_distance_weighted'')
                 [Attribute (Name ''uxds_480'') ''uxgrid'']
                 [Keyword (Some ''remap_to'') (Constant (CStr ''face centers'')),
                  Keyword (Some ''power'') (Constant (CInt 5)),
                  Keyword (Some ''k'') (Constant (CInt 128))])]"

definition remapping_43 :: cell where
  "remapping_43 =
   Code [Expr (Call (Attribute (Call (Attribute (BinOp (BinOp (Call (Attribute (Name ''downsampling_idw_low'') ''plot'')
                                                                    []
                                                                    [Keyword (Some ''title'') (Constant (CStr ''Zoomed 480km (power=1, k=2)'')),
                                                                     Keyword (Some ''xlim'') (PyTuple [UnaryOp USub (Constant (CInt 10)),
                                                                                                       Constant (CInt 10)]),
                                                                     Keyword (Some ''ylim'') (PyTuple [UnaryOp USub (Constant (CInt 5)),
                                                                                                       Constant (CInt 5)]),
                                                                     Keyword (Some ''cmap'') (Attribute (Attribute (Name ''ux'') ''cmaps'') ''sequential_blue'')])
                                                              Mult
                                                              (Name ''features''))
                                                       Add
                                                       (BinOp (Call (Attribute (Name ''downsampling_idw_high'') ''plot'')
                                                                    []
                                                                    [Keyword (Some ''title'') (Constant (CStr ''Zoomed 480km (power=5, k=128)'')),
                                                                     Keyword (Some ''xlim'') (PyTuple [UnaryOp USub (Constant (CInt 10)),
                                                                                                       Constant (CInt 10)]),
                                                                     Keyword (Some ''ylim'') (PyTuple [UnaryOp USub (Constant (CInt 5)),
                                                                                                       Constant (CInt 5)]),
                                                                     Keyword (Some ''cmap'') (Attribute (Attribute (Name ''ux'') ''cmaps'') ''sequential_blue'')])
                                                              Mult
                                                              (Name ''features''))) ''cols'')
                                     [Constant (CInt 1)]
                                     []) ''opts'')
                    []
                    [Keyword (Some ''fig_size'') (Constant (CInt 125))])]"

definition remapping_44 :: cell where
  "remapping_44 =
   Markdown [''Now we can do the same thing with an upsampling example:'']"

definition remapping_45 :: cell where
  "remapping_45 =
   Code [Assign [Name ''upsampling_idw_low'']
           (Call (Attribute (Attribute (Subscript (Name ''uxds_480'') (Constant (CStr ''bottomDepth''))) ''remap'') ''inverse_distance_weighted'')
                 [Attribute (Name ''uxds_120'') ''uxgrid'']
                 [Keyword (Some ''remap_to'') (Constant (CStr ''face centers'')),
                  Keyword (Some ''power'') (Constant (CInt 1)),
                  Keyword (Some ''k'') (Constant (CInt 2))]),
         Assign [Name ''upsampling_idw_high'']
           (Call (Attribute (Attribute (Subscript (Name ''uxds_480'') (Constant (CStr ''bottomDepth''))) ''remap'') ''inverse_distance_weighted'')
                 [Attribute (Name ''uxds_120'') ''uxgrid'']
                 [Keyword (Some ''remap_to'') (Constant (CStr ''face centers'')),
                  Keyword (Some ''power'') (Constant (CInt 5)),
                  Keyword (Some ''k'') (Constant (CInt 128))])]"

definition remapping_46 :: cell where
  "remapping_46 =
   Code [Expr (Call (Attribute (Call (Attribute (BinOp (BinOp (Call (Attribute (Name ''upsampling_idw_low'') ''plot'')
                                                                    []
                                                                    [Keyword (Some ''title'') (Constant (CStr ''Zoomed 120km (power=1, k=2)'')),
                                                                     Keyword (Some ''xlim'') (PyTuple [UnaryOp USub (Constant (CInt 10)),
                                                                                                       Constant (CInt 10)]),
                                                                     Keyword (Some ''ylim'') (PyTuple [UnaryOp USub (Constant (CInt 5)),
                                                                                                       Constant (CInt 5)]),
                                                                     Keyword (Some ''cmap'') (Attribute (Attribute (Name ''ux'') ''cmaps'') ''sequential_blue'')])
                                                              Mult
                                                              (Name ''features''))
                                                       Add
                                                       (BinOp (Call (Attribute (Name ''upsampling_idw_high'') ''plot'')
                                                                    []
                                                                    [Keyword (Some ''title'') (Constant (CStr ''Zoomed 120km (power=5, k=128)'')),
                                                                     Keyword (Some ''xlim'') (PyTuple [UnaryOp USub (Constant (CInt 10)),
                                                                                                       Constant (CInt 10)]),
                                                                     Keyword (Some ''ylim'') (PyTuple [UnaryOp USub (Constant (CInt 5)),
                                                                                                       Constant (CInt 5)]),
                                                                     Keyword (Some ''cmap'') (Attribute (Attribute (Name ''ux'') ''cmaps'') ''sequential_blue'')])
                                                              Mult
                                                              (Name ''features''))) ''cols'')
                                     [Constant (CInt 1)]
                                     []) ''opts'')
                    []
                    [Keyword (Some ''fig_size'') (Constant (CInt 125))])]"

definition remapping_47 :: cell where
  "remapping_47 =
   Markdown [''When we alter the `k` and `power` values during downsampling, we observe only minor effects. This is somewhat expected because downsampling involves transitioning from a grid with numerous faces to one where several faces are consolidated into one. Consequently, regardless of how many neighboring faces we consider, the impact remains limited, especially given the weighted calculation. '',
             '''',
             ''Conversely, during upsampling, the effects are much more pronounced. This is logical, considering that upsampling involves transitioning from a grid with fewer faces, where each face represents a larger area, to one where more faces are present, representing a smaller area per face. Therefore, adjusting from 2 neighbors to 128 leads to substantial changes because the additional faces encompase a much larger area, and by effect much more drastic changes in values.'']"

definition remapping :: notebook where
  "remapping =
   [remapping_0,
    remapping_1,
    remapping_2,
    remapping_3,
    remapping_4,
    remapping_5,
    remapping_6,
    remapping_7,
    remapping_8,
    remapping_9,
    remapping_10,
    remapping_11,
    remapping_12,
    remapping_13,
    remapping_14,
    remapping_15,
    remapping_16,
    remapping_17,
    remapping_18,
    remapping_19,
    remapping_20,
    remapping_21,
    remapping_22,
    remapping_23,
    remapping_24,
    remapping_25,
    remapping_26,
    remapping_27,
    remapping_28,
    remapping_29,
    remapping_30,
    remapping_31,
    remapping_32,
    remapping_33,
    remapping_34,
    remapping_35,
    remapping_36,
    remapping_37,
    remapping_38,
    remapping_39,
    remapping_40,
    remapping_41,
    remapping_42,
    remapping_43,
    remapping_44,
    remapping_45,
    remapping_46,
    remapping_47]"

subsection \<open>Spatial Hashing\<close>

text \<open>Notebook 1 of \<^verbatim>\<open>src/docs/user-guide/spatial-hashing.ipynb\<close>, 8 cells.\<close>

definition spatial_hashing_0 :: cell where
  "spatial_hashing_0 =
   Markdown [''# Spatial Hashing'',
             ''UXarray supports spatial hashing, which a fast search method for finding the face that a point lies within on an unstructured grid. This can be useful for building particle-in-cell interpolators for Lagrangian fluid flow analysis. '']"

definition spatial_hashing_1 :: cell where
  "spatial_hashing_1 =
   Code [Import [Alias ''uxarray'' (Some ''ux'')]]"

definition spatial_hashing_2 :: cell where
  "spatial_hashing_2 =
   Markdown [''For this example we will be using a simple hexagonal grid.'']"

definition spatial_hashing_3 :: cell where
  "spatial_hashing_3 =
   Code [Assign [Name ''grid_path'']
           (Constant (CStr ''../../test/meshfiles/ugrid/quad-hexagon/grid.nc'')),
         Assign [Name ''uxgrid'']
           (Call (Attribute (Name ''ux'') ''open_grid'') [Name ''grid_path''] [])]"

definition spatial_hashing_4 :: cell where
  "spatial_hashing_4 =
   Markdown ['''',
             ''## SpatialHash'',
             ''UXarray `SpatialHash` class provides an API for locating the unstructured grid faces that a list of $(x,y)$ points (in spherical coordinates) lie within. This search is conducted by relating unstructured grid faces and arbitrary physical positions to a uniformly spaced structured grid (the hash grid). The relationship between the unstructured grid elements and the hash grid is maintained in a hash table. '',
             '''',
             ''### Parameters'',
             ''The `SpatialHash` class can be accessed through the `Grid.get_spatial_hash(reconstruct)` method, which takes in the following parameters:'',
             ''* `reconstruct` is a bool variable that allows the user to reconstruct the spatial hash structure. As default for performance, if a user calls `get_spatial_hash` and a spatial hash structure has already been created, it will simply use that one. If `reconstruct` is set to `True`, it will override this and reconstruct the spatial hash structure. The default parameter is `False`.'',
             '''',
             '''',
             ''### Constructing a Spatial Hash'',
             ''We can store the SpatialHash data structure in a variable, which allows us to access the spatial hash in a simple way for queries.'']"

definition spatial_hashing_5 :: cell where
  "spatial_hashing_5 =
   Code [Assign [Name ''spatial_hash'']
           (Call (Attribute (Name ''uxgrid'') ''get_spatial_hash'')
                 []
                 [Keyword (Some ''reconstruct'') (Constant (CStr ''False''))])]"

definition spatial_hashing_6 :: cell where
  "spatial_hashing_6 =
   Markdown [''### Query'',
             ''Now we can use that variable to query for the face that a point lies within in addition to its barycentric coordinates. The first parameter is the point from which to do the search, which must be in spherical coordinates.'']"

definition spatial_hashing_7 :: cell where
  "spatial_hashing_7 =
   Code [Assign [PyTuple [Name ''face_ids'', Name ''bcoords'']]
           (Call (Attribute (Call (Attribute (Name ''uxgrid'') ''get_spatial_hash'') [] []) ''query'')
                 [PyList [UnaryOp USub (Constant (CFloat ''0.1'')),
                           UnaryOp USub (Constant (CFloat ''0.1''))]]
                 []),
         Expr (Call (Name ''print'')
                    [JoinedStr [Constant (CStr ''face ids : ''),
                                 FormattedValue (Name ''face_ids'')]]
                    []),
         Expr (Call (Name ''print'')
                    [JoinedStr [Constant (CStr ''Barycentric Coordinates: ''),
                                 FormattedValue (Name ''bcoords'')]]
                    [])]"

definition spatial_hashing :: notebook where
  "spatial_hashing =
   [spatial_hashing_0,
    spatial_hashing_1,
    spatial_hashing_2,
    spatial_hashing_3,
    spatial_hashing_4,
    spatial_hashing_5,
    spatial_hashing_6,
    spatial_hashing_7]"

subsection \<open>Custom Grid Topology\<close>

text \<open>Notebook 2 of \<^verbatim>\<open>src/docs/user-guide/spatial-hashing.ipynb\<close>, 29 cells.\<close>

definition custom_grid_0 :: cell where
  "custom_grid_0 =
   Markdown [''# Custom Grid Topology'',
             '''',
             ''This notebook will showcase how to construct UXarray data structures from custom grid topology information, including how to convert existing Xarray data structures to UXarray.'']"

definition custom_grid_1 :: cell where
  "custom_grid_1 =
   Code [Import [Alias ''numpy'' (Some ''np'')],
         Import [Alias ''xarray'' (Some ''xr'')],
         Import [Alias ''uxarray'' (Some ''ux'')]]"

definition custom_grid_2 :: cell where
  "custom_grid_2 =
   Markdown [''## Minimal Grid Definition'',
             '''',
             ''The UGRID conventions require a minimal set of variables for representing a 2D unstructured grid. '',
             '''',
             ''| **Variable**             | **Shape**                      | **Description**                                |'',
             ''|--------------------------|--------------------------------|------------------------------------------------|'',
             ''| `node_lon`               | `(n_node, )`                   | Longitude of the nodes that make up each face. |'',
             ''| `node_lat`               | `(n_node, )`                   | Latitude of the nodes that make up each face.  |'',
             ''| `face_node_connectivity` | `(n_face, n_max_face_nodes])`   | Indices of the nodes that surround each face.  |'']"

definition custom_grid_3 :: cell where
  "custom_grid_3 =
   Markdown [''## Fixed Face Sizes'',
             '''',
             ''For grids where each face has the same number of nodes, such as strictly triangular grids, each row in the `face_node_connectivity` array will contain the indices of nodes that surround each face, with no fill values. Below is an example of the node coordinates and connectivity required for representing a single triangle in the UGRID conventions.'']"

definition custom_grid_4 :: cell where
  "custom_grid_4 =
   Code [Assign [Name ''node_lon'']
           (Call (Attribute (Name ''np'') ''array'')
                 [PyList [UnaryOp USub (Constant (CFloat ''20.0'')),
                           Constant (CFloat ''0.0''),
                           Constant (CFloat ''20.0'')]]
                 []),
         Assign [Name ''node_lat'']
           (Call (Attribute (Name ''np'') ''array'')
                 [PyList [UnaryOp USub (Constant (CFloat ''10.0'')),
                           Constant (CFloat ''10.0''),
                           UnaryOp USub (Constant (CFloat ''10.0''))]]
                 []),
         Assign [Name ''face_node_connectivity'']
           (Call (Attribute (Name ''np'') ''array'')
                 [PyList [PyList [Constant (CInt 0), Constant (CInt 1), Constant (CInt 2)]]]
                 [])]"

definition custom_grid_5 :: cell where
  "custom_grid_5 =
   Markdown [''These variables can be passed directly into the `Grid.from_topology()` class-method, which allows custom grid topology information. This is especially useful for cases where a specific grid format isn'' @ [CHR 0x27] @ ''t directly supported. '']"

definition custom_grid_6 :: cell where
  "custom_grid_6 =
   Code [Assign [Name ''uxgrid_tri'']
           (Call (Attribute (Attribute (Name ''ux'') ''Grid'') ''from_topology'')
                 []
                 [Keyword (Some ''node_lon'') (Name ''node_lon''),
                  Keyword (Some ''node_lat'') (Name ''node_lat''),
                  Keyword (Some ''face_node_connectivity'') (Name ''face_node_connectivity'')])]"

definition custom_grid_7 :: cell where
  "custom_grid_7 =
   Code [Expr (Call (Attribute (Name ''uxgrid_tri'') ''plot'')
                    []
                    [Keyword (Some ''title'') (Constant (CStr ''Triangle''))])]"

definition custom_grid_8 :: cell where
  "custom_grid_8 =
   Markdown [''## Mixed Face Sizes'',
             '''',
             ''For grids where each face does not have the same number of nodes, the `face_node_connectivity` array will have it'' @ [CHR 0x27] @ ''s final dimension (`n_max_face_nodes`) set to the largest element shape. For example, a grid with triangles and quadrialterals will have a final dimension of 4. Any element that has less than the maximum number of nodes will be padded with a fill value. The `face_node_connectivity` array below showcases a basic grid with a single triangle and quadrilateral. Observe that the first row is set to `[0, 1, 2, -1]`, with the first three integers being the indices of the triangle corners, and the final value used as a fill value.'']"

definition custom_grid_9 :: cell where
  "custom_grid_9 =
   Code [Assign [Name ''node_lon'']
           (Call (Attribute (Name ''np'') ''array'')
                 [PyList [UnaryOp USub (Constant (CFloat ''20.0'')),
                           Constant (CFloat ''0.0''),
                           Constant (CFloat ''20.0''),
                           UnaryOp USub (Constant (CInt 20)),
                           UnaryOp USub (Constant (CInt 40))]]
                 []),
         Assign [Name ''node_lat'']
           (Call (Attribute (Name ''np'') ''array'')
                 [PyList [UnaryOp USub (Constant (CFloat ''10.0'')),
                           Constant (CFloat ''10.0''),
                           UnaryOp USub (Constant (CFloat ''10.0'')),
                           Constant (CInt 10),
                           UnaryOp USub (Constant (CInt 10))]]
                 []),
         Assign [Name ''face_node_connectivity'']
           (Call (Attribute (Name ''np'') ''array'')
                 [PyList [PyList [Constant (CInt 0),
                                    Constant (CInt 1),
                                    Constant (CInt 2),
                                    UnaryOp USub (Constant (CInt 1))],
                           PyList [Constant (CInt 0),
                                    Constant (CInt 1),
                                    Constant (CInt 3),
                                    Constant (CInt 4)]]]
                 [])]"

definition custom_grid_10 :: cell where
  "custom_grid_10 =
   Markdown [''The `fill_value` parameter must be passed in when working with a mixed topology grid. '']"

definition custom_grid_11 :: cell where
  "custom_grid_11 =
   Code [Assign [Name ''uxgrid_tri_quad'']
           (Call (Attribute (Attribute (Name ''ux'') ''Grid'') ''from_topology'')
                 []
                 [Keyword (Some ''node_lon'') (Name ''node_lon''),
                  Keyword (Some ''node_lat'') (Name ''node_lat''),
                  Keyword (Some ''face_node_connectivity'') (Name ''face_node_connectivity''),
                  Keyword (Some ''fill_value'') (UnaryOp USub (Constant (CInt 1)))])]"

definition custom_grid_12 :: cell where
  "custom_grid_12 =
   Code [Expr (Call (Attribute (Name ''uxgrid_tri_quad'') ''plot'')
                    []
                    [Keyword (Some ''title'') (Constant (CStr ''Triangle & Quad''))])]"

definition custom_grid_13 :: cell where
  "custom_grid_13 =
   Markdown [''## Working with Existing Xarray Structures'',
             '''',
             ''The previous examples showcase how to create a `Grid` from custom topology. The follow sections will walk through how to match data to the `Grid`.'']"

definition custom_grid_14 :: cell where
  "custom_grid_14 =
   Markdown [''### `xr.DataArray` to `ux.UxDataArray`'',
             '''',
             ''Consider the previous example where we constructed the `uxgrid_tri` grid, consisting of a single triangle. Below is an example `xr.DataArray` containing four temperature values. '']"

definition custom_grid_15 :: cell where
  "custom_grid_15 =
   Code [Assign [Name ''xrda_temp'']
           (Call (Attribute (Name ''xr'') ''DataArray'')
                 []
                 [Keyword (Some ''name'') (Constant (CStr ''temp'')),
                  Keyword (Some ''data'') (Attribute (Call (Attribute (Name ''np'') ''array'')
                                                           [PyList [PyList [Constant (CInt 100),
                                                                              Constant (CInt 105),
                                                                              Constant (CInt 108),
                                                                              Constant (CInt 109)]]]
                                                           []) ''T''),
                  Keyword (Some ''dims'') (PyList [Constant (CStr ''time''),
                                                   Constant (CStr ''cell'')])]),
         Expr (Name ''xrda_temp'')]"

definition custom_grid_16 :: cell where
  "custom_grid_16 =
   Markdown [''The original dimension must be mapped to their UGRID equivalent. '',
             '''',
             ''| **Data Mapping** | **UGRID Dimension Name** |'',
             ''|------------------|--------------------------|'',
             ''| Faces            | n_face                   |'',
             ''| Edges            | n_edge                   |'',
             ''| Nodes            | n_node                   |'',
             '''',
             '''',
             ''In the example above, the `cell` dimension corresponds to the faces of the grid, meaning we want to translate the dimension to `n_face`'',
             '''']"

definition custom_grid_17 :: cell where
  "custom_grid_17 =
   Code [Assign [Name ''ugrid_dims'']
           (PyDict [Constant (CStr ''cell'')] [Constant (CStr ''n_face'')])]"

definition custom_grid_18 :: cell where
  "custom_grid_18 =
   Markdown [''The `UxDataArray.from_xarray()` takes in a user-defined `Grid` in addition to the original `xr.DataArray` and UGRID dimension mapping and returns a `UxDataArray`'']"

definition custom_grid_19 :: cell where
  "custom_grid_19 =
   Code [Assign [Name ''uxda_temp'']
           (Call (Attribute (Attribute (Name ''ux'') ''UxDataArray'') ''from_xarray'')
                 [Name ''xrda_temp'', Name ''uxgrid_tri'', Name ''ugrid_dims'']
                 []),
         Expr (Name ''uxda_temp'')]"

definition custom_grid_20 :: cell where
  "custom_grid_20 =
   Markdown [''### `xr.Dataset` to `ux.UxDataset`'',
             '''',
             ''More commonly, you may have an entire `xr.Dataset` that contains data variables. '']"

definition custom_grid_21 :: cell where
  "custom_grid_21 =
   Code [Assign [Name ''xrda_vorticity'']
           (Call (Attribute (Name ''xr'') ''DataArray'')
                 []
                 [Keyword (Some ''name'') (Constant (CStr ''vorticity'')),
                  Keyword (Some ''data'') (Attribute (Call (Attribute (Name ''np'') ''array'')
                                                           [PyList [PyList [Constant (CInt 1),
                                                                              Constant (CInt 2),
                                                                              Constant (CInt 3),
                                                                              Constant (CInt 4)],
                                                                     PyList [Constant (CInt 5),
                                                                              Constant (CInt 6),
                                                                              Constant (CInt 7),
                                                                              Constant (CInt 8)],
                                                                     PyList [Constant (CInt 9),
                                                                              Constant (CInt 10),
                                                                              Constant (CInt 11),
                                                                              Constant (CInt 12)]]]
                                                           []) ''T''),
                  Keyword (Some ''dims'') (PyList [Constant (CStr ''time''),
                                                   Constant (CStr ''vertex'')])])]"

definition custom_grid_22 :: cell where
  "custom_grid_22 =
   Markdown [''In this example, we have a cell-centered `temp` and vertex-centered `vorticity` variable. '']"

definition custom_grid_23 :: cell where
  "custom_grid_23 =
   Code [Assign [Name ''ds'']
           (Call (Attribute (Name ''xr'') ''Dataset'')
                 []
                 [Keyword (Some ''data_vars'') (PyDict [Constant (CStr ''temp''),
                                                        Constant (CStr ''vorticity'')]
                                                       [Name ''xrda_temp'',
                                                        Name ''xrda_vorticity''])]),
         Expr (Name ''ds'')]"

definition custom_grid_24 :: cell where
  "custom_grid_24 =
   Markdown [''We must now include an additional entry into our `ugrid_dims` dictionary for our vertex-centered data variable.'']"

definition custom_grid_25 :: cell where
  "custom_grid_25 =
   Code [Assign [Name ''ugrid_dims'']
           (PyDict [Constant (CStr ''cell''), Constant (CStr ''vertex'')]
                   [Constant (CStr ''n_face''), Constant (CStr ''n_node'')])]"

definition custom_grid_26 :: cell where
  "custom_grid_26 =
   Code [Assign [Name ''uxds'']
           (Call (Attribute (Attribute (Name ''ux'') ''UxDataset'') ''from_xarray'')
                 []
                 [Keyword (Some ''ds'') (Name ''ds''),
                  Keyword (Some ''uxgrid'') (Name ''uxgrid_tri''),
                  Keyword (Some ''ugrid_dims'') (Name ''ugrid_dims'')])]"

definition custom_grid_27 :: cell where
  "custom_grid_27 =
   Markdown [''uxds now has two `UxDataArray` objects, one for the cell-centered data `temp` and one for the vertex-centered data `vorticity`. There are 4 time steps 0, 1, 2, and 3. Values for time step 0 are shown below.'']"

definition custom_grid_28 :: cell where
  "custom_grid_28 =
   Code [Expr (Subscript (Subscript (Name ''uxds'') (Constant (CStr ''vorticity''))) (Constant (CInt 0)))]"

definition custom_grid :: notebook where
  "custom_grid =
   [custom_grid_0,
    custom_grid_1,
    custom_grid_2,
    custom_grid_3,
    custom_grid_4,
    custom_grid_5,
    custom_grid_6,
    custom_grid_7,
    custom_grid_8,
    custom_grid_9,
    custom_grid_10,
    custom_grid_11,
    custom_grid_12,
    custom_grid_13,
    custom_grid_14,
    custom_grid_15,
    custom_grid_16,
    custom_grid_17,
    custom_grid_18,
    custom_grid_19,
    custom_grid_20,
    custom_grid_21,
    custom_grid_22,
    custom_grid_23,
    custom_grid_24,
    custom_grid_25,
    custom_grid_26,
    custom_grid_27,
    custom_grid_28]"

subsection \<open>Dual Grid Construction\<close>

text \<open>Notebook 1 of \<^verbatim>\<open>src/docs/user-guide/dual-mesh.ipynb\<close>, 30 cells.\<close>

definition dual_mesh_0 :: cell where
  "dual_mesh_0 =
   Markdown [''# Dual Grid Construction'']"

definition dual_mesh_1 :: cell where
  "dual_mesh_1 =
   Markdown [''A dual grid is a secondary grid built from a grid, by constructing new faces over the original grids nodes. One property of this means that if you take the dual grid of a dual grid, the orignal grid will be constructed. However, this will only work properly if the grid is not partial. UXarray allows the constructing of this dual grid on all three of our data structures using the following methods:'',
             '''',
             ''* `Grid.get_dual()`'',
             ''* `UxDataArray.get_dual()`'',
             ''* `UxDataset.get_dual()`'']"

definition dual_mesh_2 :: cell where
  "dual_mesh_2 =
   Code [Import [Alias ''warnings'' None],
         Import [Alias ''cartopy.crs'' (Some ''ccrs'')],
         Import [Alias ''uxarray'' (Some ''ux'')],
         Expr (Call (Attribute (Name ''warnings'') ''filterwarnings'')
                    [Constant (CStr ''ignore'')]
                    [])]"

definition dual_mesh_3 :: cell where
  "dual_mesh_3 =
   Code [Assign [Name ''file'']
           (Constant (CStr ''../../test/meshfiles/mpas/QU/mesh.QU.1920km.151026.nc'')),
         Assign [Name ''uxds'']
           (Call (Attribute (Name ''ux'') ''open_dataset'')
                 [Name ''file'', Name ''file'']
                 [])]"

definition dual_mesh_4 :: cell where
  "dual_mesh_4 =
   Markdown [''## Computing the Dual Grid'']"

definition dual_mesh_5 :: cell where
  "dual_mesh_5 =
   Markdown [''When computing the dual of a grid, the original grid is typically referred to as the '' @ [CHR 0x22] @ ''Primal'' @ [CHR 0x22] @ '' grid. The corner nodes of the Primal grid become the face centers of the Dual grid, and the face centers of the Primal grid become the corner nodes of the Dual grid. This means that variables that were originally face-centered on the Primal grid will be node-centered on the Dual grid, and vice versa. Using UXarray we can construct the dual mesh using `grid.compute_dual()`, which returns a new `Grid` object.'']"

definition dual_mesh_6 :: cell where
  "dual_mesh_6 =
   Code [Assign [Name ''grid''] (Attribute (Name ''uxds'') ''uxgrid'')]"

definition dual_mesh_7 :: cell where
  "dual_mesh_7 =
   Code [Assign [Name ''dual''] (Call (Attribute (Name ''grid'') ''get_dual'') [] [])]"

definition dual_mesh_8 :: cell where
  "dual_mesh_8 =
   Code [Expr (BinOp (Call (Attribute (Name ''grid'') ''plot'')
                           []
                           [Keyword (Some ''title'') (Constant (CStr ''Primal Grid'')),
                            Keyword (Some ''backend'') (Constant (CStr ''bokeh'')),
                            Keyword (Some ''projection'') (Call (Attribute (Name ''ccrs'') ''Orthographic'')
                                                                []
                                                                [])])
                     Add
                     (Call (Attribute (Name ''dual'') ''plot'')
                           []
                           [Keyword (Some ''title'') (Constant (CStr ''Dual Grid'')),
                            Keyword (Some ''backend'') (Constant (CStr ''bokeh'')),
                            Keyword (Some ''projection'') (Call (Attribute (Name ''ccrs'') ''Orthographic'')
                                                                []
                                                                [])]))]"

definition dual_mesh_9 :: cell where
  "dual_mesh_9 =
   Code [Expr (Call (Attribute (BinOp (Call (Attribute (Name ''grid'') ''plot'')
                                            []
                                            [Keyword (Some ''backend'') (Constant (CStr ''bokeh'')),
                                             Keyword (Some ''projection'') (Call (Attribute (Name ''ccrs'') ''Orthographic'')
                                                                                 []
                                                                                 []),
                                             Keyword (Some ''color'') (Constant (CStr ''red''))])
                                      Mult
                                      (Call (Attribute (Name ''dual'') ''plot'')
                                            []
                                            [Keyword (Some ''backend'') (Constant (CStr ''bokeh'')),
                                             Keyword (Some ''projection'') (Call (Attribute (Name ''ccrs'') ''Orthographic'')
                                                                                 []
                                                                                 []),
                                             Keyword (Some ''color'') (Constant (CStr ''blue''))])) ''opts'')
                    []
                    [Keyword (Some ''title'') (Constant (CStr ''Primal (Red) & Dual (Blue) Grids''))])]"

definition dual_mesh_10 :: cell where
  "dual_mesh_10 =
   Markdown [''## Computing the Dual Grid with Data'']"

definition dual_mesh_11 :: cell where
  "dual_mesh_11 =
   Markdown [''We can also take a dual mesh of a `UxDataArray`. The concept for constructing the `Grid` remains the same, and what is constructed will be identical. The difference is the data stored inside the `UxDataArray` will be transfered with the dual mesh. The key differences is the location that the data is stored. The data transfer process works as follows:'',
             '''',
             ''* Face centered data becomes node centered, as each face becomes a node in the dual mesh.'',
             ''* Node centered data becomes face centered, as each node becomes a face in the dual mesh.'',
             ''* Edge centered data remains unchanged, as the edge centers will remain in the same place, despite the edges themselves being different.'']"

definition dual_mesh_12 :: cell where
  "dual_mesh_12 =
   Markdown [''### Face Centered Data'']"

definition dual_mesh_13 :: cell where
  "dual_mesh_13 =
   Markdown [''When constructing the dual mesh paired with a face centered variable, the data becomes node centered. We can then plot this using `topological_mean` to get the dual data to the faces for proper visualization comparisions.'']"

definition dual_mesh_14 :: cell where
  "dual_mesh_14 =
   Code [Assign [Name ''uxds_dual_face'']
           (Call (Attribute (Subscript (Name ''uxds'') (Constant (CStr ''latCell''))) ''get_dual'')
                 []
                 [])]"

definition dual_mesh_15 :: cell where
  "dual_mesh_15 =
   Code [Expr (Call (Attribute (Call (Attribute (BinOp (Call (Attribute (Attribute (Subscript (Name ''uxds'') (Constant (CStr ''latCell''))) ''plot'') ''polygons'')
                                                             []
                                                             [Keyword (Some ''rasterize'') (Constant (CBool True)),
                                                              Keyword (Some ''backend'') (Constant (CStr ''matplotlib'')),
                                                              Keyword (Some ''title'') (Constant (CStr ''Face centered data on Primal Mesh'')),
                                                              Keyword (Some ''cmap'') (Attribute (Attribute (Name ''ux'') ''cmaps'') ''sequential_green_blue''),
                                                              Keyword (Some ''projection'') (Call (Attribute (Name ''ccrs'') ''Orthographic'')
                                                                                                  []
                                                                                                  [])])
                                                       Add
                                                       (Call (Attribute (Attribute (Call (Attribute (Name ''uxds_dual_face'') ''topological_mean'')
                                                                                         []
                                                                                         [Keyword (Some ''destination'') (Constant (CStr ''face''))]) ''plot'') ''polygons'')
                                                             []
                                                             [Keyword (Some ''rasterize'') (Constant (CBool True)),
                                                              Keyword (Some ''backend'') (Constant (CStr ''matplotlib'')),
                                                              Keyword (Some ''title'') (Constant (CStr ''Node Centered Data on Dual Mesh'')),
                                                              Keyword (Some ''cmap'') (Attribute (Attribute (Name ''ux'') ''cmaps'') ''sequential_green_blue''),
                                                              Keyword (Some ''projection'') (Call (Attribute (Name ''ccrs'') ''Orthographic'')
                                                                                                  []
                                                                                                  [])])) ''cols'')
                                     [Constant (CInt 1)]
                                     []) ''opts'')
                    []
                    [Keyword (Some ''fig_size'') (Constant (CInt 125))])]"

definition dual_mesh_16 :: cell where
  "dual_mesh_16 =
   Markdown [''### Node Centered Data'']"

definition dual_mesh_17 :: cell where
  "dual_mesh_17 =
   Markdown [''When constructing the dual mesh paired with a node centered variable, the data becomes face centered. A benefit of computing the dual of a node centered variable is that it allows us to visualize the data as polygons.'']"

definition dual_mesh_18 :: cell where
  "dual_mesh_18 =
   Code [Assign [Name ''uxds_dual_node'']
           (Call (Attribute (Subscript (Name ''uxds'') (Constant (CStr ''latVertex''))) ''get_dual'')
                 []
                 [])]"

definition dual_mesh_19 :: cell where
  "dual_mesh_19 =
   Code [Expr (Call (Attribute (Call (Attribute (BinOp (Call (Attribute (Attribute (Call (Attribute (Subscript (Name ''uxds'') (Constant (CStr ''latVertex''))) ''topological_mean'')
                                                                                         []
                                                                                         [Keyword (Some ''destination'') (Constant (CStr ''face''))]) ''plot'') ''polygons'')
                                                             []
                                                             [Keyword (Some ''rasterize'') (Constant (CBool True)),
                                                              Keyword (Some ''backend'') (Constant (CStr ''matplotlib'')),
                                                              Keyword (Some ''title'') (Constant (CStr ''Face centered data on Primal Mesh'')),
                                                              Keyword (Some ''cmap'') (Attribute (Attribute (Name ''ux'') ''cmaps'') ''sequential_green_blue''),
                                                              Keyword (Some ''projection'') (Call (Attribute (Name ''ccrs'') ''Orthographic'')
                                                                                                  []
                                                                                                  [])])
                                                       Add
                                                       (Call (Attribute (Attribute (Name ''uxds_dual_node'') ''plot'') ''polygons'')
                                                             []
                                                             [Keyword (Some ''rasterize'') (Constant (CBool True)),
                                                              Keyword (Some ''backend'') (Constant (CStr ''matplotlib'')),
                                                              Keyword (Some ''title'') (Constant (CStr ''Node Centered Data on Dual Mesh'')),
                                                              Keyword (Some ''cmap'') (Attribute (Attribute (Name ''ux'') ''cmaps'') ''sequential_green_blue''),
                                                              Keyword (Some ''projection'') (Call (Attribute (Name ''ccrs'') ''Orthographic'')
                                                                                                  []
                                                                                                  [])])) ''cols'')
                                     [Constant (CInt 1)]
                                     []) ''opts'')
                    []
                    [Keyword (Some ''fig_size'') (Constant (CInt 125))])]"

definition dual_mesh_20 :: cell where
  "dual_mesh_20 =
   Markdown [''### Edge Centered Data'']"

definition dual_mesh_21 :: cell where
  "dual_mesh_21 =
   Markdown [''When constructing the dual mesh paired with an edge centered variable, the data will stay edge centered. However, a plotting example cannot be shown, as the `topological_mean` needed to visualize edge centered data is not currently implemented for edge centered data.'']"

definition dual_mesh_22 :: cell where
  "dual_mesh_22 =
   Markdown [''### UxDataset'']"

definition dual_mesh_23 :: cell where
  "dual_mesh_23 =
   Markdown [''We can also construct a dual mesh from an entire dataset, which will convert the whole `UxDataset` to its dual mesh form. Below we can see the dataset before the dual mesh is constructed.'']"

definition dual_mesh_24 :: cell where
  "dual_mesh_24 =
   Code [Expr (Name ''uxds'')]"

definition dual_mesh_25 :: cell where
  "dual_mesh_25 =
   Markdown [''Now we can construct the dual and see the new dataset that is returned.'']"

definition dual_mesh_26 :: cell where
  "dual_mesh_26 =
   Code [Assign [Name ''uxds_dual''] (Call (Attribute (Name ''uxds'') ''get_dual'') [] [])]"

definition dual_mesh_27 :: cell where
  "dual_mesh_27 =
   Code [Expr (Name ''uxds_dual'')]"

definition dual_mesh_28 :: cell where
  "dual_mesh_28 =
   Markdown [''As you can see, transforms the whole dataset. We can now take any variable and plot it, as shown below.'']"

definition dual_mesh_29 :: cell where
  "dual_mesh_29 =
   Code [Expr (Call (Attribute (Call (Attribute (Attribute (Subscript (Name ''uxds_dual'') (Constant (CStr ''latVertex''))) ''plot'') ''polygons'')
                                     []
                                     [Keyword (Some ''rasterize'') (Constant (CBool True)),
                                      Keyword (Some ''backend'') (Constant (CStr ''matplotlib'')),
                                      Keyword (Some ''title'') (Constant (CStr ''latVertex from UxDataset dual mesh'')),
                                      Keyword (Some ''cmap'') (Attribute (Attribute (Name ''ux'') ''cmaps'') ''sequential_green_blue''),
                                      Keyword (Some ''projection'') (Call (Attribute (Name ''ccrs'') ''Orthographic'')
                                                                          []
                                                                          [])]) ''opts'')
                    []
                    [Keyword (Some ''fig_size'') (Constant (CInt 120))])]"

definition dual_mesh :: notebook where
  "dual_mesh =
   [dual_mesh_0,
    dual_mesh_1,
    dual_mesh_2,
    dual_mesh_3,
    dual_mesh_4,
    dual_mesh_5,
    dual_mesh_6,
    dual_mesh_7,
    dual_mesh_8,
    dual_mesh_9,
    dual_mesh_10,
    dual_mesh_11,
    dual_mesh_12,
    dual_mesh_13,
    dual_mesh_14,
    dual_mesh_15,
    dual_mesh_16,
    dual_mesh_17,
    dual_mesh_18,
    dual_mesh_19,
    dual_mesh_20,
    dual_mesh_21,
    dual_mesh_22,
    dual_mesh_23,
    dual_mesh_24,
    dual_mesh_25,
    dual_mesh_26,
    dual_mesh_27,
    dual_mesh_28,
    dual_mesh_29]"

subsection \<open>Subsetting\<close>

text \<open>Notebook 1 of \<^verbatim>\<open>src/docs/user-guide/subset.ipynb\<close>, 39 cells.\<close>

definition subset_0 :: cell where
  "subset_0 =
   Markdown [''# Subsetting'',
             '''',
             ''When working with large grids, it is often desired to obtain a smaller version, typically zoomed into a region of interest. UXarray supports this through grid-informed subsetting operations. This section will discuss the types of ways to subset a grid:'',
             ''1. Nearest Neighbor'',
             ''2. Bounding Box'',
             ''3. Bounding Circle'']"

definition subset_1 :: cell where
  "subset_1 =
   Code [Import [Alias ''warnings'' None],
         Import [Alias ''cartopy.crs'' (Some ''ccrs'')],
         Import [Alias ''geocat.datafiles'' (Some ''geodf'')],
         Import [Alias ''geoviews.feature'' (Some ''gf'')],
         Import [Alias ''holoviews'' (Some ''hv'')],
         Import [Alias ''uxarray'' (Some ''ux'')],
         Assign [Name ''plot_opts'']
           (PyDict [Constant (CStr ''width''), Constant (CStr ''height'')]
                   [Constant (CInt 700), Constant (CInt 350)]),
         Expr (Call (Attribute (Name ''hv'') ''extension'') [Constant (CStr ''bokeh'')] []),
         Expr (Call (Attribute (Name ''warnings'') ''filterwarnings'')
                    [Constant (CStr ''ignore'')]
                    [])]"

definition subset_2 :: cell where
  "subset_2 =
   Markdown [''## Data'',
             '''',
             ''In this example, we will be using the `geocat-datafiles` package to obtain our grid and data files. The dataset used in this example is a 30km global MPAS meshes. We will be investigating the relative humidity vertically interpolated to 200hPa (`relhum200hPa`) data variable.'']"

definition subset_3 :: cell where
  "subset_3 =
   Code [Assign [Name ''datafiles'']
           (PyTuple [Call (Attribute (Name ''geodf'') ''get'')
                          [Constant (CStr ''netcdf_files/MPAS/FalkoJudt/dyamond_1/30km/diag.2016-08-20_00.00.00_subset.nc'')]
                          [],
                     Call (Attribute (Name ''geodf'') ''get'')
                          [Constant (CStr ''netcdf_files/MPAS/FalkoJudt/dyamond_1/30km/x1.655362.grid_subset.nc'')]
                          []])]"

definition subset_4 :: cell where
  "subset_4 =
   Code [Assign [Name ''uxds'']
           (Call (Attribute (Name ''ux'') ''open_dataset'')
                 [Subscript (Name ''datafiles'') (Constant (CInt 1)),
                  Subscript (Name ''datafiles'') (Constant (CInt 0))]
                 [])]"

definition subset_5 :: cell where
  "subset_5 =
   Code [Assign [Name ''clim'']
           (PyTuple [Call (Attribute (Attribute (Subscript (Subscript (Name ''uxds'') (Constant (CStr ''relhum_200hPa''))) (Constant (CInt 0))) ''values'') ''min'')
                          []
                          [],
                     Call (Attribute (Attribute (Subscript (Subscript (Name ''uxds'') (Constant (CStr ''relhum_200hPa''))) (Constant (CInt 0))) ''values'') ''max'')
                          []
                          []])]"

definition subset_6 :: cell where
  "subset_6 =
   Code [Assign [Name ''features'']
           (BinOp (Call (Attribute (Name ''gf'') ''coastline'')
                        []
                        [Keyword (Some ''projection'') (Call (Attribute (Name ''ccrs'') ''PlateCarree'')
                                                             []
                                                             []),
                         Keyword (Some ''line_width'') (Constant (CInt 1)),
                         Keyword (Some ''scale'') (Constant (CStr ''50m''))])
                  Mult
                  (Call (Attribute (Name ''gf'') ''states'')
                        []
                        [Keyword (Some ''projection'') (Call (Attribute (Name ''ccrs'') ''PlateCarree'')
                                                             []
                                                             []),
                         Keyword (Some ''line_width'') (Constant (CInt 1)),
                         Keyword (Some ''scale'') (Constant (CStr ''50m''))]))]"

definition subset_7 :: cell where
  "subset_7 =
   Markdown [''## Global Grid'',
             '''',
             ''Many unstructured grids, such as those from global climate models, span the entire surface of a sphere. UXarray supports working with these global grids, handling cases that arise with the spherical geometry of the earth (wrap around at the antimeridian, pole points, etc.)'']"

definition subset_8 :: cell where
  "subset_8 =
   Code [Expr (BinOp (Call (Attribute (Subscript (Subscript (Name ''uxds'') (Constant (CStr ''relhum_200hPa''))) (Constant (CInt 0))) ''plot'')
                           []
                           [Keyword (Some ''rasterize'') (Constant (CBool True)),
                            Keyword (Some ''periodic_elements'') (Constant (CStr ''exclude'')),
                            Keyword (Some ''title'') (Constant (CStr ''Global Grid'')),
                            Keyword None (Name ''plot_opts'')])
                     Mult
                     (Name ''features''))]"

definition subset_9 :: cell where
  "subset_9 =
   Markdown [''In addition to plotting global grids, we can perform analysis operations on the entire grid.'']"

definition subset_10 :: cell where
  "subset_10 =
   Code [Expr (Call (Attribute (Attribute (Subscript (Subscript (Name ''uxds'') (Constant (CStr ''relhum_200hPa''))) (Constant (CInt 0))) ''values'') ''mean'')
                    []
                    [])]"

definition subset_11 :: cell where
  "subset_11 =
   Markdown [''## Regional Subsets'',
             '''',
             ''UXarray supports taking subsets of a grid, which allows us to select a region and perform analysis directly on that area, as opposed to the global grid.'',
             '''',
             ''There are currently three supported subsetting methods, both for the `Grid` and `UxDataArray` data structures.'']"

definition subset_12 :: cell where
  "subset_12 =
   Code [Expr (Attribute (Subscript (Name ''uxds'') (Constant (CStr ''relhum_200hPa''))) ''subset'')]"

definition subset_13 :: cell where
  "subset_13 =
   Code [Expr (Attribute (Attribute (Subscript (Name ''uxds'') (Constant (CStr ''relhum_200hPa''))) ''uxgrid'') ''subset'')]"

definition subset_14 :: cell where
  "subset_14 =
   Markdown [''### Bounding Box'',
             '''',
             ''We can declare a bounding box centered about the Chicago area by specifying the minimum and maximum longitude and latitude bounds.'']"

definition subset_15 :: cell where
  "subset_15 =
   Code [Assign [Name ''lon_bounds'']
           (PyTuple [BinOp (UnaryOp USub (Constant (CFloat ''87.6298'')))
                           Sub
                           (Constant (CInt 2)),
                     BinOp (UnaryOp USub (Constant (CFloat ''87.6298'')))
                           Add
                           (Constant (CInt 2))]),
         Assign [Name ''lat_bounds'']
           (PyTuple [BinOp (Constant (CFloat ''41.8781'')) Sub (Constant (CInt 2)),
                     BinOp (Constant (CFloat ''41.8781'')) Add (Constant (CInt 2))])]"

definition subset_16 :: cell where
  "subset_16 =
   Code [Assign [Name ''bbox_subset_nodes'']
           (Call (Attribute (Attribute (Subscript (Subscript (Name ''uxds'') (Constant (CStr ''relhum_200hPa''))) (Constant (CInt 0))) ''subset'') ''bounding_box'')
                 [Name ''lon_bounds'', Name ''lat_bounds'']
                 []),
         Expr (BinOp (Call (Attribute (Name ''bbox_subset_nodes'') ''plot'')
                           []
                           [Keyword (Some ''rasterize'') (Constant (CBool True)),
                            Keyword (Some ''periodic_elements'') (Constant (CStr ''exclude'')),
                            Keyword (Some ''clim'') (Name ''clim''),
                            Keyword (Some ''title'') (Constant (CStr ''Bounding Box Subset (Corner Node Query)'')),
                            Keyword None (Name ''plot_opts'')])
                     Mult
                     (Name ''features''))]"

definition subset_17 :: cell where
  "subset_17 =
   Markdown [''### Bounding Circle'',
             '''',
             ''A bounding circle is defined using a center coordinate (lon, lat) and a radius (in degrees). The resulting subset will contain all elements within the radius of that circle.'']"

definition subset_18 :: cell where
  "subset_18 =
   Code [Assign [Name ''center_coord'']
           (PyList [UnaryOp USub (Constant (CFloat ''87.6298'')),
                    Constant (CFloat ''41.8781'')]),
         Assign [Name ''r''] (Constant (CInt 2))]"

definition subset_19 :: cell where
  "subset_19 =
   Code [Assign [Name ''bcircle_subset'']
           (Call (Attribute (Attribute (Subscript (Subscript (Name ''uxds'') (Constant (CStr ''relhum_200hPa''))) (Constant (CInt 0))) ''subset'') ''bounding_circle'')
                 [Name ''center_coord'', Name ''r'']
                 []),
         Expr (BinOp (Call (Attribute (Name ''bcircle_subset'') ''plot'')
                           []
                           [Keyword (Some ''rasterize'') (Constant (CBool True)),
                            Keyword (Some ''periodic_elements'') (Constant (CStr ''exclude'')),
                            Keyword (Some ''clim'') (Name ''clim''),
                            Keyword (Some ''title'') (Constant (CStr ''Bounding Circle Subset'')),
                            Keyword None (Name ''plot_opts'')])
                     Mult
                     (Name ''features''))]"

definition subset_20 :: cell where
  "subset_20 =
   Markdown [''### Nearest Neighbor'',
             '''',
             ''Similar to the bounding circle, we can perform a nearest neighbor subset at some center coordinate (lon, lat) and query for some number of elements `k`'']"

definition subset_21 :: cell where
  "subset_21 =
   Code [Assign [Name ''center_coord'']
           (PyList [UnaryOp USub (Constant (CFloat ''87.6298'')),
                    Constant (CFloat ''41.8781'')])]"

definition subset_22 :: cell where
  "subset_22 =
   Code [Assign [Name ''nn_subset'']
           (Call (Attribute (Attribute (Subscript (Subscript (Name ''uxds'') (Constant (CStr ''relhum_200hPa''))) (Constant (CInt 0))) ''subset'') ''nearest_neighbor'')
                 [Name ''center_coord'']
                 [Keyword (Some ''k'') (Constant (CInt 30)),
                  Keyword (Some ''element'') (Constant (CStr ''nodes''))]),
         Expr (BinOp (Call (Attribute (Name ''nn_subset'') ''plot'')
                           []
                           [Keyword (Some ''rasterize'') (Constant (CBool True)),
                            Keyword (Some ''periodic_elements'') (Constant (CStr ''exclude'')),
                            Keyword (Some ''clim'') (Name ''clim''),
                            Keyword (Some ''title'') (Constant (CStr ''Nearest Neighbor Subset (Query 30 closest nodes)'')),
                            Keyword None (Name ''plot_opts'')])
                     Mult
                     (Name ''features''))]"

definition subset_23 :: cell where
  "subset_23 =
   Markdown [''We can increase the number of neighbors `k` to make the region larger.'']"

definition subset_24 :: cell where
  "subset_24 =
   Code [Assign [Name ''nn_subset_120'']
           (Call (Attribute (Attribute (Subscript (Subscript (Name ''uxds'') (Constant (CStr ''relhum_200hPa''))) (Constant (CInt 0))) ''subset'') ''nearest_neighbor'')
                 [Name ''center_coord'']
                 [Keyword (Some ''k'') (Constant (CInt 120)),
                  Keyword (Some ''element'') (Constant (CStr ''face centers''))]),
         Expr (BinOp (Call (Attribute (Name ''nn_subset_120'') ''plot'')
                           []
                           [Keyword (Some ''rasterize'') (Constant (CBool True)),
                            Keyword (Some ''periodic_elements'') (Constant (CStr ''exclude'')),
                            Keyword (Some ''clim'') (Name ''clim''),
                            Keyword (Some ''title'') (Constant (CStr ''Nearest Neighbor Subset (Query 120 Closest Faces)'')),
                            Keyword None (Name ''plot_opts'')])
                     Mult
                     (Name ''features''))]"

definition subset_25 :: cell where
  "subset_25 =
   Markdown [''When we set ``k=1``, it selects the closest neighbor.'']"

definition subset_26 :: cell where
  "subset_26 =
   Code [Assign [Name ''nn_subset_1'']
           (Call (Attribute (Attribute (Subscript (Subscript (Name ''uxds'') (Constant (CStr ''relhum_200hPa''))) (Constant (CInt 0))) ''subset'') ''nearest_neighbor'')
                 [Name ''center_coord'']
                 [Keyword (Some ''k'') (Constant (CInt 1)),
                  Keyword (Some ''element'') (Constant (CStr ''face centers''))]),
         Expr (BinOp (Call (Attribute (Name ''nn_subset_1'') ''plot'')
                           []
                           [Keyword (Some ''rasterize'') (Constant (CBool True)),
                            Keyword (Some ''periodic_elements'') (Constant (CStr ''exclude'')),
                            Keyword (Some ''clim'') (Name ''clim''),
                            Keyword (Some ''title'') (Constant (CStr ''Nearest Neighbor Subset (Query Closest Face)'')),
                            Keyword None (Name ''plot_opts'')])
                     Mult
                     (Name ''features''))]"

definition subset_27 :: cell where
  "subset_27 =
   Markdown [''### Analysis Operators on Regional Subsets'',
             '''',
             ''Since each subset is a newly initialized ``UxDataArray``, paired also with a newly initialized `Grid`, we can perform analysis operators directly on these new objects.'',
             '''',
             ''Looking back at the global mean that we computed earlier, we can compare it to the regional mean of the Bounding Box and Bounding Circle regions respectively.'']"

definition subset_28 :: cell where
  "subset_28 =
   Code [Expr (Call (Name ''print'')
                    [Constant (CStr ''Global Mean:            ''),
                     Call (Attribute (Attribute (Subscript (Subscript (Name ''uxds'') (Constant (CStr ''relhum_200hPa''))) (Constant (CInt 0))) ''values'') ''mean'')
                           []
                           []]
                    []),
         Expr (Call (Name ''print'')
                    [Constant (CStr ''Bounding Box Mean:      ''),
                     Call (Attribute (Attribute (Name ''bbox_subset_nodes'') ''values'') ''mean'')
                           []
                           []]
                    []),
         Expr (Call (Name ''print'')
                    [Constant (CStr ''Bounding Circle Mean:   ''),
                     Call (Attribute (Attribute (Name ''bcircle_subset'') ''values'') ''mean'')
                           []
                           []]
                    [])]"

definition subset_29 :: cell where
  "subset_29 =
   Markdown [''## Retrieving Orignal Grid Indices'']"

definition subset_30 :: cell where
  "subset_30 =
   Markdown [''Sometimes having the original grids'' @ [CHR 0x27] @ '' indices is useful. These indices can be stored within the subset with the `inverse_indices` variable. This can be used to store the indices of the original face centers, edge centers, and node indices. This variable can be used within the subset as follows:'',
             '''',
             ''* Passing in `True`, which will store the face center indices'',
             ''* Passing in a list of which indices to store, along with `True`, to indicate what kind of original grid indices to store.'',
             ''    * Options for which indices to select include: `face`, `node`, and `edge`'',
             '''',
             ''This currently only works when the element is `face centers`. Elements `nodes` and `edge centers` will be supported in the future.'']"

definition subset_31 :: cell where
  "subset_31 =
   Code [Assign [Name ''subset_grid'']
           (Call (Attribute (Attribute (Subscript (Subscript (Name ''uxds'') (Constant (CStr ''relhum_200hPa''))) (Constant (CInt 0))) ''subset'') ''bounding_circle'')
                 [Name ''center_coord'', Name ''r'']
                 [Keyword (Some ''element'') (Constant (CStr ''face centers'')),
                  Keyword (Some ''inverse_indices'') (PyTuple [PyList [Constant (CStr ''face''),
                                                                       Constant (CStr ''node''),
                                                                       Constant (CStr ''edge'')],
                                                               Constant (CBool True)])])]"

definition subset_32 :: cell where
  "subset_32 =
   Markdown [''These indices can be retrieve through the grid:'']"

definition subset_33 :: cell where
  "subset_33 =
   Code [Expr (Attribute (Attribute (Name ''subset_grid'') ''uxgrid'') ''inverse_indices'')]"

definition subset_34 :: cell where
  "subset_34 =
   Markdown [''## Determining if a Grid is a Subset'']"

definition subset_35 :: cell where
  "subset_35 =
   Markdown [''To check if a Grid (or dataset using `.uxgrid`) is a subset, we can use `Grid.is_subset`, which will return either `True` or `False`, depending on whether the `Grid` is a subset. Since `subset_indices` is a subset, using this feature we will return `True`:'']"

definition subset_36 :: cell where
  "subset_36 =
   Code [Expr (Attribute (Attribute (Name ''subset_grid'') ''uxgrid'') ''is_subset'')]"

definition subset_37 :: cell where
  "subset_37 =
   Markdown [''The file we have been using to create these subsets, `uxds`, is not a subset, so using the same call we will return `False:`'']"

definition subset_38 :: cell where
  "subset_38 =
   Code [Expr (Attribute (Attribute (Name ''uxds'') ''uxgrid'') ''is_subset'')]"

definition subset :: notebook where
  "subset =
   [subset_0,
    subset_1,
    subset_2,
    subset_3,
    subset_4,
    subset_5,
    subset_6,
    subset_7,
    subset_8,
    subset_9,
    subset_10,
    subset_11,
    subset_12,
    subset_13,
    subset_14,
    subset_15,
    subset_16,
    subset_17,
    subset_18,
    subset_19,
    subset_20,
    subset_21,
    subset_22,
    subset_23,
    subset_24,
    subset_25,
    subset_26,
    subset_27,
    subset_28,
    subset_29,
    subset_30,
    subset_31,
    subset_32,
    subset_33,
    subset_34,
    subset_35,
    subset_36,
    subset_37,
    subset_38]"

subsection \<open>Weighted Mean\<close>

text \<open>Notebook 1 of \<^verbatim>\<open>src/docs/user-guide/weighted_mean.ipynb\<close>, 16 cells.\<close>

definition weighted_mean_0 :: cell where
  "weighted_mean_0 =
   Markdown [''# Weighted Mean'',
             '''',
             ''UXarray supports computing weighted means based on geometric properties such as face areas or edge lengths. In this section of the user guide, we explain how to calculate variable means using unstructured grid geometries as weights. The examples below demonstrate the application of weighted means using grid face areas and grid edge lengths as weights.'']"

definition weighted_mean_1 :: cell where
  "weighted_mean_1 =
   Code [Import [Alias ''warnings'' None],
         Import [Alias ''cartopy.crs'' (Some ''ccrs'')],
         Import [Alias ''xarray'' (Some ''xr'')],
         Import [Alias ''uxarray'' (Some ''ux'')],
         Expr (Call (Attribute (Name ''warnings'') ''filterwarnings'')
                    [Constant (CStr ''ignore'')]
                    [])]"

definition weighted_mean_2 :: cell where
  "weighted_mean_2 =
   Markdown [''## Data'',
             '''',
             ''Data used in this section is a 3-random-variable dataset on a quad hexagon mesh mapped to the edges and faces.'']"

definition weighted_mean_3 :: cell where
  "weighted_mean_3 =
   Code [Assign [Name ''grid_path'']
           (Constant (CStr ''../../test/meshfiles/ugrid/quad-hexagon/grid.nc'')),
         Assign [Name ''quad_hex_data_path_edge_centered'']
           (Constant (CStr ''../../test/meshfiles/ugrid/quad-hexagon/random-edge-data.nc'')),
         Assign [Name ''quad_hex_data_path_face_centered'']
           (Constant (CStr ''../../test/meshfiles/ugrid/quad-hexagon/random-face-data.nc'')),
         Assign [Name ''uxds_face'']
           (Call (Attribute (Name ''ux'') ''open_mfdataset'')
                 [Name ''grid_path'', Name ''quad_hex_data_path_face_centered'']
                 []),
         Assign [Name ''uxds_edge'']
           (Call (Attribute (Name ''ux'') ''open_mfdataset'')
                 [Name ''grid_path'', Name ''quad_hex_data_path_edge_centered'']
                 [])]"

definition weighted_mean_4 :: cell where
  "weighted_mean_4 =
   Code [Expr (Call (Attribute (BinOp (BinOp (Call (Attribute (Attribute (Name ''uxds_face'') ''uxgrid'') ''plot'')
                                                   []
                                                   [Keyword (Some ''line_color'') (Constant (CStr ''black''))])
                                             Mult
                                             (Call (Attribute (Call (Attribute (Attribute (Subscript (Name ''uxds_edge'') (Constant (CStr ''random_data_edge''))) ''plot'') ''points'')
                                                                    []
                                                                    [Keyword (Some ''cmap'') (Constant (CStr ''inferno'')),
                                                                     Keyword (Some ''size'') (Constant (CInt 150)),
                                                                     Keyword (Some ''marker'') (Constant (CStr ''square'')),
                                                                     Keyword (Some ''clabel'') (Constant CNone),
                                                                     Keyword (Some ''tools'') (PyList [Constant (CStr ''hover'')])]) ''relabel'')
                                                   [Constant (CStr ''Edge Data'')]
                                                   []))
                                      Mult
                                      (Call (Attribute (Call (Attribute (Attribute (Subscript (Name ''uxds_face'') (Constant (CStr ''random_data_face''))) ''plot'') ''points'')
                                                             []
                                                             [Keyword (Some ''cmap'') (Constant (CStr ''inferno'')),
                                                              Keyword (Some ''size'') (Constant (CInt 150)),
                                                              Keyword (Some ''marker'') (Constant (CStr ''triangle'')),
                                                              Keyword (Some ''clabel'') (Constant CNone),
                                                              Keyword (Some ''tools'') (PyList [Constant (CStr ''hover'')])]) ''relabel'')
                                            [Constant (CStr ''Face Data'')]
                                            [])) ''opts'')
                    []
                    [Keyword (Some ''legend_position'') (Constant (CStr ''top_right''))])]"

definition weighted_mean_5 :: cell where
  "weighted_mean_5 =
   Markdown [''## Weighted Mean based on Face Areas'',
             '''',
             ''Here we first look at the data values on each face and the faces'' @ [CHR 0x27] @ '' respective areas. '']"

definition weighted_mean_6 :: cell where
  "weighted_mean_6 =
   Code [Expr (Attribute (Subscript (Name ''uxds_face'') (Constant (CStr ''random_data_face''))) ''values'')]"

definition weighted_mean_7 :: cell where
  "weighted_mean_7 =
   Markdown [''We can simply call `UxDataArray.weighted_mean()` on the UXDataArray to compute the weighted mean. The differences between the weighted mean and the regular mean is small since the area differences across the faces are small. '']"

definition weighted_mean_8 :: cell where
  "weighted_mean_8 =
   Code [Assign [Name ''result'']
           (Call (Attribute (Subscript (Name ''uxds_face'') (Constant (CStr ''random_data_face''))) ''weighted_mean'')
                 []
                 []),
         Expr (Attribute (Name ''result'') ''values'')]"

definition weighted_mean_9 :: cell where
  "weighted_mean_9 =
   Code [Assign [Name ''unweighted_result'']
           (Call (Attribute (Subscript (Name ''uxds_face'') (Constant (CStr ''random_data_face''))) ''mean'')
                 []
                 []),
         Expr (Attribute (Name ''unweighted_result'') ''values'')]"

definition weighted_mean_10 :: cell where
  "weighted_mean_10 =
   Markdown [''## Weighted Mean Based on Edge Length'',
             '''',
             ''Here we show the similar steps but for edge-centered data and the edge lengths. '']"

definition weighted_mean_11 :: cell where
  "weighted_mean_11 =
   Code [Expr (Attribute (Subscript (Name ''uxds_edge'') (Constant (CStr ''random_data_edge''))) ''values'')]"

definition weighted_mean_12 :: cell where
  "weighted_mean_12 =
   Code [Expr (Attribute (Attribute (Attribute (Name ''uxds_edge'') ''uxgrid'') ''edge_node_distances'') ''data'')]"

definition weighted_mean_13 :: cell where
  "weighted_mean_13 =
   Markdown [''The differences between weighted and unweighted mean is more drastic (~0.1 value difference) since the edge lengths have a larger variance. '']"

definition weighted_mean_14 :: cell where
  "weighted_mean_14 =
   Code [Assign [Name ''result'']
           (Call (Attribute (Subscript (Name ''uxds_edge'') (Constant (CStr ''random_data_edge''))) ''weighted_mean'')
                 []
                 []),
         Expr (Attribute (Name ''result'') ''values'')]"

definition weighted_mean_15 :: cell where
  "weighted_mean_15 =
   Code [Assign [Name ''unweighted_result'']
           (Call (Attribute (Subscript (Name ''uxds_edge'') (Constant (CStr ''random_data_edge''))) ''mean'')
                 []
                 []),
         Expr (Attribute (Name ''unweighted_result'') ''values'')]"

definition weighted_mean :: notebook where
  "weighted_mean =
   [weighted_mean_0,
    weighted_mean_1,
    weighted_mean_2,
    weighted_mean_3,
    weighted_mean_4,
    weighted_mean_5,
    weighted_mean_6,
    weighted_mean_7,
    weighted_mean_8,
    weighted_mean_9,
    weighted_mean_10,
    weighted_mean_11,
    weighted_mean_12,
    weighted_mean_13,
    weighted_mean_14,
    weighted_mean_15]"

subsection \<open>Compatibility with HoloViz Tools\<close>

text \<open>Notebook 2 of \<^verbatim>\<open>src/docs/user-guide/weighted_mean.ipynb\<close>, 28 cells.\<close>

definition holoviz_0 :: cell where
  "holoviz_0 =
   Markdown [''# Compatibility with HoloViz Tools'',
             '''',
             ''This user guide section showcases how UXarray data structures (`Grid`, `UxDataArray`) can be converted in a Spatialpandas `GeoDataFrame`, which can be used directly by packages from the HoloViz stack, such as hvPlot, Datashader, Holoviews, and Geoviews. In addition to showing how to convert to a `GeoDataFrame`, a series of visualizations using hvPlot and GeoViews is showcased based around the converted data structure.'',
             '''']"

definition holoviz_1 :: cell where
  "holoviz_1 =
   Code [Import [Alias ''warnings'' None],
         Import [Alias ''holoviews'' (Some ''hv'')],
         Import [Alias ''hvplot.pandas'' None],
         Import [Alias ''matplotlib'' None],
         Import [Alias ''matplotlib.pyplot'' (Some ''plt'')],
         Import [Alias ''numpy'' (Some ''np'')],
         Import [Alias ''uxarray'' (Some ''ux'')],
         Expr (Call (Attribute (Name ''warnings'') ''filterwarnings'')
                    [Constant (CStr ''ignore'')]
                    [])]"

definition holoviz_2 :: cell where
  "holoviz_2 =
   Markdown [''## Data'',
             '''',
             ''For this notebook, we will be using E3SM model output, which uses a cubed-sphere grid. However, this notebook can be adapted to datasets in any of our supported formats.'']"

definition holoviz_3 :: cell where
  "holoviz_3 =
   Code [Assign [Name ''base_path'']
           (Constant (CStr ''../../test/meshfiles/ugrid/outCSne30/'')),
         Assign [Name ''grid_path'']
           (BinOp (Name ''base_path'') Add (Constant (CStr ''outCSne30.ug''))),
         Assign [Name ''data_path'']
           (BinOp (Name ''base_path'') Add (Constant (CStr ''outCSne30_vortex.nc''))),
         Assign [Name ''uxds'']
           (Call (Attribute (Name ''ux'') ''open_dataset'')
                 [Name ''grid_path'', Name ''data_path'']
                 []),
         Expr (Name ''uxds'')]"

definition holoviz_4 :: cell where
  "holoviz_4 =
   Markdown [''## Conversion to `spatialpandas.GeoDataFrame` for Visualization'',
             '''',
             ''In order to support visualization with the popular HoloViz stack of libraries (hvPlot, HoloViews, Datashader, etc.), UXarray provides methods for converting `Grid` and `UxDataArray` objects into a SpatialPandas `GeoDataFrame`, which can be used for visualizing the nodes, edges, and polygons that represent each grid, in addition to data variables.'']"

definition holoviz_5 :: cell where
  "holoviz_5 =
   Markdown [''### `Grid` Conversion'',
             '''',
             ''If you wish to plot *only* the grid'' @ [CHR 0x27] @ ''s geometrical elements such as nodes and edges (i.e. without any data variables mapped to them), you can directly convert a `Grid` instance into a `GeoDataFrame`.'',
             '''',
             ''Each `UxDataset` and `UxDataArray` has a `Grid` instance paired to it, which can be accessed using the `.uxgrid` attribute.'',
             '''',
             ''You can use the `Grid.to_geodataframe()` method to construct a `GeoDataFrame`.'']"

definition holoviz_6 :: cell where
  "holoviz_6 =
   Code [Assign [Name ''gdf_grid'']
           (Call (Attribute (Attribute (Name ''uxds'') ''uxgrid'') ''to_geodataframe'')
                 []
                 []),
         Expr (Name ''gdf_grid'')]"

definition holoviz_7 :: cell where
  "holoviz_7 =
   Markdown [''### `UxDataArray` & `UxDataset` Conversion'',
             '''',
             ''If you are interested in mapping data to each face, you can index the `UxDataset` with the variable of interest (in this case '' @ [CHR 0x22] @ ''psi'' @ [CHR 0x22] @ '') to return the same `GeoDataFrame` as above, but now with data mapped to each face.'',
             '''',
             ''```{warning}'',
             ''UXarray currently only supports mapping data variables that are mapped to each face. Variables that reside on the corner nodes or edges are currently not supported for visualization.'',
             ''```'',
             '''']"

definition holoviz_8 :: cell where
  "holoviz_8 =
   Code [Assign [Name ''gdf_data'']
           (Call (Attribute (Subscript (Name ''uxds'') (Constant (CStr ''psi''))) ''to_geodataframe'')
                 []
                 []),
         Expr (Name ''gdf_data'')]"

definition holoviz_9 :: cell where
  "holoviz_9 =
   Markdown [''### Challenges with Representing Geoscience Data as Geometries'',
             '''',
             ''When we convert to a `GeoDataFrame`, we internally represent the surface of a sphere as a collection of polygons over a 2D projection. However, this leads to issues around the Antimeridian (180 degrees east or west) where polygons are incorrectly constructed and have incorrect geometries. When constructing the `GeoDataFrame`, UXarray detects and corrects any polygon that touches or crosses the antimeridian. An array of indices of these faces can be accessed as part of the `Grid` object.'',
             ''<br>'',
             '''',
             ''<figure>'',
             ''<center><img src='' @ [CHR 0x22] @ ''https://upload.wikimedia.org/wikipedia/commons/thumb/8/8d/Earth_map_with_180th_meridian.jpg/640px-Earth_map_with_180th_meridian.jpg'' @ [CHR 0x22] @ '' style='' @ [CHR 0x22] @ ''height: 300px; width:600px;'' @ [CHR 0x22] @ ''/></center>'',
             ''<center><figcaption>Antimeridian Visual</figcaption></center>'',
             ''</figure>'']"

definition holoviz_10 :: cell where
  "holoviz_10 =
   Code [Expr (Attribute (Attribute (Name ''uxds'') ''uxgrid'') ''antimeridian_face_indices'')]"

definition holoviz_11 :: cell where
  "holoviz_11 =
   Markdown [''Taking a look at one of these faces that crosses or touches the antimeridian, we can see that it'' @ [CHR 0x27] @ ''s split across the antimeridian and represented as a `MultiPolygon`, which allows us to properly render this two dimensional grid.'']"

definition holoviz_12 :: cell where
  "holoviz_12 =
   Code [Expr (Subscript (Attribute (Name ''gdf_data'') ''geometry'') (Subscript (Attribute (Attribute (Name ''uxds'') ''uxgrid'') ''antimeridian_face_indices'') (Constant (CInt 0))))]"

definition holoviz_13 :: cell where
  "holoviz_13 =
   Markdown [''For more details about the algorithm used for splitting these polygons, see the [Antimeridian Python Package](https://antimeridian.readthedocs.io/en/stable/), which we use internally for correcting polygons on the antimeridian.'']"

definition holoviz_14 :: cell where
  "holoviz_14 =
   Markdown [''## Visualizing Geometries'',
             '''',
             ''The next sections will show how the `GeoDataFrame` representing our unstructured grid can be used with hvPlot and GeoViews to generate visualizations. Examples using both the `matplotlib` and `bokeh` backends are shown, with `bokeh` examples allowing for interactive plots.'',
             '''',
             '''']"

definition holoviz_15 :: cell where
  "holoviz_15 =
   Markdown [''### Nodes'']"

definition holoviz_16 :: cell where
  "holoviz_16 =
   Code [Expr (Call (Attribute (Name ''hv'') ''extension'')
                    [Constant (CStr ''matplotlib'')]
                    []),
         Assign [Name ''plot_kwargs'']
           (PyDict [Constant (CStr ''size''),
                    Constant (CStr ''xlabel''),
                    Constant (CStr ''ylabel''),
                    Constant (CStr ''coastline''),
                    Constant (CStr ''width''),
                    Constant (CStr ''title'')]
                   [Constant (CFloat ''6.0''),
                    Constant (CStr ''Longitude''),
                    Constant (CStr ''Latitude''),
                    Constant (CBool True),
                    Constant (CInt 1600),
                    Constant (CStr ''Node Plot (Matplotlib Backend)'')]),
         Expr (Call (Attribute (Attribute (Name ''gdf_grid'') ''hvplot'') ''points'')
                    []
                    [Keyword None (Name ''plot_kwargs'')])]"

definition holoviz_17 :: cell where
  "holoviz_17 =
   Code [Expr (Call (Attribute (Name ''hv'') ''extension'') [Constant (CStr ''bokeh'')] []),
         Assign [Name ''plot_kwargs'']
           (PyDict [Constant (CStr ''s''),
                    Constant (CStr ''xlabel''),
                    Constant (CStr ''ylabel''),
                    Constant (CStr ''coastline''),
                    Constant (CStr ''frame_width''),
                    Constant (CStr ''title'')]
                   [Constant (CFloat ''1.0''),
                    Constant (CStr ''Longitude''),
                    Constant (CStr ''Latitude''),
                    Constant (CBool True),
                    Constant (CInt 700),
                    Constant (CStr ''Node Plot (Bokeh Backend)'')]),
         Expr (Call (Attribute (Attribute (Name ''gdf_grid'') ''hvplot'') ''points'')
                    []
                    [Keyword None (Name ''plot_kwargs'')])]"

definition holoviz_18 :: cell where
  "holoviz_18 =
   Markdown [''### Edges'']"

definition holoviz_19 :: cell where
  "holoviz_19 =
   Code [Expr (Call (Attribute (Name ''hv'') ''extension'')
                    [Constant (CStr ''matplotlib'')]
                    []),
         Assign [Name ''plot_kwargs'']
           (PyDict [Constant (CStr ''linewidth''),
                    Constant (CStr ''xlabel''),
                    Constant (CStr ''ylabel''),
                    Constant (CStr ''coastline''),
                    Constant (CStr ''width''),
                    Constant (CStr ''title''),
                    Constant (CStr ''color'')]
                   [Constant (CFloat ''1.0''),
                    Constant (CStr '' Longitude''),
                    Constant (CStr ''Latitude''),
                    Constant (CBool True),
                    Constant (CInt 1600),
                    Constant (CStr ''Edge Plot (Matplotlib Backend)''),
                    Constant (CStr ''black'')]),
         Import [Alias ''cartopy.crs'' (Some ''ccrs'')],
         Expr (Call (Attribute (Attribute (Name ''gdf_grid'') ''hvplot'') ''paths'')
                    []
                    [Keyword None (Name ''plot_kwargs'')])]"

definition holoviz_20 :: cell where
  "holoviz_20 =
   Code [Expr (Call (Attribute (Name ''hv'') ''extension'') [Constant (CStr ''bokeh'')] []),
         Assign [Name ''plot_kwargs'']
           (PyDict [Constant (CStr ''line_width''),
                    Constant (CStr ''xlabel''),
                    Constant (CStr ''ylabel''),
                    Constant (CStr ''coastline''),
                    Constant (CStr ''frame_width''),
                    Constant (CStr ''title'')]
                   [Constant (CFloat ''0.5''),
                    Constant (CStr ''Longitude''),
                    Constant (CStr ''Latitude''),
                    Constant (CBool True),
                    Constant (CInt 700),
                    Constant (CStr ''Edge Plot (Bokeh Backend)'')]),
         Expr (Call (Attribute (Attribute (Name ''gdf_grid'') ''hvplot'') ''paths'')
                    []
                    [Keyword None (Name ''plot_kwargs'')])]"

definition holoviz_21 :: cell where
  "holoviz_21 =
   Markdown [''## Visualizing Data Variables'']"

definition holoviz_22 :: cell where
  "holoviz_22 =
   Code [Expr (Call (Attribute (Name ''hv'') ''extension'')
                    [Constant (CStr ''matplotlib'')]
                    []),
         Assign [Name ''plot_kwargs'']
           (PyDict [Constant (CStr ''c''),
                    Constant (CStr ''cmap''),
                    Constant (CStr ''width''),
                    Constant (CStr ''height''),
                    Constant (CStr ''title''),
                    Constant (CStr ''xlabel''),
                    Constant (CStr ''ylabel'')]
                   [Constant (CStr ''psi''),
                    Constant (CStr ''inferno''),
                    Constant (CInt 400),
                    Constant (CInt 200),
                    Constant (CStr ''Filled Polygon Plot (Matplotlib Backend, Rasterized)''),
                    Constant (CStr '' Longitude''),
                    Constant (CStr ''Latitude'')]),
         Expr (Call (Attribute (Attribute (Name ''gdf_data'') ''hvplot'') ''polygons'')
                    []
                    [Keyword None (Name ''plot_kwargs''),
                     Keyword (Some ''rasterize'') (Constant (CBool True))])]"

definition holoviz_23 :: cell where
  "holoviz_23 =
   Markdown [''```{note}'',
             ''Visualizing filled polygons without rasterization using the matplotlib backend produces incorrect results, see [hvplot/#1099](https://github.com/holoviz/hvplot/issues/1099)'',
             ''```'']"

definition holoviz_24 :: cell where
  "holoviz_24 =
   Code [Expr (Call (Attribute (Name ''hv'') ''extension'') [Constant (CStr ''bokeh'')] []),
         Assign [Name ''plot_kwargs'']
           (PyDict [Constant (CStr ''c''),
                    Constant (CStr ''cmap''),
                    Constant (CStr ''line_width''),
                    Constant (CStr ''frame_width''),
                    Constant (CStr ''frame_height''),
                    Constant (CStr ''xlabel''),
                    Constant (CStr ''ylabel'')]
                   [Constant (CStr ''psi''),
                    Constant (CStr ''inferno''),
                    Constant (CFloat ''0.1''),
                    Constant (CInt 500),
                    Constant (CInt 250),
                    Constant (CStr '' Longitude''),
                    Constant (CStr ''Latitude'')]),
         Expr (Call (Attribute (Attribute (Name ''gdf_data'') ''hvplot'') ''polygons'')
                    []
                    [Keyword None (Name ''plot_kwargs''),
                     Keyword (Some ''rasterize'') (Constant (CBool True))]),
         Expr (Call (Attribute (Call (Attribute (Name ''hv'') ''Layout'')
                                     [BinOp (Call (Attribute (Call (Attribute (Attribute (Name ''gdf_data'') ''hvplot'') ''polygons'')
                                                                    []
                                                                    [Keyword None (Name ''plot_kwargs''),
                                                                     Keyword (Some ''rasterize'') (Constant (CBool True))]) ''opts'')
                                                   []
                                                   [Keyword (Some ''title'') (Constant (CStr ''Filled Polygon Plot (Bokeh Backend, Rasterized)''))])
                                             Add
                                             (Call (Attribute (Call (Attribute (Attribute (Name ''gdf_data'') ''hvplot'') ''polygons'')
                                                                    []
                                                                    [Keyword None (Name ''plot_kwargs''),
                                                                     Keyword (Some ''rasterize'') (Constant (CBool False))]) ''opts'')
                                                   []
                                                   [Keyword (Some ''title'') (Constant (CStr ''Filled Polygon Plot (Bokeh Backend, Vector)''))])]
                                     []) ''cols'')
                    [Constant (CInt 1)]
                    [])]"

definition holoviz_25 :: cell where
  "holoviz_25 =
   Markdown [''## Geographic Projections'',
             '''']"

definition holoviz_26 :: cell where
  "holoviz_26 =
   Code [Expr (Call (Attribute (Name ''hv'') ''extension'')
                    [Constant (CStr ''matplotlib'')]
                    []),
         Assign [Name ''plot_kwargs'']
           (PyDict [Constant (CStr ''c''),
                    Constant (CStr ''cmap''),
                    Constant (CStr ''width''),
                    Constant (CStr ''height''),
                    Constant (CStr ''title''),
                    Constant (CStr ''xlabel''),
                    Constant (CStr ''ylabel'')]
                   [Constant (CStr ''psi''),
                    Constant (CStr ''inferno''),
                    Constant (CInt 400),
                    Constant (CInt 200),
                    Constant (CStr ''Filled Polygon Plot (Matplotlib Backend, Rasterized, Orthographic Projection)''),
                    Constant (CStr '' Longitude''),
                    Constant (CStr ''Latitude'')]),
         Expr (Call (Attribute (Attribute (Name ''gdf_data'') ''hvplot'') ''polygons'')
                    []
                    [Keyword None (Name ''plot_kwargs''),
                     Keyword (Some ''rasterize'') (Constant (CBool True)),
                     Keyword (Some ''projection'') (Call (Attribute (Name ''ccrs'') ''Orthographic'')
                                                         []
                                                         [])])]"

definition holoviz_27 :: cell where
  "holoviz_27 =
   Code [Expr (Call (Attribute (Name ''hv'') ''extension'')
                    [Constant (CStr ''matplotlib'')]
                    []),
         Assign [Name ''plot_kwargs'']
           (PyDict [Constant (CStr ''c''),
                    Constant (CStr ''cmap''),
                    Constant (CStr ''width''),
                    Constant (CStr ''height''),
                    Constant (CStr ''title''),
                    Constant (CStr ''xlabel''),
                    Constant (CStr ''ylabel'')]
                   [Constant (CStr ''psi''),
                    Constant (CStr ''inferno''),
                    Constant (CInt 400),
                    Constant (CInt 200),
                    Constant (CStr ''Filled Polygon Plot (Matplotlib Backend, Rasterized, Robinson Projection)''),
                    Constant (CStr '' Longitude''),
                    Constant (CStr ''Latitude'')]),
         Expr (Call (Attribute (Attribute (Name ''gdf_data'') ''hvplot'') ''polygons'')
                    []
                    [Keyword None (Name ''plot_kwargs''),
                     Keyword (Some ''rasterize'') (Constant (CBool True)),
                     Keyword (Some ''projection'') (Call (Attribute (Name ''ccrs'') ''Robinson'')
                                                         []
                                                         [])])]"

definition holoviz :: notebook where
  "holoviz =
   [holoviz_0,
    holoviz_1,
    holoviz_2,
    holoviz_3,
    holoviz_4,
    holoviz_5,
    holoviz_6,
    holoviz_7,
    holoviz_8,
    holoviz_9,
    holoviz_10,
    holoviz_11,
    holoviz_12,
    holoviz_13,
    holoviz_14,
    holoviz_15,
    holoviz_16,
    holoviz_17,
    holoviz_18,
    holoviz_19,
    holoviz_20,
    holoviz_21,
    holoviz_22,
    holoviz_23,
    holoviz_24,
    holoviz_25,
    holoviz_26,
    holoviz_27]"

definition notebooks :: "notebook list" where
  "notebooks =
   [cross_sections, healpix, remapping, spatial_hashing, custom_grid, dual_mesh, subset,
    weighted_mean, holoviz]"

section \<open>Syntactic structure of cells\<close>

definition is_code :: "cell \<Rightarrow> bool" where
  "is_code c = (case c of Code ss \<Rightarrow> True | Markdown ls \<Rightarrow> False)"

definition body :: "cell \<Rightarrow> stmt list" where
  "body c = (case c of Code ss \<Rightarrow> ss | Markdown ls \<Rightarrow> [])"

definition prose :: "cell \<Rightarrow> string list" where
  "prose c = (case c of Code ss \<Rightarrow> [] | Markdown ls \<Rightarrow> ls)"

definition code_cells :: "cell list" where
  "code_cells = filter is_code (concat notebooks)"

text \<open>Every expression below an expression, the expression itself first.\<close>

fun subexprs :: "expr \<Rightarrow> expr list" and kw_subexprs :: "keyword \<Rightarrow> expr list" where
  "subexprs (Name n) = [Name n]"
| "subexprs (Constant c) = [Constant c]"
| "subexprs (Attribute e a) = Attribute e a # subexprs e"
| "subexprs (Subscript e k) = Subscript e k # subexprs e @ subexprs k"
| "subexprs (Call f args kws) =
     Call f args kws # subexprs f @ concat (map subexprs args) @ concat (map kw_subexprs kws)"
| "subexprs (Starred e) = Starred e # subexprs e"
| "subexprs (BinOp l opr r) = BinOp l opr r # subexprs l @ subexprs r"
| "subexprs (UnaryOp opr e) = UnaryOp opr e # subexprs e"
| "subexprs (PyList es) = PyList es # concat (map subexprs es)"
| "subexprs (PyTuple es) = PyTuple es # concat (map subexprs es)"
| "subexprs (PyDict ks vs) = PyDict ks vs # concat (map subexprs ks) @ concat (map subexprs vs)"
| "subexprs (JoinedStr es) = JoinedStr es # concat (map subexprs es)"
| "subexprs (FormattedValue e) = FormattedValue e # subexprs e"
| "subexprs (Await e) = Await e # subexprs e"
| "kw_subexprs (Keyword k e) = subexprs e"

text \<open>Every statement below a statement (loop and branch bodies, handlers), itself first.\<close>

fun substmts :: "stmt \<Rightarrow> stmt list" and handler_stmts :: "excepthandler \<Rightarrow> stmt list" where
  "substmts (For t it b orelse) =
     For t it b orelse # concat (map substmts b) @ concat (map substmts orelse)"
| "substmts (If c b orelse) =
     If c b orelse # concat (map substmts b) @ concat (map substmts orelse)"
| "substmts (While c b orelse) =
     While c b orelse # concat (map substmts b) @ concat (map substmts orelse)"
| "substmts (With items b) = With items b # concat (map substmts b)"
| "substmts (Try b hs orelse fin) =
     Try b hs orelse fin # concat (map substmts b) @ concat (map handler_stmts hs)
       @ concat (map substmts orelse) @ concat (map substmts fin)"
| "substmts (FunctionDef n ps b) = FunctionDef n ps b # concat (map substmts b)"
| "substmts (AsyncFunctionDef n ps b) = AsyncFunctionDef n ps b # concat (map substmts b)"
| "substmts (ClassDef n bases b) = ClassDef n bases b # concat (map substmts b)"
| "substmts (AsyncFor t it b orelse) =
     AsyncFor t it b orelse # concat (map substmts b) @ concat (map substmts orelse)"
| "substmts (AsyncWith items b) = AsyncWith items b # concat (map substmts b)"
| "substmts (Import as) = [Import as]"
| "substmts (ImportFrom m as) = [ImportFrom m as]"
| "substmts (Assign ts e) = [Assign ts e]"
| "substmts (Expr e) = [Expr e]"
| "substmts (Raise e) = [Raise e]"
| "substmts (Global ns) = [Global ns]"
| "handler_stmts (ExceptHandler t n b) = concat (map substmts b)"

definition handler_type :: "excepthandler \<Rightarrow> expr list" where
  "handler_type h = (case h of ExceptHandler t n b \<Rightarrow> (case t of None \<Rightarrow> [] | Some e \<Rightarrow> [e]))"

text \<open>The expressions a statement holds itself (not those of the statements nested in it).\<close>

definition own_exprs :: "stmt \<Rightarrow> expr list" where
  "own_exprs s =
     (case s of
        Assign ts e \<Rightarrow> ts @ [e]
      | Expr e \<Rightarrow> [e]
      | For t it b orelse \<Rightarrow> [t, it]
      | If c b orelse \<Rightarrow> [c]
      | While c b orelse \<Rightarrow> [c]
      | With items b \<Rightarrow> items
      | Try b hs orelse fin \<Rightarrow> concat (map handler_type hs)
      | Raise e \<Rightarrow> [e]
      | ClassDef n bases b \<Rightarrow> bases
      | AsyncFor t it b orelse \<Rightarrow> [t, it]
      | AsyncWith items b \<Rightarrow> items
      | _ \<Rightarrow> [])"

definition cell_stmts :: "cell \<Rightarrow> stmt list" where
  "cell_stmts c = concat (map substmts (body c))"

definition cell_exprs :: "cell \<Rightarrow> expr list" where
  "cell_exprs c = concat (map subexprs (concat (map own_exprs (cell_stmts c))))"

text \<open>
  The dotted path of a callee: \<^verbatim>\<open>uxgrid.get_spatial_hash().query\<close> is
  \<open>[uxgrid, get_spatial_hash, (), query]\<close>, a subscript is \<open>[]\<close>.
\<close>

fun chain :: "expr \<Rightarrow> string list" where
  "chain (Name n) = [n]"
| "chain (Attribute e a) = chain e @ [a]"
| "chain (Call f args kws) = chain f @ [''()'']"
| "chain (Subscript e k) = chain e @ [''[]'']"
| "chain e = [''?'']"

definition ends_with :: "'a list \<Rightarrow> 'a list \<Rightarrow> bool" where
  "ends_with p xs = (length p \<le> length xs \<and> drop (length xs - length p) xs = p)"

definition invokes :: "string list \<Rightarrow> expr \<Rightarrow> bool" where
  "invokes p e = (case e of Call f args kws \<Rightarrow> ends_with p (chain f) | _ \<Rightarrow> False)"

definition cell_invokes :: "string list \<Rightarrow> cell \<Rightarrow> bool" where
  "cell_invokes p c = list_ex (invokes p) (cell_exprs c)"

definition is_import :: "stmt \<Rightarrow> bool" where
  "is_import s = (case s of Import as \<Rightarrow> True | ImportFrom m as \<Rightarrow> True | _ \<Rightarrow> False)"

definition is_assign :: "stmt \<Rightarrow> bool" where
  "is_assign s = (case s of Assign ts e \<Rightarrow> True | _ \<Rightarrow> False)"

definition is_expr :: "stmt \<Rightarrow> bool" where
  "is_expr s = (case s of Expr e \<Rightarrow> True | _ \<Rightarrow> False)"



definition alias_module :: "pyalias \<Rightarrow> string" where
  "alias_module a = (case a of Alias m n \<Rightarrow> m)"

definition imported_modules :: "cell \<Rightarrow> string list" where
  "imported_modules c =
     concat (map (\<lambda>s. case s of Import as \<Rightarrow> map alias_module as | ImportFrom m as \<Rightarrow> [m] | _ \<Rightarrow> [])
                 (cell_stmts c))"

definition top_package :: "string \<Rightarrow> string" where
  "top_package m = takeWhile (\<lambda>c. c \<noteq> CHR ''.'') m"

text \<open>Whether a line of prose contains a phrase.\<close>

fun starts_with :: "string \<Rightarrow> string \<Rightarrow> bool" where
  "starts_with [] s = True"
| "starts_with (p # ps) [] = False"
| "starts_with (p # ps) (c # cs) = (if p = c then starts_with ps cs else False)"

fun occurs_in :: "string \<Rightarrow> string \<Rightarrow> bool" where
  "occurs_in p [] = (p = [])"
| "occurs_in p (c # cs) = (if starts_with p (c # cs) then True else occurs_in p cs)"

definition says :: "cell \<Rightarrow> string \<Rightarrow> bool" where
  "says c p = list_ex (occurs_in p) (prose c)"

section \<open>Running a notebook\<close>

text \<open>
  The libraries the notebooks call are not part of the repository, so what a call into
  them returns is not known: the \<open>n\<close>-th library call of a run returns the object
  \<open>VObj n\<close>, and the run records the callee, the arguments and that result. Attributes,
  items and arithmetic of such objects stay symbolic (\<open>VAttr\<close>, \<open>VItem\<close>, \<open>VBinOp\<close>,
  \<open>VUnaryOp\<close>). Python's own values (integers, strings, booleans, lists, tuples, dicts)
  are computed. Float literals are kept as written and float arithmetic stays symbolic.
\<close>

datatype val =
    VNone
  | VBool bool
  | VInt int
  | VFloat string
  | VStr string
  | VList "val list"
  | VTuple "val list"
  | VDict "(val \<times> val) list"
  | VModule string
  | VBuiltin string
  | VObj nat
  | VAttr val string
  | VItem val val
  | VBinOp val operator val
  | VUnaryOp unaryop val
  | VJoined "val list"

text \<open>
  Exceptions are values. \<open>Raised f args kws\<close> is whatever exception the library call of
  \<open>f\<close> with these arguments raises;
  \<open>Unsupported\<close> marks Python that lies outside the fragment the notebooks use.
\<close>

datatype error =
    NameError string
  | IndexError
  | KeyError
  | TypeError
  | ValueError
  | Raised val "val list" "(string \<times> val) list"
  | Unsupported

text \<open>
  What a run does, in order: imports, library calls (callee, positional and keyword
  arguments, result), bindings of names, calls of \<^verbatim>\<open>print\<close>, and the value of a
  cell's last expression, which the notebook renders as the cell's output. Each event
  carries the index of its cell in the notebook.
\<close>

datatype event =
    Imported string
  | Called val "val list" "(string \<times> val) list" val
  | Bound string val
  | Printed "val list"
  | Out val

type_synonym env = "(string \<times> val) list"

record state =
  env :: env
  fresh :: nat
  trace :: "(nat \<times> event) list"

text \<open>
  The outside world of a run: which files exist when the kernel starts (the only thing a
  cell asks the operating system, through \<^verbatim>\<open>os.path.isfile\<close>), and which library calls
  raise.
\<close>

record world =
  isfile :: "string \<Rightarrow> bool"
  raises :: "val \<Rightarrow> val list \<Rightarrow> (string \<times> val) list \<Rightarrow> bool"

definition builtins :: "string list" where
  "builtins = [''print'']"

definition lookup :: "env \<Rightarrow> string \<Rightarrow> error + val" where
  "lookup \<rho> n =
     (case map_of \<rho> n of
        Some v \<Rightarrow> Inr v
      | None \<Rightarrow> if n \<in> set builtins then Inr (VBuiltin n) else Inl (NameError n))"

fun opaque :: "val \<Rightarrow> bool" where
  "opaque (VObj n) = True"
| "opaque (VAttr v a) = True"
| "opaque (VItem v k) = True"
| "opaque (VBinOp a opr b) = True"
| "opaque (VUnaryOp opr v) = True"
| "opaque v = False"

fun digits :: "nat \<Rightarrow> string" where
  "digits n =
     (if n < 10 then [char_of (48 + n)] else digits (n div 10) @ [char_of (48 + n mod 10)])"

definition str_int :: "int \<Rightarrow> string" where
  "str_int i = (if i < 0 then CHR ''-'' # digits (nat (- i)) else digits (nat i))"

text \<open>The text an f-string puts for a value; \<open>None\<close> where it depends on the library.\<close>

fun format :: "val \<Rightarrow> string option" where
  "format (VStr s) = Some s"
| "format (VInt i) = Some (str_int i)"
| "format (VBool b) = Some (if b then ''True'' else ''False'')"
| "format VNone = Some ''None''"
| "format v = None"

definition joined :: "val list \<Rightarrow> val" where
  "joined vs =
     (if list_all (\<lambda>v. format v \<noteq> None) vs
      then VStr (concat (map (\<lambda>v. the (format v)) vs)) else VJoined vs)"

text \<open>Python's truth value; \<open>None\<close> where it depends on the library.\<close>

fun truthy :: "val \<Rightarrow> bool option" where
  "truthy VNone = Some False"
| "truthy (VBool b) = Some b"
| "truthy (VInt i) = Some (i \<noteq> 0)"
| "truthy (VStr s) = Some (s \<noteq> [])"
| "truthy (VList xs) = Some (xs \<noteq> [])"
| "truthy (VTuple xs) = Some (xs \<noteq> [])"
| "truthy (VDict kvs) = Some (kvs \<noteq> [])"
| "truthy v = None"

text \<open>
  Indexing a list or tuple: positions count from 0, negative ones from the end, and a
  position outside the sequence raises \<^verbatim>\<open>IndexError\<close>.
\<close>

definition index :: "val list \<Rightarrow> int \<Rightarrow> error + val" where
  "index xs i =
     (if 0 \<le> i \<and> i < int (length xs) then Inr (xs ! nat i)
      else if i < 0 \<and> - i \<le> int (length xs) then Inr (xs ! nat (int (length xs) + i))
      else Inl IndexError)"

definition subscript :: "val \<Rightarrow> val \<Rightarrow> error + val" where
  "subscript v k =
     (case v of
        VList xs \<Rightarrow> (case k of VInt i \<Rightarrow> index xs i | _ \<Rightarrow> Inl TypeError)
      | VTuple xs \<Rightarrow> (case k of VInt i \<Rightarrow> index xs i | _ \<Rightarrow> Inl TypeError)
      | VDict kvs \<Rightarrow> (case map_of kvs k of Some x \<Rightarrow> Inr x | None \<Rightarrow> Inl KeyError)
      | _ \<Rightarrow> if opaque v then Inr (VItem v k) else Inl TypeError)"

definition attribute :: "val \<Rightarrow> string \<Rightarrow> error + val" where
  "attribute v a =
     (case v of
        VModule m \<Rightarrow> Inr (VAttr v a)
      | _ \<Rightarrow> if opaque v then Inr (VAttr v a) else Inl Unsupported)"

text \<open>A dict display inserts its items from left to right; a repeated key keeps its place.\<close>

fun dict_set :: "val \<Rightarrow> val \<Rightarrow> (val \<times> val) list \<Rightarrow> (val \<times> val) list" where
  "dict_set k v [] = [(k, v)]"
| "dict_set k v (kv # kvs) = (if fst kv = k then (k, v) # kvs else kv # dict_set k v kvs)"

definition is_number :: "val \<Rightarrow> bool" where
  "is_number v = (case v of VInt i \<Rightarrow> True | VFloat s \<Rightarrow> True | _ \<Rightarrow> False)"

definition binop_symbolic :: "val \<Rightarrow> operator \<Rightarrow> val \<Rightarrow> error + val" where
  "binop_symbolic a opr b =
     (if opaque a \<or> opaque b \<or> (is_number a \<and> is_number b)
      then Inr (VBinOp a opr b) else Inl Unsupported)"

definition binop :: "val \<Rightarrow> operator \<Rightarrow> val \<Rightarrow> error + val" where
  "binop a opr b =
     (case a of
        VInt x \<Rightarrow>
          (case b of
             VInt y \<Rightarrow> Inr (VInt (case opr of Add \<Rightarrow> x + y | Sub \<Rightarrow> x - y | Mult \<Rightarrow> x * y))
           | _ \<Rightarrow> binop_symbolic a opr b)
      | VStr x \<Rightarrow>
          (case b of
             VStr y \<Rightarrow> (case opr of Add \<Rightarrow> Inr (VStr (x @ y)) | _ \<Rightarrow> Inl TypeError)
           | _ \<Rightarrow> binop_symbolic a opr b)
      | _ \<Rightarrow> binop_symbolic a opr b)"

definition unaryop :: "unaryop \<Rightarrow> val \<Rightarrow> error + val" where
  "unaryop opr v =
     (case opr of
        USub \<Rightarrow>
          (case v of
             VInt i \<Rightarrow> Inr (VInt (- i))
           | VFloat s \<Rightarrow> Inr (VUnaryOp USub v)
           | _ \<Rightarrow> if opaque v then Inr (VUnaryOp USub v) else Inl TypeError)
      | UNot \<Rightarrow>
          (case truthy v of
             Some b \<Rightarrow> Inr (VBool (\<not> b))
           | None \<Rightarrow> if opaque v then Inr (VUnaryOp UNot v) else Inl Unsupported))"

text \<open>
  Evaluating an expression reads the environment, draws fresh objects from the counter
  \<open>n\<close>, and yields the value, the new counter and the events of the evaluation.
\<close>

type_synonym 'a outcome = "error + 'a \<times> nat \<times> (nat \<times> event) list"

text \<open>
  A call. \<^verbatim>\<open>os.path.isfile\<close> asks the world; \<^verbatim>\<open>print\<close> prints and returns
  \<^verbatim>\<open>None\<close>; every other callee must be a library object: the call raises when the
  world says so and returns a fresh object otherwise.
\<close>

definition is_isfile :: "val \<Rightarrow> bool" where
  "is_isfile f = (f = VAttr (VAttr (VModule ''os'') ''path'') ''isfile'')"

definition call ::
  "world \<Rightarrow> nat \<Rightarrow> val \<Rightarrow> val list \<Rightarrow> (string \<times> val) list \<Rightarrow> nat \<Rightarrow> val outcome"
where
  "call w i f args kws n =
     (if \<not> distinct (map fst kws) then Inl TypeError
      else if is_isfile f then
        (case args of
           [VStr p] \<Rightarrow>
             if kws = []
             then Inr (VBool (isfile w p), n, [(i, Called f args kws (VBool (isfile w p)))])
             else Inl Unsupported
         | _ \<Rightarrow> Inl Unsupported)
      else if f = VBuiltin ''print'' then
        (if kws = [] then Inr (VNone, n, [(i, Printed args)]) else Inl Unsupported)
      else if opaque f then
        (if raises w f args kws then Inl (Raised f args kws)
         else Inr (VObj n, Suc n, [(i, Called f args kws (VObj n))]))
      else Inl TypeError)"

definition kw_name :: "val \<Rightarrow> string option" where
  "kw_name k = (case k of VStr s \<Rightarrow> Some s | _ \<Rightarrow> None)"

text \<open>A keyword argument, or the items of a dict passed with \<^verbatim>\<open>**\<close>.\<close>

definition splice_kw :: "string option \<Rightarrow> val \<Rightarrow> error + (string \<times> val) list" where
  "splice_kw k v =
     (case k of
        Some n \<Rightarrow> Inr [(n, v)]
      | None \<Rightarrow>
          (case v of
             VDict kvs \<Rightarrow>
               if list_all (\<lambda>kv. kw_name (fst kv) \<noteq> None) kvs
               then Inr (map (\<lambda>kv. (the (kw_name (fst kv)), snd kv)) kvs)
               else Inl TypeError
           | _ \<Rightarrow> Inl Unsupported))"

definition of_const :: "pyconst \<Rightarrow> val" where
  "of_const c =
     (case c of CNone \<Rightarrow> VNone | CBool b \<Rightarrow> VBool b | CInt i \<Rightarrow> VInt i
      | CFloat s \<Rightarrow> VFloat s | CStr s \<Rightarrow> VStr s)"

text \<open>
  Expressions are evaluated left to right: the callee, then the positional arguments, then
  the keyword arguments; the first exception ends the evaluation.
\<close>

fun eval :: "world \<Rightarrow> nat \<Rightarrow> env \<Rightarrow> nat \<Rightarrow> expr \<Rightarrow> val outcome"
  and eval_list :: "world \<Rightarrow> nat \<Rightarrow> env \<Rightarrow> nat \<Rightarrow> expr list \<Rightarrow> val list outcome"
  and eval_args :: "world \<Rightarrow> nat \<Rightarrow> env \<Rightarrow> nat \<Rightarrow> expr list \<Rightarrow> val list outcome"
  and eval_kws :: "world \<Rightarrow> nat \<Rightarrow> env \<Rightarrow> nat \<Rightarrow> keyword list \<Rightarrow> (string \<times> val) list outcome"
where
  "eval w i \<rho> n (Name x) = (case lookup \<rho> x of Inl err \<Rightarrow> Inl err | Inr v \<Rightarrow> Inr (v, n, []))"
| "eval w i \<rho> n (Constant c) = Inr (of_const c, n, [])"
| "eval w i \<rho> n (Attribute e a) =
     (case eval w i \<rho> n e of
        Inl err \<Rightarrow> Inl err
      | Inr (v, n1, t1) \<Rightarrow>
          (case attribute v a of Inl err \<Rightarrow> Inl err | Inr r \<Rightarrow> Inr (r, n1, t1)))"
| "eval w i \<rho> n (Subscript e k) =
     (case eval w i \<rho> n e of
        Inl err \<Rightarrow> Inl err
      | Inr (v, n1, t1) \<Rightarrow>
          (case eval w i \<rho> n1 k of
             Inl err \<Rightarrow> Inl err
           | Inr (j, n2, t2) \<Rightarrow>
               (case subscript v j of Inl err \<Rightarrow> Inl err | Inr r \<Rightarrow> Inr (r, n2, t1 @ t2))))"
| "eval w i \<rho> n (Call f args kws) =
     (case eval w i \<rho> n f of
        Inl err \<Rightarrow> Inl err
      | Inr (fv, n1, t1) \<Rightarrow>
          (case eval_args w i \<rho> n1 args of
             Inl err \<Rightarrow> Inl err
           | Inr (avs, n2, t2) \<Rightarrow>
               (case eval_kws w i \<rho> n2 kws of
                  Inl err \<Rightarrow> Inl err
                | Inr (kvs, n3, t3) \<Rightarrow>
                    (case call w i fv avs kvs n3 of
                       Inl err \<Rightarrow> Inl err
                     | Inr (r, n4, t4) \<Rightarrow> Inr (r, n4, t1 @ t2 @ t3 @ t4)))))"
| "eval w i \<rho> n (Starred e) = Inl Unsupported"
| "eval w i \<rho> n (BinOp l opr r) =
     (case eval w i \<rho> n l of
        Inl err \<Rightarrow> Inl err
      | Inr (a, n1, t1) \<Rightarrow>
          (case eval w i \<rho> n1 r of
             Inl err \<Rightarrow> Inl err
           | Inr (b, n2, t2) \<Rightarrow>
               (case binop a opr b of Inl err \<Rightarrow> Inl err | Inr v \<Rightarrow> Inr (v, n2, t1 @ t2))))"
| "eval w i \<rho> n (UnaryOp opr e) =
     (case eval w i \<rho> n e of
        Inl err \<Rightarrow> Inl err
      | Inr (v, n1, t1) \<Rightarrow>
          (case unaryop opr v of Inl err \<Rightarrow> Inl err | Inr r \<Rightarrow> Inr (r, n1, t1)))"
| "eval w i \<rho> n (PyList es) =
     (case eval_list w i \<rho> n es of
        Inl err \<Rightarrow> Inl err
      | Inr (vs, n1, t1) \<Rightarrow> Inr (VList vs, n1, t1))"
| "eval w i \<rho> n (PyTuple es) =
     (case eval_list w i \<rho> n es of
        Inl err \<Rightarrow> Inl err
      | Inr (vs, n1, t1) \<Rightarrow> Inr (VTuple vs, n1, t1))"
| "eval w i \<rho> n (PyDict ks vs) =
     (case eval_list w i \<rho> n ks of
        Inl err \<Rightarrow> Inl err
      | Inr (kvs, n1, t1) \<Rightarrow>
          (case eval_list w i \<rho> n1 vs of
             Inl err \<Rightarrow> Inl err
           | Inr (vvs, n2, t2) \<Rightarrow>
               Inr (VDict (fold (\<lambda>kv. dict_set (fst kv) (snd kv)) (zip kvs vvs) []), n2,
                    t1 @ t2)))"
| "eval w i \<rho> n (JoinedStr es) =
     (case eval_list w i \<rho> n es of
        Inl err \<Rightarrow> Inl err
      | Inr (vs, n1, t1) \<Rightarrow> Inr (joined vs, n1, t1))"
| "eval w i \<rho> n (FormattedValue e) = eval w i \<rho> n e"
| "eval w i \<rho> n (Await e) = Inl Unsupported"
| "eval_list w i \<rho> n [] = Inr ([], n, [])"
| "eval_list w i \<rho> n (e # es) =
     (case eval w i \<rho> n e of
        Inl err \<Rightarrow> Inl err
      | Inr (v, n1, t1) \<Rightarrow>
          (case eval_list w i \<rho> n1 es of
             Inl err \<Rightarrow> Inl err
           | Inr (vs, n2, t2) \<Rightarrow> Inr (v # vs, n2, t1 @ t2)))"
| "eval_args w i \<rho> n [] = Inr ([], n, [])"
| "eval_args w i \<rho> n (Starred e # es) =
     (case eval w i \<rho> n e of
        Inl err \<Rightarrow> Inl err
      | Inr (v, n1, t1) \<Rightarrow>
          (case eval_args w i \<rho> n1 es of
             Inl err \<Rightarrow> Inl err
           | Inr (vs, n2, t2) \<Rightarrow>
               (case v of
                  VList xs \<Rightarrow> Inr (xs @ vs, n2, t1 @ t2)
                | VTuple xs \<Rightarrow> Inr (xs @ vs, n2, t1 @ t2)
                | _ \<Rightarrow> Inl Unsupported)))"
| "eval_args w i \<rho> n (e # es) =
     (case eval w i \<rho> n e of
        Inl err \<Rightarrow> Inl err
      | Inr (v, n1, t1) \<Rightarrow>
          (case eval_args w i \<rho> n1 es of
             Inl err \<Rightarrow> Inl err
           | Inr (vs, n2, t2) \<Rightarrow> Inr (v # vs, n2, t1 @ t2)))"
| "eval_kws w i \<rho> n [] = Inr ([], n, [])"
| "eval_kws w i \<rho> n (Keyword k e # ks) =
     (case eval w i \<rho> n e of
        Inl err \<Rightarrow> Inl err
      | Inr (v, n1, t1) \<Rightarrow>
          (case splice_kw k v of
             Inl err \<Rightarrow> Inl err
           | Inr kvs \<Rightarrow>
               (case eval_kws w i \<rho> n1 ks of
                  Inl err \<Rightarrow> Inl err
                | Inr (rest, n2, t2) \<Rightarrow> Inr (kvs @ rest, n2, t1 @ t2))))"

definition emit :: "nat \<Rightarrow> event \<Rightarrow> state \<Rightarrow> state" where
  "emit i ev \<sigma> = \<sigma>\<lparr>trace := trace \<sigma> @ [(i, ev)]\<rparr>"

text \<open>The state after an evaluation that drew objects up to \<open>n\<close> and did the events \<open>t\<close>.\<close>

definition after :: "state \<Rightarrow> nat \<Rightarrow> (nat \<times> event) list \<Rightarrow> state" where
  "after \<sigma> n t = \<sigma>\<lparr>fresh := n, trace := trace \<sigma> @ t\<rparr>"

definition bind_name :: "nat \<Rightarrow> string \<Rightarrow> val \<Rightarrow> state \<Rightarrow> state" where
  "bind_name i n v \<sigma> = emit i (Bound n v) (\<sigma>\<lparr>env := (n, v) # env \<sigma>\<rparr>)"

fun bind_names :: "nat \<Rightarrow> (string \<times> val) list \<Rightarrow> state \<Rightarrow> state" where
  "bind_names i [] \<sigma> = \<sigma>"
| "bind_names i (nv # nvs) \<sigma> = bind_names i nvs (bind_name i (fst nv) (snd nv) \<sigma>)"

definition target_name :: "expr \<Rightarrow> string option" where
  "target_name t = (case t of Name n \<Rightarrow> Some n | _ \<Rightarrow> None)"

text \<open>
  Unpacking into \<open>k\<close> names: a list or tuple must have \<open>k\<close> items; a library object is
  taken to yield its items \<open>0 .. k - 1\<close>.
\<close>

definition unpack :: "nat \<Rightarrow> val \<Rightarrow> error + val list" where
  "unpack k v =
     (case v of
        VList xs \<Rightarrow> if length xs = k then Inr xs else Inl ValueError
      | VTuple xs \<Rightarrow> if length xs = k then Inr xs else Inl ValueError
      | _ \<Rightarrow> if opaque v then Inr (map (\<lambda>j. VItem v (VInt (int j))) [0..<k]) else Inl TypeError)"

definition assign :: "nat \<Rightarrow> expr \<Rightarrow> val \<Rightarrow> state \<Rightarrow> error + state" where
  "assign i t v \<sigma> =
     (case t of
        Name n \<Rightarrow> Inr (bind_name i n v \<sigma>)
      | PyTuple ts \<Rightarrow>
          if list_all (\<lambda>t. target_name t \<noteq> None) ts
          then (case unpack (length ts) v of
                  Inl x \<Rightarrow> Inl x
                | Inr vs \<Rightarrow> Inr (bind_names i (zip (map (\<lambda>t. the (target_name t)) ts) vs) \<sigma>))
          else Inl Unsupported
      | _ \<Rightarrow> Inl Unsupported)"

fun assign_all :: "nat \<Rightarrow> expr list \<Rightarrow> val \<Rightarrow> state \<Rightarrow> error + state" where
  "assign_all i [] v \<sigma> = Inr \<sigma>"
| "assign_all i (t # ts) v \<sigma> =
     (case assign i t v \<sigma> of Inl x \<Rightarrow> Inl x | Inr \<sigma>' \<Rightarrow> assign_all i ts v \<sigma>')"

text \<open>
  \<^verbatim>\<open>import a.b as c\<close> binds \<open>c\<close> to the module \<open>a.b\<close>; \<^verbatim>\<open>import a.b\<close> binds
  \<open>a\<close> to the package \<open>a\<close>; \<^verbatim>\<open>from m import n\<close> binds \<open>n\<close> to the attribute \<open>n\<close> of
  \<open>m\<close>.
\<close>

definition import_alias :: "nat \<Rightarrow> pyalias \<Rightarrow> state \<Rightarrow> state" where
  "import_alias i a \<sigma> =
     (case a of
        Alias m asname \<Rightarrow>
          (case asname of
             None \<Rightarrow> bind_name i (top_package m) (VModule (top_package m)) (emit i (Imported m) \<sigma>)
           | Some n \<Rightarrow> bind_name i n (VModule m) (emit i (Imported m) \<sigma>)))"

definition import_from :: "nat \<Rightarrow> string \<Rightarrow> pyalias \<Rightarrow> state \<Rightarrow> state" where
  "import_from i m a \<sigma> =
     (case a of
        Alias n asname \<Rightarrow>
          bind_name i (case asname of None \<Rightarrow> n | Some n' \<Rightarrow> n') (VAttr (VModule m) n)
            (emit i (Imported m) \<sigma>))"

text \<open>
  Statements. \<open>final\<close> marks the last statement of a cell, whose value the notebook
  shows unless it is \<^verbatim>\<open>None\<close>.
  A \<^verbatim>\<open>for\<close> loop runs over the items of a list or tuple; an \<^verbatim>\<open>if\<close> needs a condition
  whose truth value Python itself decides. An exception ends the block: no statement after
  it runs.
\<close>

function (sequential) exec :: "world \<Rightarrow> nat \<Rightarrow> bool \<Rightarrow> stmt \<Rightarrow> state \<Rightarrow> error + state"
  and exec_block :: "world \<Rightarrow> nat \<Rightarrow> bool \<Rightarrow> stmt list \<Rightarrow> state \<Rightarrow> error + state"
  and exec_for :: "world \<Rightarrow> nat \<Rightarrow> expr \<Rightarrow> val list \<Rightarrow> stmt list \<Rightarrow> state \<Rightarrow> error + state"
where
  "exec w i final (Import as) \<sigma> = Inr (fold (import_alias i) as \<sigma>)"
| "exec w i final (ImportFrom m as) \<sigma> = Inr (fold (import_from i m) as \<sigma>)"
| "exec w i final (Assign ts e) \<sigma> =
     (case eval w i (env \<sigma>) (fresh \<sigma>) e of
        Inl x \<Rightarrow> Inl x
      | Inr (v, n, t) \<Rightarrow> assign_all i ts v (after \<sigma> n t))"
| "exec w i final (Expr e) \<sigma> =
     (case eval w i (env \<sigma>) (fresh \<sigma>) e of
        Inl x \<Rightarrow> Inl x
      | Inr (v, n, t) \<Rightarrow>
          Inr (if final \<and> v \<noteq> VNone then emit i (Out v) (after \<sigma> n t) else after \<sigma> n t))"
| "exec w i final (For t it b orelse) \<sigma> =
     (case eval w i (env \<sigma>) (fresh \<sigma>) it of
        Inl x \<Rightarrow> Inl x
      | Inr (v, n, tr) \<Rightarrow>
          (case v of
             VList xs \<Rightarrow>
               (case exec_for w i t xs b (after \<sigma> n tr) of
                  Inl x \<Rightarrow> Inl x
                | Inr \<sigma>2 \<Rightarrow> exec_block w i False orelse \<sigma>2)
           | VTuple xs \<Rightarrow>
               (case exec_for w i t xs b (after \<sigma> n tr) of
                  Inl x \<Rightarrow> Inl x
                | Inr \<sigma>2 \<Rightarrow> exec_block w i False orelse \<sigma>2)
           | _ \<Rightarrow> Inl Unsupported))"
| "exec w i final (If c b orelse) \<sigma> =
     (case eval w i (env \<sigma>) (fresh \<sigma>) c of
        Inl x \<Rightarrow> Inl x
      | Inr (v, n, tr) \<Rightarrow>
          (case truthy v of
             Some yes \<Rightarrow> exec_block w i False (if yes then b else orelse) (after \<sigma> n tr)
           | None \<Rightarrow> Inl Unsupported))"
| "exec w i final s \<sigma> = Inl Unsupported"
| "exec_block w i final [] \<sigma> = Inr \<sigma>"
| "exec_block w i final [s] \<sigma> = exec w i final s \<sigma>"
| "exec_block w i final (s # ss) \<sigma> =
     (case exec w i False s \<sigma> of Inl x \<Rightarrow> Inl x | Inr \<sigma>' \<Rightarrow> exec_block w i final ss \<sigma>')"
| "exec_for w i t [] b \<sigma> = Inr \<sigma>"
| "exec_for w i t (v # vs) b \<sigma> =
     (case assign i t v \<sigma> of
        Inl x \<Rightarrow> Inl x
      | Inr \<sigma>1 \<Rightarrow>
          (case exec_block w i False b \<sigma>1 of
             Inl x \<Rightarrow> Inl x
           | Inr \<sigma>2 \<Rightarrow> exec_for w i t vs b \<sigma>2))"
  by pat_completeness auto
termination
  by (relation "inv_image (less_than <*lex*> less_than)
        (\<lambda>x. case x of
           Inl (w, i, l, s, \<sigma>) \<Rightarrow> (size s, 0)
         | Inr (Inl (w, i, l, ss, \<sigma>)) \<Rightarrow> (size_list size ss, 0)
         | Inr (Inr (w, i, t, vs, b, \<sigma>)) \<Rightarrow> (size_list size b, Suc (length vs)))")
     auto

text \<open>A notebook runs its code cells in order in a fresh kernel; prose does nothing.\<close>

fun run_cells :: "world \<Rightarrow> nat \<Rightarrow> cell list \<Rightarrow> state \<Rightarrow> error + state" where
  "run_cells w i [] \<sigma> = Inr \<sigma>"
| "run_cells w i (Markdown ls # cs) \<sigma> = run_cells w (Suc i) cs \<sigma>"
| "run_cells w i (Code ss # cs) \<sigma> =
     (case exec_block w i True ss \<sigma> of
        Inl x \<Rightarrow> Inl x
      | Inr \<sigma>' \<Rightarrow> run_cells w (Suc i) cs \<sigma>')"

definition run :: "world \<Rightarrow> notebook \<Rightarrow> error + state" where
  "run w nb = run_cells w 0 nb \<lparr>env = [], fresh = 0, trace = []\<rparr>"

text \<open>The world in which no library call raises and the files \<open>fs\<close> exist.\<close>

definition calm :: "(string \<Rightarrow> bool) \<Rightarrow> world" where
  "calm fs = \<lparr>isfile = fs, raises = (\<lambda>f args kws. False)\<rparr>"

definition events :: "error + state \<Rightarrow> (nat \<times> event) list" where
  "events r = (case r of Inl x \<Rightarrow> [] | Inr \<sigma> \<Rightarrow> trace \<sigma>)"

text \<open>What a notebook is seen to do when it runs where the files \<open>fs\<close> exist.\<close>

definition observed :: "(string \<Rightarrow> bool) \<Rightarrow> notebook \<Rightarrow> (nat \<times> event) list" where
  "observed fs nb = events (run (calm fs) nb)"


section \<open>Reading a trace\<close>

definition callee_of :: "event \<Rightarrow> val" where
  "callee_of ev = (case ev of Called f args kws r \<Rightarrow> f | _ \<Rightarrow> VNone)"

definition args_of :: "event \<Rightarrow> val list" where
  "args_of ev = (case ev of Called f args kws r \<Rightarrow> args | _ \<Rightarrow> [])"

definition kws_of :: "event \<Rightarrow> (string \<times> val) list" where
  "kws_of ev = (case ev of Called f args kws r \<Rightarrow> kws | _ \<Rightarrow> [])"

definition result_of :: "event \<Rightarrow> val" where
  "result_of ev = (case ev of Called f args kws r \<Rightarrow> r | _ \<Rightarrow> VNone)"

definition method_of :: "event \<Rightarrow> string" where
  "method_of ev = (case callee_of ev of VAttr r m \<Rightarrow> m | _ \<Rightarrow> [])"

definition receiver :: "event \<Rightarrow> val" where
  "receiver ev = (case callee_of ev of VAttr r m \<Rightarrow> r | _ \<Rightarrow> VNone)"

text \<open>The calls of a method that a trace holds, each with the index of its cell.\<close>

definition calls_of :: "string \<Rightarrow> (nat \<times> event) list \<Rightarrow> (nat \<times> event) list" where
  "calls_of m t = filter (\<lambda>ie. method_of (snd ie) = m) t"

definition bindings :: "string \<Rightarrow> (nat \<times> event) list \<Rightarrow> (nat \<times> val) list" where
  "bindings n t =
     concat (map (\<lambda>ie. case snd ie of
                         Bound n' v \<Rightarrow> (if n' = n then [(fst ie, v)] else [])
                       | _ \<Rightarrow> [])
                 t)"

definition at_cell :: "nat \<Rightarrow> (nat \<times> event) list \<Rightarrow> event list" where
  "at_cell i t = map snd (filter (\<lambda>ie. fst ie = i) t)"

section \<open>What the cells are\<close>





definition renders :: "cell \<Rightarrow> bool" where
  "renders c = (body c \<noteq> [] \<and> is_expr (last (body c)))"

definition prints :: "cell \<Rightarrow> bool" where
  "prints c = list_ex (\<lambda>e. case e of Call f args kws \<Rightarrow> f = Name ''print'' | _ \<Rightarrow> False) (cell_exprs c)"


text \<open>The three kinds of cell the description rules out by name.\<close>

definition downloads :: "cell \<Rightarrow> bool" where
  "downloads c = cell_invokes [''urllib'', ''request'', ''urlretrieve''] c"




definition only_assigns :: "cell \<Rightarrow> bool" where
  "only_assigns c = (body c \<noteq> [] \<and> list_all is_assign (body c))"


text \<open>A straight-line cell: imports, assignments and expression statements only.\<close>

definition straight_line :: "cell \<Rightarrow> bool" where
  "straight_line c = list_all (\<lambda>s. is_import s \<or> is_assign s \<or> is_expr s) (body c)"

definition has_import :: "cell \<Rightarrow> bool" where
  "has_import c = list_ex is_import (body c)"

definition cell_kind_ok :: "cell \<Rightarrow> bool" where
  "cell_kind_ok c =
     ((straight_line c \<or> downloads c) \<and>
      (has_import c \<or> renders c \<or> prints c \<or> only_assigns c \<or> downloads c))"

section \<open>Exception handling, concurrency, type definitions\<close>



definition is_async :: "stmt \<Rightarrow> bool" where
  "is_async s =
     (case s of
        AsyncFunctionDef n ps b \<Rightarrow> True
      | AsyncFor t it b orelse \<Rightarrow> True
      | AsyncWith items b \<Rightarrow> True
      | _ \<Rightarrow> False)"

definition is_await :: "expr \<Rightarrow> bool" where
  "is_await e = (case e of Await x \<Rightarrow> True | _ \<Rightarrow> False)"

definition concurrency_packages :: "string list" where
  "concurrency_packages =
   [''threading'', ''_thread'', ''asyncio'', ''multiprocessing'', ''concurrent'', ''subprocess'',
    ''signal'', ''sched'', ''queue'', ''selectors'']"

definition keyword_names :: "expr \<Rightarrow> string list" where
  "keyword_names e =
     (case e of
        Call f args kws \<Rightarrow>
          concat (map (\<lambda>k. case k of Keyword n v \<Rightarrow> (case n of None \<Rightarrow> [] | Some x \<Rightarrow> [x])) kws)
      | _ \<Rightarrow> [])"

definition sequential :: "cell \<Rightarrow> bool" where
  "sequential c =
     (\<not> list_ex is_async (cell_stmts c) \<and>
      \<not> list_ex is_await (cell_exprs c) \<and>
      \<not> list_ex (\<lambda>m. top_package m \<in> set concurrency_packages) (imported_modules c) \<and>
      \<not> list_ex (\<lambda>e. ''timeout'' \<in> set (keyword_names e)) (cell_exprs c))"

definition defines_type :: "stmt \<Rightarrow> bool" where
  "defines_type s =
     (case s of
        ClassDef n bases b \<Rightarrow> True
      | FunctionDef n ps b \<Rightarrow> True
      | AsyncFunctionDef n ps b \<Rightarrow> True
      | _ \<Rightarrow> False)"

definition no_types :: "cell \<Rightarrow> bool" where
  "no_types c = (\<not> list_ex defines_type (cell_stmts c))"

section \<open>Files and names in a trace\<close>














text \<open>The argument expressions of the calls of a method in a cell, as written.\<close>

definition written_args :: "string list \<Rightarrow> cell \<Rightarrow> (expr list \<times> keyword list) list" where
  "written_args p c =
     concat (map (\<lambda>e. case e of Call f args kws \<Rightarrow> [(args, kws)] | _ \<Rightarrow> [])
                 (filter (invokes p) (cell_exprs c)))"

section \<open>Which cells are code\<close>

lemma prose_cells:
  "list_all (\<lambda>c. \<not> is_code c)
     [cross_sections_0, cross_sections_3, cross_sections_4, cross_sections_6,
      cross_sections_8, cross_sections_10, cross_sections_13, cross_sections_16,
      cross_sections_19, cross_sections_20, healpix_0, healpix_2, healpix_3, healpix_5,
      healpix_7, healpix_9, healpix_11, healpix_13, healpix_15, healpix_17, healpix_19,
      healpix_21, healpix_23, healpix_25, healpix_27, remapping_0, remapping_1, remapping_3,
      remapping_4, remapping_8, remapping_9, remapping_13, remapping_15, remapping_16,
      remapping_17, remapping_18, remapping_19, remapping_22, remapping_23, remapping_24,
      remapping_27, remapping_28, remapping_29, remapping_30, remapping_31, remapping_32,
      remapping_33, remapping_36, remapping_37, remapping_40, remapping_41, remapping_44,
      remapping_47, spatial_hashing_0, spatial_hashing_2, spatial_hashing_4,
      spatial_hashing_6, custom_grid_0, custom_grid_2, custom_grid_3, custom_grid_5,
      custom_grid_8, custom_grid_10, custom_grid_13, custom_grid_14, custom_grid_16,
      custom_grid_18, custom_grid_20, custom_grid_22, custom_grid_24, custom_grid_27,
      dual_mesh_0, dual_mesh_1, dual_mesh_4, dual_mesh_5, dual_mesh_10, dual_mesh_11,
      dual_mesh_12, dual_mesh_13, dual_mesh_16, dual_mesh_17, dual_mesh_20, dual_mesh_21,
      dual_mesh_22, dual_mesh_23, dual_mesh_25, dual_mesh_28, subset_0, subset_2, subset_7,
      subset_9, subset_11, subset_14, subset_17, subset_20, subset_23, subset_25, subset_27,
      subset_29, subset_30, subset_32, subset_34, subset_35, subset_37, weighted_mean_0,
      weighted_mean_2, weighted_mean_5, weighted_mean_7, weighted_mean_10, weighted_mean_13,
      holoviz_0, holoviz_2, holoviz_4, holoviz_5, holoviz_7, holoviz_9, holoviz_11,
      holoviz_13, holoviz_14, holoviz_15, holoviz_18, holoviz_21, holoviz_23, holoviz_25]"
  by (simp only: list_all_Nil_iff list_all_Cons_iff) code_simp

lemma program_cells:
  "list_all is_code
     [cross_sections_1, cross_sections_2, cross_sections_5, cross_sections_7,
      cross_sections_9, cross_sections_11, cross_sections_12, cross_sections_14,
      cross_sections_15, cross_sections_17, cross_sections_18, healpix_1, healpix_4,
      healpix_6, healpix_8, healpix_10, healpix_12, healpix_14, healpix_16, healpix_18,
      healpix_20, healpix_22, healpix_24, healpix_26, remapping_2, remapping_5, remapping_6,
      remapping_7, remapping_10, remapping_11, remapping_12, remapping_14, remapping_20,
      remapping_21, remapping_25, remapping_26, remapping_34, remapping_35, remapping_38,
      remapping_39, remapping_42, remapping_43, remapping_45, remapping_46,
      spatial_hashing_1, spatial_hashing_3, spatial_hashing_5, spatial_hashing_7,
      custom_grid_1, custom_grid_4, custom_grid_6, custom_grid_7, custom_grid_9,
      custom_grid_11, custom_grid_12, custom_grid_15, custom_grid_17, custom_grid_19,
      custom_grid_21, custom_grid_23, custom_grid_25, custom_grid_26, custom_grid_28,
      dual_mesh_2, dual_mesh_3, dual_mesh_6, dual_mesh_7, dual_mesh_8, dual_mesh_9,
      dual_mesh_14, dual_mesh_15, dual_mesh_18, dual_mesh_19, dual_mesh_24, dual_mesh_26,
      dual_mesh_27, dual_mesh_29, subset_1, subset_3, subset_4, subset_5, subset_6,
      subset_8, subset_10, subset_12, subset_13, subset_15, subset_16, subset_18, subset_19,
      subset_21, subset_22, subset_24, subset_26, subset_28, subset_31, subset_33,
      subset_36, subset_38, weighted_mean_1, weighted_mean_3, weighted_mean_4,
      weighted_mean_6, weighted_mean_8, weighted_mean_9, weighted_mean_11, weighted_mean_12,
      weighted_mean_14, weighted_mean_15, holoviz_1, holoviz_3, holoviz_6, holoviz_8,
      holoviz_10, holoviz_12, holoviz_16, holoviz_17, holoviz_19, holoviz_20, holoviz_22,
      holoviz_24, holoviz_26, holoviz_27]"
  by (simp only: list_all_Nil_iff list_all_Cons_iff) code_simp

lemma code_cells_eq:
  "code_cells =
     [cross_sections_1, cross_sections_2, cross_sections_5, cross_sections_7,
      cross_sections_9, cross_sections_11, cross_sections_12, cross_sections_14,
      cross_sections_15, cross_sections_17, cross_sections_18, healpix_1, healpix_4,
      healpix_6, healpix_8, healpix_10, healpix_12, healpix_14, healpix_16, healpix_18,
      healpix_20, healpix_22, healpix_24, healpix_26, remapping_2, remapping_5, remapping_6,
      remapping_7, remapping_10, remapping_11, remapping_12, remapping_14, remapping_20,
      remapping_21, remapping_25, remapping_26, remapping_34, remapping_35, remapping_38,
      remapping_39, remapping_42, remapping_43, remapping_45, remapping_46,
      spatial_hashing_1, spatial_hashing_3, spatial_hashing_5, spatial_hashing_7,
      custom_grid_1, custom_grid_4, custom_grid_6, custom_grid_7, custom_grid_9,
      custom_grid_11, custom_grid_12, custom_grid_15, custom_grid_17, custom_grid_19,
      custom_grid_21, custom_grid_23, custom_grid_25, custom_grid_26, custom_grid_28,
      dual_mesh_2, dual_mesh_3, dual_mesh_6, dual_mesh_7, dual_mesh_8, dual_mesh_9,
      dual_mesh_14, dual_mesh_15, dual_mesh_18, dual_mesh_19, dual_mesh_24, dual_mesh_26,
      dual_mesh_27, dual_mesh_29, subset_1, subset_3, subset_4, subset_5, subset_6,
      subset_8, subset_10, subset_12, subset_13, subset_15, subset_16, subset_18, subset_19,
      subset_21, subset_22, subset_24, subset_26, subset_28, subset_31, subset_33,
      subset_36, subset_38, weighted_mean_1, weighted_mean_3, weighted_mean_4,
      weighted_mean_6, weighted_mean_8, weighted_mean_9, weighted_mean_11, weighted_mean_12,
      weighted_mean_14, weighted_mean_15, holoviz_1, holoviz_3, holoviz_6, holoviz_8,
      holoviz_10, holoviz_12, holoviz_16, holoviz_17, holoviz_19, holoviz_20, holoviz_22,
      holoviz_24, holoviz_26, holoviz_27]"
  using prose_cells program_cells
  by (simp add: code_cells_def notebooks_def cross_sections_def healpix_def remapping_def spatial_hashing_def custom_grid_def dual_mesh_def subset_def weighted_mean_def holoviz_def)

section \<open>The trace of each notebook\<close>

text \<open>
  Each notebook runs to its end in a fresh kernel when no library call raises. Only the
  remapping notebook asks which files exist; its trace is that of a working directory
  without the four mesh files.
\<close>

lemma cross_sections_trace:
  "observed fs cross_sections =
     [(1, Imported ''cartopy.crs''), (1, Bound ''ccrs'' (VModule ''cartopy.crs'')),
      (1, Imported ''geoviews''), (1, Bound ''gv'' (VModule ''geoviews'')),
      (1, Imported ''geoviews.feature''), (1, Bound ''gf'' (VModule ''geoviews.feature'')),
      (1, Imported ''uxarray''), (1, Bound ''ux'' (VModule ''uxarray'')),
      (1, Called (VAttr (VModule ''cartopy.crs'') ''Robinson'') [] [] (VObj 0)),
      (1, Bound ''projection'' (VObj 0)),
      (2, Bound ''base_path'' (VStr ''../../test/meshfiles/ugrid/outCSne30/'')),
      (2, Bound ''grid_path'' (VStr ''../../test/meshfiles/ugrid/outCSne30/outCSne30.ug'')),
      (2, Bound ''data_path'' (VStr ''../../test/meshfiles/ugrid/outCSne30/outCSne30_vortex.nc'')),
      (2, Called (VAttr (VModule ''uxarray'') ''open_dataset'')
           [VStr ''../../test/meshfiles/ugrid/outCSne30/outCSne30.ug'',
            VStr ''../../test/meshfiles/ugrid/outCSne30/outCSne30_vortex.nc'']
           [] (VObj 1)),
      (2, Bound ''uxds'' (VObj 1)),
      (2, Called (VAttr (VItem (VObj 1) (VStr ''psi'')) ''plot'') []
           [(''cmap'', VStr ''inferno''), (''periodic_elements'', VStr ''split''),
            (''projection'', VObj 0), (''title'', VStr ''Global Plot'')]
           (VObj 2)),
      (2, Out (VObj 2)), (5, Bound ''lat'' (VInt 0)),
      (5, Called
           (VAttr (VAttr (VItem (VObj 1) (VStr ''psi'')) ''cross_section'') ''constant_latitude'')
           [VInt 0] [] (VObj 3)),
      (5, Bound ''uxda_constant_lat'' (VObj 3)),
      (7, Called (VAttr (VObj 3) ''plot'') []
           [(''rasterize'', VBool False), (''backend'', VStr ''bokeh''),
            (''cmap'', VStr ''inferno''), (''projection'', VObj 0), (''global_extent'', VBool True),
            (''coastline'', VBool True), (''title'', VStr ''Cross Section at 0 degrees latitude'')]
           (VObj 4)),
      (7, Called (VAttr (VModule ''geoviews.feature'') ''grid'') [] [(''projection'', VObj 0)]
           (VObj 5)),
      (7, Out (VBinOp (VObj 4) Mult (VObj 5))),
      (9, Called (VAttr (VAttr (VItem (VObj 1) (VStr ''psi'')) ''data'') ''mean'') [] [] (VObj 6)),
      (9, Printed [VJoined [VStr ''Global Mean: '', VObj 6]]),
      (9, Called (VAttr (VAttr (VObj 3) ''data'') ''mean'') [] [] (VObj 7)),
      (9, Printed [VJoined [VStr ''Mean at '', VInt 0, VStr '' degrees lat: '', VObj 7]]),
      (11, Bound ''lon'' (VInt 90)),
      (11,
       Called
        (VAttr (VAttr (VItem (VObj 1) (VStr ''psi'')) ''cross_section'') ''constant_longitude'')
        [VInt 90] [] (VObj 8)),
      (11, Bound ''uxda_constant_lon'' (VObj 8)),
      (12,
       Called (VAttr (VObj 8) ''plot'') []
        [(''rasterize'', VBool False), (''backend'', VStr ''bokeh''), (''cmap'', VStr ''inferno''),
         (''projection'', VObj 0), (''global_extent'', VBool True), (''coastline'', VBool True),
         (''title'', VStr ''Cross Section at 90 degrees longitude''),
         (''periodic_elements'', VStr ''split'')]
        (VObj 9)),
      (12,
       Called (VAttr (VModule ''geoviews.feature'') ''grid'') [] [(''projection'', VObj 0)]
        (VObj 10)),
      (12, Out (VBinOp (VObj 9) Mult (VObj 10))),
      (14, Bound ''lats'' (VList [VInt (- 20), VInt 20])),
      (14,
       Called
        (VAttr (VAttr (VItem (VObj 1) (VStr ''psi'')) ''cross_section'')
          ''constant_latitude_interval'')
        [VList [VInt (- 20), VInt 20]] [] (VObj 11)),
      (14, Bound ''uxda_constant_lat_interval'' (VObj 11)),
      (15,
       Called (VAttr (VObj 11) ''plot'') []
        [(''rasterize'', VBool False), (''backend'', VStr ''bokeh''), (''cmap'', VStr ''inferno''),
         (''projection'', VObj 0), (''global_extent'', VBool True), (''coastline'', VBool True),
         (''title'', VStr ''Cross Section between -20 and 20 degrees latitude''),
         (''periodic_elements'', VStr ''split'')]
        (VObj 12)),
      (15,
       Called (VAttr (VModule ''geoviews.feature'') ''grid'') [] [(''projection'', VObj 0)]
        (VObj 13)),
      (15, Out (VBinOp (VObj 12) Mult (VObj 13))),
      (17, Bound ''lons'' (VList [VInt (- 25), VInt 25])),
      (17,
       Called
        (VAttr (VAttr (VItem (VObj 1) (VStr ''psi'')) ''cross_section'')
          ''constant_longitude_interval'')
        [VList [VInt (- 20), VInt 20]] [] (VObj 14)),
      (17, Bound ''uxda_constant_lon_interval'' (VObj 14)),
      (18,
       Called (VAttr (VObj 14) ''plot'') []
        [(''rasterize'', VBool False), (''backend'', VStr ''bokeh''), (''cmap'', VStr ''inferno''),
         (''projection'', VObj 0), (''global_extent'', VBool True), (''coastline'', VBool True),
         (''title'', VStr ''Cross Section between -25 and 25 degrees longitude''),
         (''periodic_elements'', VStr ''split'')]
        (VObj 15)),
      (18,
       Called (VAttr (VModule ''geoviews.feature'') ''grid'') [] [(''projection'', VObj 0)]
        (VObj 16)),
      (18, Out (VBinOp (VObj 15) Mult (VObj 16)))]"
  by code_simp

lemma healpix_trace:
  "observed fs healpix =
     [(1, Imported ''cartopy.crs''), (1, Bound ''ccrs'' (VModule ''cartopy.crs'')),
      (1, Imported ''uxarray''), (1, Bound ''ux'' (VModule ''uxarray'')),
      (4, Called (VAttr (VAttr (VModule ''uxarray'') ''Grid'') ''from_healpix'') []
           [(''zoom'', VInt 3)] (VObj 0)),
      (4, Out (VObj 0)),
      (6, Called (VAttr (VAttr (VModule ''uxarray'') ''Grid'') ''from_healpix'') []
           [(''zoom'', VInt 3), (''pixels_only'', VBool False)] (VObj 1)),
      (6, Out (VObj 1)),
      (8, Called (VAttr (VAttr (VModule ''uxarray'') ''Grid'') ''from_healpix'') []
           [(''zoom'', VInt 3), (''pixels_only'', VBool True)] (VObj 2)),
      (8, Out (VAttr (VObj 2) ''face_node_connectivity'')),
      (10,
       Called (VAttr (VAttr (VModule ''uxarray'') ''Grid'') ''from_healpix'') []
        [(''zoom'', VInt 2)] (VObj 3)),
      (10, Called (VAttr (VModule ''cartopy.crs'') ''Orthographic'') [] [] (VObj 4)),
      (10,
       Called (VAttr (VObj 3) ''plot'') []
        [(''periodic_elements'', VStr ''split''), (''projection'', VObj 4),
         (''title'', VStr ''zoom=2'')]
        (VObj 5)),
      (10,
       Called (VAttr (VAttr (VModule ''uxarray'') ''Grid'') ''from_healpix'') []
        [(''zoom'', VInt 3)] (VObj 6)),
      (10, Called (VAttr (VModule ''cartopy.crs'') ''Orthographic'') [] [] (VObj 7)),
      (10,
       Called (VAttr (VObj 6) ''plot'') []
        [(''periodic_elements'', VStr ''split''), (''projection'', VObj 7),
         (''title'', VStr ''zoom=3'')]
        (VObj 8)),
      (10,
       Called (VAttr (VAttr (VModule ''uxarray'') ''Grid'') ''from_healpix'') []
        [(''zoom'', VInt 4)] (VObj 9)),
      (10, Called (VAttr (VModule ''cartopy.crs'') ''Orthographic'') [] [] (VObj 10)),
      (10,
       Called (VAttr (VObj 9) ''plot'') []
        [(''periodic_elements'', VStr ''split''), (''projection'', VObj 10),
         (''title'', VStr ''zoom=4'')]
        (VObj 11)),
      (10,
       Called (VAttr (VBinOp (VBinOp (VObj 5) Add (VObj 8)) Add (VObj 11)) ''cols'') [VInt 1] []
        (VObj 12)),
      (10, Out (VObj 12)),
      (12,
       Called (VAttr (VModule ''uxarray'') ''open_dataset'')
        [VStr ''../../test/meshfiles/ugrid/outCSne30/outCSne30.ug'',
         VStr ''../../test/meshfiles/ugrid/outCSne30/outCSne30_vortex.nc'']
        [] (VObj 13)),
      (12, Bound ''source_uxds'' (VObj 13)),
      (12, Called (VAttr (VModule ''cartopy.crs'') ''Orthographic'') [] [] (VObj 14)),
      (12,
       Called (VAttr (VItem (VObj 13) (VStr ''psi'')) ''plot'') []
        [(''cmap'', VStr ''inferno''), (''projection'', VObj 14), (''title'', VStr ''Source Data'')]
        (VObj 15)),
      (12,
       Called (VAttr (VAttr (VModule ''uxarray'') ''Grid'') ''from_healpix'') []
        [(''zoom'', VInt 5)] (VObj 16)),
      (12, Bound ''hp_grid'' (VObj 16)),
      (14, Called (VAttr (VModule ''cartopy.crs'') ''Orthographic'') [] [] (VObj 17)),
      (14,
       Called (VAttr (VAttr (VObj 13) ''uxgrid'') ''plot'') []
        [(''projection'', VObj 17), (''title'', VStr ''Source Grid (CSne30)'')] (VObj 18)),
      (14, Called (VAttr (VModule ''cartopy.crs'') ''Orthographic'') [] [] (VObj 19)),
      (14,
       Called (VAttr (VObj 16) ''plot'') []
        [(''projection'', VObj 19), (''title'', VStr ''Destination Grid (HEALPix)'')] (VObj 20)),
      (14, Out (VBinOp (VObj 18) Add (VObj 20))),
      (16,
       Called (VAttr (VAttr (VItem (VObj 13) (VStr ''psi'')) ''remap'') ''nearest_neighbor'') []
        [(''destination_grid'', VObj 16)] (VObj 21)),
      (16, Bound ''psi_hp'' (VObj 21)), (16, Out (VObj 21)),
      (18, Called (VAttr (VModule ''cartopy.crs'') ''Orthographic'') [] [] (VObj 22)),
      (18,
       Called (VAttr (VObj 21) ''plot'') []
        [(''cmap'', VStr ''inferno''), (''projection'', VObj 22),
         (''title'', VStr ''Remapped Data'')]
        (VObj 23)),
      (18, Out (VObj 23)), (20, Called (VAttr (VObj 21) ''to_dataset'') [] [] (VObj 24)),
      (20,
       Called (VAttr (VObj 24) ''to_xarray'') [] [(''grid_format'', VStr ''HEALPix'')] (VObj 25)),
      (20, Called (VAttr (VObj 25) ''to_netcdf'') [VStr ''psi_healpix.nc''] [] (VObj 26)),
      (20, Out (VObj 26)),
      (22,
       Called (VAttr (VAttr (VModule ''uxarray'') ''UxDataset'') ''from_healpix'')
        [VStr ''psi_healpix.nc''] [] (VObj 27)),
      (22, Bound ''uxds'' (VObj 27)), (22, Out (VObj 27)), (24, Imported ''xarray''),
      (24, Bound ''xr'' (VModule ''xarray'')),
      (24,
       Called (VAttr (VModule ''xarray'') ''open_dataset'') [VStr ''psi_healpix.nc''] [] (VObj 28)),
      (24, Out (VObj 28)), (26, Out (VAttr (VObj 27) ''uxgrid''))]"
  by code_simp


lemma spatial_hashing_trace:
  "observed fs spatial_hashing =
     [(1, Imported ''uxarray''), (1, Bound ''ux'' (VModule ''uxarray'')),
      (3, Bound ''grid_path'' (VStr ''../../test/meshfiles/ugrid/quad-hexagon/grid.nc'')),
      (3, Called (VAttr (VModule ''uxarray'') ''open_grid'')
           [VStr ''../../test/meshfiles/ugrid/quad-hexagon/grid.nc''] [] (VObj 0)),
      (3, Bound ''uxgrid'' (VObj 0)),
      (5, Called (VAttr (VObj 0) ''get_spatial_hash'') [] [(''reconstruct'', VStr ''False'')]
           (VObj 1)),
      (5, Bound ''spatial_hash'' (VObj 1)),
      (7, Called (VAttr (VObj 0) ''get_spatial_hash'') [] [] (VObj 2)),
      (7, Called (VAttr (VObj 2) ''query'')
           [VList [VUnaryOp USub (VFloat ''0.1''), VUnaryOp USub (VFloat ''0.1'')]] [] (VObj 3)),
      (7, Bound ''face_ids'' (VItem (VObj 3) (VInt 0))),
      (7, Bound ''bcoords'' (VItem (VObj 3) (VInt 1))),
      (7, Printed [VJoined [VStr ''face ids : '', VItem (VObj 3) (VInt 0)]]),
      (7, Printed [VJoined [VStr ''Barycentric Coordinates: '', VItem (VObj 3) (VInt 1)]])]"
  by code_simp

lemma custom_grid_trace:
  "observed fs custom_grid =
     [(1, Imported ''numpy''), (1, Bound ''np'' (VModule ''numpy'')), (1, Imported ''xarray''),
      (1, Bound ''xr'' (VModule ''xarray'')), (1, Imported ''uxarray''),
      (1, Bound ''ux'' (VModule ''uxarray'')),
      (4, Called (VAttr (VModule ''numpy'') ''array'')
           [VList [VUnaryOp USub (VFloat ''20.0''), VFloat ''0.0'', VFloat ''20.0'']] [] (VObj 0)),
      (4, Bound ''node_lon'' (VObj 0)),
      (4, Called (VAttr (VModule ''numpy'') ''array'')
           [VList
             [VUnaryOp USub (VFloat ''10.0''), VFloat ''10.0'', VUnaryOp USub (VFloat ''10.0'')]]
           [] (VObj 1)),
      (4, Bound ''node_lat'' (VObj 1)),
      (4, Called (VAttr (VModule ''numpy'') ''array'') [VList [VList [VInt 0, VInt 1, VInt 2]]] []
           (VObj 2)),
      (4, Bound ''face_node_connectivity'' (VObj 2)),
      (6, Called (VAttr (VAttr (VModule ''uxarray'') ''Grid'') ''from_topology'') []
           [(''node_lon'', VObj 0), (''node_lat'', VObj 1), (''face_node_connectivity'', VObj 2)]
           (VObj 3)),
      (6, Bound ''uxgrid_tri'' (VObj 3)),
      (7, Called (VAttr (VObj 3) ''plot'') [] [(''title'', VStr ''Triangle'')] (VObj 4)),
      (7, Out (VObj 4)),
      (9, Called (VAttr (VModule ''numpy'') ''array'')
           [VList
             [VUnaryOp USub (VFloat ''20.0''), VFloat ''0.0'', VFloat ''20.0'', VInt (- 20),
              VInt (- 40)]]
           [] (VObj 5)),
      (9, Bound ''node_lon'' (VObj 5)),
      (9, Called (VAttr (VModule ''numpy'') ''array'')
           [VList
             [VUnaryOp USub (VFloat ''10.0''), VFloat ''10.0'', VUnaryOp USub (VFloat ''10.0''),
              VInt 10, VInt (- 10)]]
           [] (VObj 6)),
      (9, Bound ''node_lat'' (VObj 6)),
      (9, Called (VAttr (VModule ''numpy'') ''array'')
           [VList
             [VList [VInt 0, VInt 1, VInt 2, VInt (- 1)], VList [VInt 0, VInt 1, VInt 3, VInt 4]]]
           [] (VObj 7)),
      (9, Bound ''face_node_connectivity'' (VObj 7)),
      (11,
       Called (VAttr (VAttr (VModule ''uxarray'') ''Grid'') ''from_topology'') []
        [(''node_lon'', VObj 5), (''node_lat'', VObj 6), (''face_node_connectivity'', VObj 7),
         (''fill_value'', VInt (- 1))]
        (VObj 8)),
      (11, Bound ''uxgrid_tri_quad'' (VObj 8)),
      (12, Called (VAttr (VObj 8) ''plot'') [] [(''title'', VStr ''Triangle & Quad'')] (VObj 9)),
      (12, Out (VObj 9)),
      (15,
       Called (VAttr (VModule ''numpy'') ''array'')
        [VList [VList [VInt 100, VInt 105, VInt 108, VInt 109]]] [] (VObj 10)),
      (15,
       Called (VAttr (VModule ''xarray'') ''DataArray'') []
        [(''name'', VStr ''temp''), (''data'', VAttr (VObj 10) ''T''),
         (''dims'', VList [VStr ''time'', VStr ''cell''])]
        (VObj 11)),
      (15, Bound ''xrda_temp'' (VObj 11)), (15, Out (VObj 11)),
      (17, Bound ''ugrid_dims'' (VDict [(VStr ''cell'', VStr ''n_face'')])),
      (19,
       Called (VAttr (VAttr (VModule ''uxarray'') ''UxDataArray'') ''from_xarray'')
        [VObj 11, VObj 3, VDict [(VStr ''cell'', VStr ''n_face'')]] [] (VObj 12)),
      (19, Bound ''uxda_temp'' (VObj 12)), (19, Out (VObj 12)),
      (21,
       Called (VAttr (VModule ''numpy'') ''array'')
        [VList
          [VList [VInt 1, VInt 2, VInt 3, VInt 4], VList [VInt 5, VInt 6, VInt 7, VInt 8],
           VList [VInt 9, VInt 10, VInt 11, VInt 12]]]
        [] (VObj 13)),
      (21,
       Called (VAttr (VModule ''xarray'') ''DataArray'') []
        [(''name'', VStr ''vorticity''), (''data'', VAttr (VObj 13) ''T''),
         (''dims'', VList [VStr ''time'', VStr ''vertex''])]
        (VObj 14)),
      (21, Bound ''xrda_vorticity'' (VObj 14)),
      (23,
       Called (VAttr (VModule ''xarray'') ''Dataset'') []
        [(''data_vars'', VDict [(VStr ''temp'', VObj 11), (VStr ''vorticity'', VObj 14)])]
        (VObj 15)),
      (23, Bound ''ds'' (VObj 15)), (23, Out (VObj 15)),
      (25,
       Bound ''ugrid_dims''
        (VDict [(VStr ''cell'', VStr ''n_face''), (VStr ''vertex'', VStr ''n_node'')])),
      (26,
       Called (VAttr (VAttr (VModule ''uxarray'') ''UxDataset'') ''from_xarray'') []
        [(''ds'', VObj 15), (''uxgrid'', VObj 3),
         (''ugrid_dims'',
          VDict [(VStr ''cell'', VStr ''n_face''), (VStr ''vertex'', VStr ''n_node'')])]
        (VObj 16)),
      (26, Bound ''uxds'' (VObj 16)),
      (28, Out (VItem (VItem (VObj 16) (VStr ''vorticity'')) (VInt 0)))]"
  by code_simp




section \<open>Auxiliary facts\<close>

lemma list_exI: "x \<in> set xs \<Longrightarrow> P x \<Longrightarrow> list_ex P xs"
  by (auto simp: list_ex_iff)



section \<open>C1: what kind of action a cell performs\<close>



section \<open>C2: every capability is exercised\<close>

text \<open>
  C2: for each capability the description lists, at least one code cell calls the
  method of the library that provides it: constant-latitude cross-sections, HEALPix grids,
  weighted means, geometry-frame conversion, nearest-neighbour and inverse-distance-weighted
  remapping, spatial-hash queries, grids from raw topology arrays, the three kinds of
  subsetting, and dual meshes.
\<close>

theorem C2_capabilities_invoked:
  "list_ex (cell_invokes [''cross_section'', ''constant_latitude'']) code_cells \<and>
   list_ex (cell_invokes [''Grid'', ''from_healpix'']) code_cells \<and>
   list_ex (cell_invokes [''weighted_mean'']) code_cells \<and>
   list_ex (cell_invokes [''to_geodataframe'']) code_cells \<and>
   list_ex (cell_invokes [''remap'', ''nearest_neighbor'']) code_cells \<and>
   list_ex (cell_invokes [''remap'', ''inverse_distance_weighted'']) code_cells \<and>
   list_ex (cell_invokes [''get_spatial_hash'', ''()'', ''query'']) code_cells \<and>
   list_ex (cell_invokes [''Grid'', ''from_topology'']) code_cells \<and>
   list_ex (cell_invokes [''subset'', ''bounding_box'']) code_cells \<and>
   list_ex (cell_invokes [''subset'', ''bounding_circle'']) code_cells \<and>
   list_ex (cell_invokes [''subset'', ''nearest_neighbor'']) code_cells \<and>
   list_ex (cell_invokes [''get_dual'']) code_cells"
proof -
  have e1: "list_ex (cell_invokes [''cross_section'', ''constant_latitude'']) code_cells"
  proof (rule list_exI [where x = cross_sections_5])
    show "cross_sections_5 \<in> set code_cells" by (simp add: code_cells_eq)
    show "cell_invokes [''cross_section'', ''constant_latitude''] cross_sections_5" by code_simp
  qed
  have e2: "list_ex (cell_invokes [''Grid'', ''from_healpix'']) code_cells"
  proof (rule list_exI [where x = healpix_4])
    show "healpix_4 \<in> set code_cells" by (simp add: code_cells_eq)
    show "cell_invokes [''Grid'', ''from_healpix''] healpix_4" by code_simp
  qed
  have e3: "list_ex (cell_invokes [''weighted_mean'']) code_cells"
  proof (rule list_exI [where x = weighted_mean_8])
    show "weighted_mean_8 \<in> set code_cells" by (simp add: code_cells_eq)
    show "cell_invokes [''weighted_mean''] weighted_mean_8" by code_simp
  qed
  have e4: "list_ex (cell_invokes [''to_geodataframe'']) code_cells"
  proof (rule list_exI [where x = holoviz_6])
    show "holoviz_6 \<in> set code_cells" by (simp add: code_cells_eq)
    show "cell_invokes [''to_geodataframe''] holoviz_6" by code_simp
  qed
  have e5: "list_ex (cell_invokes [''remap'', ''nearest_neighbor'']) code_cells"
  proof (rule list_exI [where x = healpix_16])
    show "healpix_16 \<in> set code_cells" by (simp add: code_cells_eq)
    show "cell_invokes [''remap'', ''nearest_neighbor''] healpix_16" by code_simp
  qed
  have e6: "list_ex (cell_invokes [''remap'', ''inverse_distance_weighted'']) code_cells"
  proof (rule list_exI [where x = remapping_6])
    show "remapping_6 \<in> set code_cells" by (simp add: code_cells_eq)
    show "cell_invokes [''remap'', ''inverse_distance_weighted''] remapping_6" by code_simp
  qed
  have e7: "list_ex (cell_invokes [''get_spatial_hash'', ''()'', ''query'']) code_cells"
  proof (rule list_exI [where x = spatial_hashing_7])
    show "spatial_hashing_7 \<in> set code_cells" by (simp add: code_cells_eq)
    show "cell_invokes [''get_spatial_hash'', ''()'', ''query''] spatial_hashing_7" by code_simp
  qed
  have e8: "list_ex (cell_invokes [''Grid'', ''from_topology'']) code_cells"
  proof (rule list_exI [where x = custom_grid_6])
    show "custom_grid_6 \<in> set code_cells" by (simp add: code_cells_eq)
    show "cell_invokes [''Grid'', ''from_topology''] custom_grid_6" by code_simp
  qed
  have e9: "list_ex (cell_invokes [''subset'', ''bounding_box'']) code_cells"
  proof (rule list_exI [where x = subset_16])
    show "subset_16 \<in> set code_cells" by (simp add: code_cells_eq)
    show "cell_invokes [''subset'', ''bounding_box''] subset_16" by code_simp
  qed
  have e10: "list_ex (cell_invokes [''subset'', ''bounding_circle'']) code_cells"
  proof (rule list_exI [where x = subset_19])
    show "subset_19 \<in> set code_cells" by (simp add: code_cells_eq)
    show "cell_invokes [''subset'', ''bounding_circle''] subset_19" by code_simp
  qed
  have e11: "list_ex (cell_invokes [''subset'', ''nearest_neighbor'']) code_cells"
  proof (rule list_exI [where x = subset_22])
    show "subset_22 \<in> set code_cells" by (simp add: code_cells_eq)
    show "cell_invokes [''subset'', ''nearest_neighbor''] subset_22" by code_simp
  qed
  have e12: "list_ex (cell_invokes [''get_dual'']) code_cells"
  proof (rule list_exI [where x = dual_mesh_7])
    show "dual_mesh_7 \<in> set code_cells" by (simp add: code_cells_eq)
    show "cell_invokes [''get_dual''] dual_mesh_7" by code_simp
  qed
  show ?thesis
    by (intro conjI e1 e2 e3 e4 e5 e6 e7 e8 e9 e10 e11 e12)
qed

section \<open>C3: files written and read back\<close>



section \<open>C4: no exception handling\<close>


section \<open>C5: sequential notebooks and their state\<close>



section \<open>C6: the two printed means\<close>

text \<open>
  C6 is about the numbers the cross-sections notebook prints. What the notebook does is
  fixed: cell 5 takes the cross-section of \<^verbatim>\<open>psi\<close> at \<^verbatim>\<open>lat = 0\<close>, and cell 9
  prints the mean of \<^verbatim>\<open>uxds["psi"].data\<close> and the mean of the cross-section's data.
  The two numbers are results of the library's floating-point arithmetic on a data file
  that the repository does not hold, and the notebook stores no output: whether they
  differ is not a property of the notebooks.
\<close>

lemma cross_sections_means_printed:
  "at_cell 5 (observed fs cross_sections) =
     [Bound ''lat'' (VInt 0),
      Called (VAttr (VAttr (VItem (VObj 1) (VStr ''psi'')) ''cross_section'') ''constant_latitude'')
        [VInt 0] [] (VObj 3),
      Bound ''uxda_constant_lat'' (VObj 3)] \<and>
   at_cell 9 (observed fs cross_sections) =
     [Called (VAttr (VAttr (VItem (VObj 1) (VStr ''psi'')) ''data'') ''mean'') [] [] (VObj 6),
      Printed [VJoined [VStr ''Global Mean: '', VObj 6]],
      Called (VAttr (VAttr (VObj 3) ''data'') ''mean'') [] [] (VObj 7),
      Printed [VJoined [VStr ''Mean at '', VInt 0, VStr '' degrees lat: '', VObj 7]]]"
  unfolding cross_sections_trace by (intro conjI; code_simp)

section \<open>C7: the single-triangle example\<close>

text \<open>
  C7: the single-triangle example of the custom-topology notebook (cell 4) binds
  \<^verbatim>\<open>node_lon\<close> and \<^verbatim>\<open>node_lat\<close> to arrays of three literal values each and
  \<^verbatim>\<open>face_node_connectivity\<close> to an array of one row of three node indices; the next
  code cell (cell 6) passes these three objects to \<^verbatim>\<open>Grid.from_topology\<close>, nothing
  having touched them in between; and no cell of any notebook defines a class or a
  function.
\<close>

theorem C7_triangle_literals:
  "map snd (filter (\<lambda>ie. 4 \<le> fst ie \<and> fst ie \<le> 6) (observed fs custom_grid)) =
     [Called (VAttr (VModule ''numpy'') ''array'')
        [VList [VUnaryOp USub (VFloat ''20.0''), VFloat ''0.0'', VFloat ''20.0'']] [] (VObj 0),
      Bound ''node_lon'' (VObj 0),
      Called (VAttr (VModule ''numpy'') ''array'')
        [VList [VUnaryOp USub (VFloat ''10.0''), VFloat ''10.0'', VUnaryOp USub (VFloat ''10.0'')]]
        [] (VObj 1),
      Bound ''node_lat'' (VObj 1),
      Called (VAttr (VModule ''numpy'') ''array'') [VList [VList [VInt 0, VInt 1, VInt 2]]] []
        (VObj 2),
      Bound ''face_node_connectivity'' (VObj 2),
      Called (VAttr (VAttr (VModule ''uxarray'') ''Grid'') ''from_topology'') []
        [(''node_lon'', VObj 0), (''node_lat'', VObj 1), (''face_node_connectivity'', VObj 2)]
        (VObj 3),
      Bound ''uxgrid_tri'' (VObj 3)] \<and>
   list_all is_assign (body custom_grid_4) \<and> length (body custom_grid_4) = 3 \<and>
   list_all no_types code_cells"
proof -
  have a: "map snd (filter (\<lambda>ie. 4 \<le> fst ie \<and> fst ie \<le> 6) (observed fs custom_grid)) =
     [Called (VAttr (VModule ''numpy'') ''array'')
        [VList [VUnaryOp USub (VFloat ''20.0''), VFloat ''0.0'', VFloat ''20.0'']] [] (VObj 0),
      Bound ''node_lon'' (VObj 0),
      Called (VAttr (VModule ''numpy'') ''array'')
        [VList [VUnaryOp USub (VFloat ''10.0''), VFloat ''10.0'', VUnaryOp USub (VFloat ''10.0'')]]
        [] (VObj 1),
      Bound ''node_lat'' (VObj 1),
      Called (VAttr (VModule ''numpy'') ''array'') [VList [VList [VInt 0, VInt 1, VInt 2]]] []
        (VObj 2),
      Bound ''face_node_connectivity'' (VObj 2),
      Called (VAttr (VAttr (VModule ''uxarray'') ''Grid'') ''from_topology'') []
        [(''node_lon'', VObj 0), (''node_lat'', VObj 1), (''face_node_connectivity'', VObj 2)]
        (VObj 3),
      Bound ''uxgrid_tri'' (VObj 3)]"
    unfolding custom_grid_trace by code_simp
  have b: "list_all is_assign (body custom_grid_4)" "length (body custom_grid_4) = 3"
    by code_simp+
  have c: "list_all no_types code_cells"
    unfolding code_cells_eq by (simp only: list_all_Nil_iff list_all_Cons_iff) code_simp
  show ?thesis
    by (intro conjI a b c)
qed

section \<open>C8: the longitude interval is called with the latitudes\<close>

text \<open>
  C8: in the cross-sections notebook, cell 17 binds \<^verbatim>\<open>lons\<close> to \<open>[-25, 25]\<close> but calls
  \<^verbatim>\<open>cross_section.constant_longitude_interval\<close> with the variable \<^verbatim>\<open>lats\<close>, which
  cell 14 bound to \<open>[-20, 20]\<close>. On every run the result bound to
  \<^verbatim>\<open>uxda_constant_lon_interval\<close> is therefore the slice over \<open>[-20, 20]\<close>, while the
  title of its plot in cell 18, formatted from \<^verbatim>\<open>lons\<close>, reports -25 and 25.
\<close>

theorem C8_longitude_interval_takes_lats:
  "written_args [''cross_section'', ''constant_longitude_interval''] cross_sections_17 =
     [([Name ''lats''], [])] \<and>
   bindings ''lats'' (observed fs cross_sections) = [(14, VList [VInt (- 20), VInt 20])] \<and>
   bindings ''lons'' (observed fs cross_sections) = [(17, VList [VInt (- 25), VInt 25])] \<and>
   calls_of ''constant_longitude_interval'' (observed fs cross_sections) =
     [(17, Called (VAttr (VAttr (VItem (VObj 1) (VStr ''psi'')) ''cross_section'')
                    ''constant_longitude_interval'')
             [VList [VInt (- 20), VInt 20]] [] (VObj 14))] \<and>
   bindings ''uxda_constant_lon_interval'' (observed fs cross_sections) = [(17, VObj 14)] \<and>
   map (\<lambda>ie. (fst ie, method_of (snd ie), map_of (kws_of (snd ie)) ''title''))
       (filter (\<lambda>ie. receiver (snd ie) = VObj 14) (observed fs cross_sections)) =
     [(18, ''plot'', Some (VStr ''Cross Section between -25 and 25 degrees longitude''))]"
proof -
  have a: "written_args [''cross_section'', ''constant_longitude_interval''] cross_sections_17 =
     [([Name ''lats''], [])]"
    by code_simp
  show ?thesis
    unfolding cross_sections_trace by (intro conjI a; code_simp)
qed

section \<open>C9: the reconstruct argument is a string\<close>

text \<open>
  C9: the first call of \<^verbatim>\<open>get_spatial_hash\<close> in the spatial-hashing notebook (cell 5)
  passes the string \<^verbatim>\<open>"False"\<close> for \<^verbatim>\<open>reconstruct\<close>. A non-empty string is true in
  Python, so the argument is not the boolean \<^verbatim>\<open>False\<close> that the prose of cell 4 gives as
  the default of this bool parameter.
\<close>

theorem C9_reconstruct_is_a_string:
  "written_args [''get_spatial_hash''] spatial_hashing_5 =
     [([], [Keyword (Some ''reconstruct'') (Constant (CStr ''False''))])] \<and>
   map (\<lambda>ie. (fst ie, args_of (snd ie), kws_of (snd ie)))
       (calls_of ''get_spatial_hash'' (observed fs spatial_hashing)) =
     [(5, [], [(''reconstruct'', VStr ''False'')]), (7, [], [])] \<and>
   truthy (VStr ''False'') = Some True \<and>
   truthy (VBool False) = Some False \<and>
   VStr ''False'' \<noteq> VBool False \<and>
   says spatial_hashing_4 ''`reconstruct` is a bool variable'' \<and>
   says spatial_hashing_4 ''The default parameter is `False`.''"
proof -
  have a: "written_args [''get_spatial_hash''] spatial_hashing_5 =
     [([], [Keyword (Some ''reconstruct'') (Constant (CStr ''False''))])]"
    by code_simp
  have b: "truthy (VStr ''False'') = Some True" "truthy (VBool False) = Some False"
    "VStr ''False'' \<noteq> VBool False"
    by simp_all
  have c: "says spatial_hashing_4 ''`reconstruct` is a bool variable''"
    "says spatial_hashing_4 ''The default parameter is `False`.''"
    by code_simp+
  have d: "map (\<lambda>ie. (fst ie, args_of (snd ie), kws_of (snd ie)))
       (calls_of ''get_spatial_hash'' (observed fs spatial_hashing)) =
     [(5, [], [(''reconstruct'', VStr ''False'')]), (7, [], [])]"
    unfolding spatial_hashing_trace by code_simp
  show ?thesis
    by (intro conjI a b c d)
qed

section \<open>C10: pixels_only in the HEALPix notebook\<close>

text \<open>
  C10: in the HEALPix notebook the prose of cell 5 lists the variables that describe the
  cell boundaries and says that \<^verbatim>\<open>pixels_only\<close> can be set to \<^verbatim>\<open>True\<close> if the
  boundaries are to be computed upfront; the cell that follows it (cell 6) calls
  \<^verbatim>\<open>Grid.from_healpix(zoom=3, pixels_only=False)\<close>. The prose of cell 7 turns to a
  grid loaded without the connectivity upfront, and the cell that follows it (cell 8)
  calls \<^verbatim>\<open>Grid.from_healpix(zoom=3, pixels_only=True)\<close> and reads
  \<^verbatim>\<open>face_node_connectivity\<close> from the result. In the code, boundaries upfront is
  \<^verbatim>\<open>pixels_only=False\<close>: the opposite of the prose.
\<close>

theorem C10_pixels_only:
  "take 4 (drop 5 healpix) = [healpix_5, healpix_6, healpix_7, healpix_8] \<and>
   says healpix_5 ''- ``node_lon``: Longitude of the corners of each cell'' \<and>
   says healpix_5 ''- ``node_lat``: Latitude of the corners of each cell'' \<and>
   says healpix_5 ''- ``face_node_connectivity``: The indices of the nodes that surround each face'' \<and>
   says healpix_5 ''``pixels_only``, is provided which can be set to ``True`` if you require the boundaries to be computed upfront.'' \<and>
   at_cell 6 (observed fs healpix) =
     [Called (VAttr (VAttr (VModule ''uxarray'') ''Grid'') ''from_healpix'') []
        [(''zoom'', VInt 3), (''pixels_only'', VBool False)] (VObj 1),
      Out (VObj 1)] \<and>
   says healpix_7 ''specifying that you do not want the connectivity upfront, they can still be constructed when desired'' \<and>
   at_cell 8 (observed fs healpix) =
     [Called (VAttr (VAttr (VModule ''uxarray'') ''Grid'') ''from_healpix'') []
        [(''zoom'', VInt 3), (''pixels_only'', VBool True)] (VObj 2),
      Out (VAttr (VObj 2) ''face_node_connectivity'')]"
proof -
  have a: "take 4 (drop 5 healpix) = [healpix_5, healpix_6, healpix_7, healpix_8]"
    by (simp add: healpix_def)
  have b: "says healpix_5 ''- ``node_lon``: Longitude of the corners of each cell''"
    "says healpix_5 ''- ``node_lat``: Latitude of the corners of each cell''"
    "says healpix_5 ''- ``face_node_connectivity``: The indices of the nodes that surround each face''"
    "says healpix_5 ''``pixels_only``, is provided which can be set to ``True`` if you require the boundaries to be computed upfront.''"
    "says healpix_7 ''specifying that you do not want the connectivity upfront, they can still be constructed when desired''"
    by code_simp+
  have c: "at_cell 6 (observed fs healpix) =
     [Called (VAttr (VAttr (VModule ''uxarray'') ''Grid'') ''from_healpix'') []
        [(''zoom'', VInt 3), (''pixels_only'', VBool False)] (VObj 1),
      Out (VObj 1)]"
    "at_cell 8 (observed fs healpix) =
     [Called (VAttr (VAttr (VModule ''uxarray'') ''Grid'') ''from_healpix'') []
        [(''zoom'', VInt 3), (''pixels_only'', VBool True)] (VObj 2),
      Out (VAttr (VObj 2) ''face_node_connectivity'')]"
    unfolding healpix_trace by code_simp+
  show ?thesis
    by (intro conjI a b c)
qed


end
